theory Spec2Isabelle
  imports Main
begin

section \<open>JavaScript values\<close>

text \<open>
  The driver is JavaScript run by k6. Values that cross the wire or end up in metric tags
  are JSON-shaped, so one datatype carries them. A number is a double: \<open>JNum n\<close> is the
  double whose value is the integer \<open>n\<close>, \<open>JInf True\<close> and \<open>JInf False\<close> are
  \<open>Infinity\<close> and \<open>-Infinity\<close>, \<open>JNaN\<close> is \<open>NaN\<close>. A number with a fraction has
  no representation here: nonces, counts, sizes and milliseconds are integers. An object
  is its list of own properties in insertion order. Strings are lists of code units.
\<close>

datatype jsval =
    JUndefined
  | JNull
  | JBool bool
  | JNum int
  | JNaN
  | JInf bool
  | JStr string
  | JArr "jsval list"
  | JObj "(string \<times> jsval) list"

type_synonym jsobject = "(string \<times> jsval) list"

datatype js_exn = TypeError string | Error string

text \<open>ToBoolean, and the \<open>a || b\<close> operator built on it.\<close>

fun truthy :: "jsval \<Rightarrow> bool" where
  "truthy JUndefined = False"
| "truthy JNull = False"
| "truthy (JBool b) = b"
| "truthy (JNum n) = (n \<noteq> 0)"
| "truthy JNaN = False"
| "truthy (JInf s) = True"
| "truthy (JStr s) = (s \<noteq> [])"
| "truthy (JArr xs) = True"
| "truthy (JObj fs) = True"

definition js_or :: "jsval \<Rightarrow> jsval \<Rightarrow> jsval" where
  "js_or a b = (if truthy a then a else b)"

text \<open>Reading and writing a property of an object literal; \<open>{...a, ...b}\<close>.\<close>

fun obj_get :: "jsobject \<Rightarrow> string \<Rightarrow> jsval" where
  "obj_get [] k = JUndefined"
| "obj_get ((k', v) # fs) k = (if k' = k then v else obj_get fs k)"

fun obj_set :: "string \<Rightarrow> jsval \<Rightarrow> jsobject \<Rightarrow> jsobject" where
  "obj_set k v [] = [(k, v)]"
| "obj_set k v ((k', v') # fs) = (if k' = k then (k, v) # fs else (k', v') # obj_set k v fs)"

fun obj_spread :: "jsobject \<Rightarrow> jsobject \<Rightarrow> jsobject" where
  "obj_spread a [] = a"
| "obj_spread a ((k, v) # fs) = obj_spread (obj_set k v a) fs"

text \<open>\<open>String.prototype.startsWith\<close> and \<open>String.prototype.includes\<close>.\<close>

fun startsWith :: "string \<Rightarrow> string \<Rightarrow> bool" where
  "startsWith s [] = True"
| "startsWith [] (c # cs) = False"
| "startsWith (x # xs) (c # cs) = (x = c \<and> startsWith xs cs)"

fun str_includes :: "string \<Rightarrow> string \<Rightarrow> bool" where
  "str_includes [] t = (t = [])"
| "str_includes (x # xs) t = (startsWith (x # xs) t \<or> str_includes xs t)"

subsection \<open>Number to string, string to number\<close>

definition digit_char :: "nat \<Rightarrow> char" where
  "digit_char d = ''0123456789abcdef'' ! d"

function show_nat :: "nat \<Rightarrow> string" where
  "show_nat n = (if n < 10 then [digit_char n] else show_nat (n div 10) @ [digit_char (n mod 10)])"
  by pat_completeness auto
termination
  by (relation "measure id") auto

declare show_nat.simps [simp del]

definition show_int :: "int \<Rightarrow> string" where
  "show_int i = (if i < 0 then CHR ''-'' # show_nat (nat (- i)) else show_nat (nat i))"

definition digit_value :: "char \<Rightarrow> nat option" where
  "digit_value c =
     (let n = (of_char c :: nat) in
      if 48 \<le> n \<and> n \<le> 57 then Some (n - 48)
      else if 97 \<le> n \<and> n \<le> 102 then Some (n - 87)
      else if 65 \<le> n \<and> n \<le> 70 then Some (n - 55)
      else None)"

fun read_digits :: "nat \<Rightarrow> nat \<Rightarrow> string \<Rightarrow> nat option" where
  "read_digits base acc [] = Some acc"
| "read_digits base acc (c # cs) =
     (case digit_value c of
        None \<Rightarrow> None
      | Some d \<Rightarrow> if d < base then read_digits base (acc * base + d) cs else None)"

text \<open>
  The double nearest to an integer. A double carries 53 significant bits: an integer
  below \<open>2^53\<close> in absolute value is a double, a larger one is rounded to 53 bits, to
  the even neighbour when it lies halfway, and what rounds to \<open>2^1024\<close> or more is
  \<open>Infinity\<close>.
\<close>

function bit_length :: "nat \<Rightarrow> nat" where
  "bit_length n = (if n = 0 then 0 else Suc (bit_length (n div 2)))"
  by pat_completeness auto
termination
  by (relation "measure id") auto

declare bit_length.simps [simp del]

definition round_to_double :: "nat \<Rightarrow> nat" where
  "round_to_double n =
     (if n < 2 ^ 53 then n
      else
        (let e = bit_length n - 53;
             q = n div 2 ^ e;
             r = n mod 2 ^ e
         in (if 2 ^ e < 2 * r \<or> (2 ^ e = 2 * r \<and> odd q) then q + 1 else q) * 2 ^ e))"

definition to_double :: "int \<Rightarrow> jsval" where
  "to_double i =
     (let m = round_to_double (nat \<bar>i\<bar>)
      in if 2 ^ 1024 \<le> m then JInf (0 < i)
         else JNum (if i < 0 then - int m else int m))"

text \<open>
  StringToNumber for the literals a node sends: the empty string, \<open>0x\<close> hexadecimal
  quantities and plain decimal integers. Anything else is \<open>NaN\<close> here (fractions,
  exponents and surrounding white space are outside the model).
\<close>

definition string_to_number :: "string \<Rightarrow> jsval" where
  "string_to_number s =
     (if s = [] then JNum 0
      else if startsWith s ''0x'' \<or> startsWith s ''0X'' then
        (if drop 2 s = [] then JNaN
         else case read_digits 16 0 (drop 2 s) of None \<Rightarrow> JNaN | Some n \<Rightarrow> to_double (int n))
      else if startsWith s ''-'' then
        (if drop 1 s = [] then JNaN
         else case read_digits 10 0 (drop 1 s) of None \<Rightarrow> JNaN | Some n \<Rightarrow> to_double (- int n))
      else case read_digits 10 0 s of None \<Rightarrow> JNaN | Some n \<Rightarrow> to_double (int n))"

fun join_with :: "string \<Rightarrow> string list \<Rightarrow> string" where
  "join_with sep [] = []"
| "join_with sep [x] = x"
| "join_with sep (x # y # ys) = x @ sep @ join_with sep (y # ys)"

text \<open>
  ToString (template literals, \<open>String(v)\<close>) and ToNumber (\<open>Number(v)\<close>). A number
  prints as its decimal digits, which is what JavaScript prints below \<open>10^21\<close>.
\<close>

fun js_String :: "jsval \<Rightarrow> string"
  and js_String_elems :: "jsval list \<Rightarrow> string list" where
  "js_String JUndefined = ''undefined''"
| "js_String JNull = ''null''"
| "js_String (JBool b) = (if b then ''true'' else ''false'')"
| "js_String (JNum n) = show_int n"
| "js_String JNaN = ''NaN''"
| "js_String (JInf s) = (if s then ''Infinity'' else ''-Infinity'')"
| "js_String (JStr s) = s"
| "js_String (JArr xs) = join_with '','' (js_String_elems xs)"
| "js_String (JObj fs) = ''[object Object]''"
| "js_String_elems [] = []"
| "js_String_elems (x # xs) =
     (case x of JUndefined \<Rightarrow> [] | JNull \<Rightarrow> [] | _ \<Rightarrow> js_String x) # js_String_elems xs"

fun js_Number :: "jsval \<Rightarrow> jsval" where
  "js_Number JUndefined = JNaN"
| "js_Number JNull = JNum 0"
| "js_Number (JBool b) = JNum (if b then 1 else 0)"
| "js_Number (JNum n) = JNum n"
| "js_Number JNaN = JNaN"
| "js_Number (JInf s) = JInf s"
| "js_Number (JStr s) = string_to_number s"
| "js_Number (JArr xs) = string_to_number (js_String (JArr xs))"
| "js_Number (JObj fs) = JNaN"

subsection \<open>JSON.stringify\<close>

definition json_escape_char :: "char \<Rightarrow> string" where
  "json_escape_char c =
     (let n = (of_char c :: nat) in
      if n = 34 then [CHR 0x5C, CHR 0x22]
      else if n = 92 then [CHR 0x5C, CHR 0x5C]
      else if n = 8 then [CHR 0x5C, CHR ''b'']
      else if n = 9 then [CHR 0x5C, CHR ''t'']
      else if n = 10 then [CHR 0x5C, CHR ''n'']
      else if n = 12 then [CHR 0x5C, CHR ''f'']
      else if n = 13 then [CHR 0x5C, CHR ''r'']
      else if n < 32 then [CHR 0x5C, CHR ''u'', CHR ''0'', CHR ''0'', digit_char (n div 16), digit_char (n mod 16)]
      else [c])"

definition json_quote :: "string \<Rightarrow> string" where
  "json_quote s = [CHR 0x22] @ concat (map json_escape_char s) @ [CHR 0x22]"

text \<open>
  \<open>None\<close> is the result \<open>undefined\<close>: a property whose value serialises to
  \<open>undefined\<close> is left out of an object, and becomes \<open>null\<close> inside an array.
\<close>

fun JSON_stringify :: "jsval \<Rightarrow> string option"
  and json_elems :: "jsval list \<Rightarrow> string list"
  and json_members :: "(string \<times> jsval) list \<Rightarrow> string list" where
  "JSON_stringify JUndefined = None"
| "JSON_stringify JNull = Some ''null''"
| "JSON_stringify (JBool b) = Some (if b then ''true'' else ''false'')"
| "JSON_stringify (JNum n) = Some (show_int n)"
| "JSON_stringify JNaN = Some ''null''"
| "JSON_stringify (JInf s) = Some ''null''"
| "JSON_stringify (JStr s) = Some (json_quote s)"
| "JSON_stringify (JArr xs) = Some (''['' @ join_with '','' (json_elems xs) @ '']'')"
| "JSON_stringify (JObj fs) = Some (''{'' @ join_with '','' (json_members fs) @ ''}'')"
| "json_elems [] = []"
| "json_elems (x # xs) =
     (case JSON_stringify x of None \<Rightarrow> ''null'' | Some s \<Rightarrow> s) # json_elems xs"
| "json_members [] = []"
| "json_members ((k, v) # fs) =
     (case JSON_stringify v of
        None \<Rightarrow> json_members fs
      | Some s \<Rightarrow> (json_quote k @ '':'' @ s) # json_members fs)"

section \<open>lib/rpc-client.js: request payload\<close>

text \<open>
  \<^verbatim>\<open>JSON.stringify({ jsonrpc: '2.0', id, method, params: params || [] })\<close>
\<close>

definition rpc_envelope :: "jsval \<Rightarrow> jsval \<Rightarrow> jsval \<Rightarrow> jsobject" where
  "rpc_envelope rid method params =
     [(''jsonrpc'', JStr ''2.0''), (''id'', rid), (''method'', method),
      (''params'', js_or params (JArr []))]"

definition buildRpcRequest :: "jsval \<Rightarrow> jsval \<Rightarrow> jsval \<Rightarrow> string option" where
  "buildRpcRequest rid method params = JSON_stringify (JObj (rpc_envelope rid method params))"

section \<open>lib/metrics.js\<close>

text \<open>
  A metric object of k6 is driven only through \<open>add(value, tags)\<close>. The state keeps
  every such call, in order, as a sample \<open>(metric name, value, tags)\<close>. Beside the
  samples the state holds the clock read by \<open>Date.now()\<close> (milliseconds), the HTTP
  POSTs issued so far (url, body, request tags), the milliseconds passed to each
  \<open>sleep\<close>, the field sets handed to the transaction signer, the number of
  \<open>ws.connect\<close> calls so far and the payloads sent over the sockets.
\<close>

type_synonym sample = "string \<times> jsval \<times> jsobject"

record world =
  now :: int
  posted :: "(string \<times> string option \<times> jsobject) list"
  samples :: "sample list"
  slept :: "int list"
  signed :: "jsobject list"
  connects :: nat
  sent :: "(string \<times> string option) list"

abbreviation rtt :: string where "rtt \<equiv> ''somnia_http_rtt''"
abbreviation rpcLatency :: string where "rpcLatency \<equiv> ''somnia_rpc_latency''"
abbreviation wsLatency :: string where "wsLatency \<equiv> ''somnia_ws_latency''"
abbreviation successCount :: string where "successCount \<equiv> ''somnia_success_count''"
abbreviation errorCount :: string where "errorCount \<equiv> ''somnia_error_count''"
abbreviation retryCount :: string where "retryCount \<equiv> ''somnia_retry_count''"
abbreviation errorRate :: string where "errorRate \<equiv> ''somnia_error_rate''"
abbreviation timeoutRate :: string where "timeoutRate \<equiv> ''somnia_timeout_rate''"
abbreviation httpErrorRate :: string where "httpErrorRate \<equiv> ''somnia_http_error_rate''"
abbreviation activeConnections :: string where "activeConnections \<equiv> ''somnia_active_ws_connections''"
abbreviation currentBlockHeight :: string where "currentBlockHeight \<equiv> ''somnia_current_block_height''"
abbreviation gasPrice :: string where "gasPrice \<equiv> ''somnia_current_gas_price''"
abbreviation methodLatency :: string where "methodLatency \<equiv> ''somnia_method_latency''"
abbreviation methodSuccess :: string where "methodSuccess \<equiv> ''somnia_method_success''"
abbreviation methodErrors :: string where "methodErrors \<equiv> ''somnia_method_errors''"
abbreviation timeoutCount :: string where "timeoutCount \<equiv> ''somnia_timeout_count''"
abbreviation timeoutByMethod :: string where "timeoutByMethod \<equiv> ''somnia_timeout_by_method''"
abbreviation timeoutLatency :: string where "timeoutLatency \<equiv> ''somnia_timeout_latency''"

definition metric_add :: "string \<Rightarrow> jsval \<Rightarrow> jsobject \<Rightarrow> world \<Rightarrow> world" where
  "metric_add m v tags w = w\<lparr>samples := samples w @ [(m, v, tags)]\<rparr>"

text \<open>\<open>if (c) metric.add(v, tags)\<close>.\<close>

definition metric_add_if :: "bool \<Rightarrow> string \<Rightarrow> jsval \<Rightarrow> jsobject \<Rightarrow> world \<Rightarrow> world" where
  "metric_add_if c m v tags w = (if c then metric_add m v tags w else w)"

text \<open>
  The samples a run added to a state, and the sum of one metric's values, which is what
  a Counter shows.
\<close>

definition emitted :: "world \<Rightarrow> world \<Rightarrow> sample list" where
  "emitted w w' = drop (length (samples w)) (samples w')"

fun sample_amount :: "sample \<Rightarrow> int" where
  "sample_amount (m, JNum n, tags) = n"
| "sample_amount (m, v, tags) = 0"

definition metric_total :: "string \<Rightarrow> sample list \<Rightarrow> int" where
  "metric_total m ss = sum_list (map sample_amount (filter (\<lambda>s. fst s = m) ss))"

text \<open>
  What a Gauge shows: the last value added to it, \<open>None\<close> before the first
  \<open>add\<close>. The three gauges are declared with \<open>new Gauge(...)\<close> of k6; the metric
  catalogue of the repository (config/scenarios-config.json) describes
  \<open>somnia_current_block_height\<close> as the latest observed block number and
  \<open>somnia_active_ws_connections\<close> as the current number of active connections.
\<close>

definition gauge_value :: "string \<Rightarrow> sample list \<Rightarrow> jsval option" where
  "gauge_value m ss =
     (case filter (\<lambda>s. fst s = m) ss of
        [] \<Rightarrow> None
      | x # xs \<Rightarrow> Some (fst (snd (last (x # xs)))))"

text \<open>\<open>a === b\<close>; two arrays or objects are never the same reference here.\<close>

fun strict_eq :: "jsval \<Rightarrow> jsval \<Rightarrow> bool" where
  "strict_eq JUndefined JUndefined = True"
| "strict_eq JNull JNull = True"
| "strict_eq (JBool a) (JBool b) = (a = b)"
| "strict_eq (JNum a) (JNum b) = (a = b)"
| "strict_eq (JInf a) (JInf b) = (a = b)"
| "strict_eq (JStr a) (JStr b) = (a = b)"
| "strict_eq a b = False"

definition addRTT :: "int \<Rightarrow> jsobject \<Rightarrow> world \<Rightarrow> world" where
  "addRTT ms tags w =
     (let w1 = metric_add rtt (JNum ms) tags w;
          w2 = metric_add_if (truthy (obj_get tags ''method'')) methodLatency (JNum ms) tags w1
      in metric_add
           (if strict_eq (obj_get tags ''transport'') (JStr ''websocket'') then wsLatency else rpcLatency)
           (JNum ms) tags w2)"

definition recordSuccess :: "jsobject \<Rightarrow> world \<Rightarrow> world" where
  "recordSuccess tags w =
     metric_add_if (truthy (obj_get tags ''method'')) methodSuccess (JNum 1) tags
       (metric_add successCount (JNum 1) tags w)"

text \<open>
  \<open>recordFailure(tags, reason, options = {})\<close>; the call returns \<open>undefined\<close>, so the
  model returns the state alone. The closing \<open>console.error\<close> line writes no metric
  and is left out.
\<close>

definition enrichedTags :: "jsobject \<Rightarrow> string \<Rightarrow> jsobject \<Rightarrow> jsobject" where
  "enrichedTags tags reason options =
     obj_set ''retry_attempt'' (js_or (obj_get options ''retryAttempt'') (JNum 0))
       (obj_set ''reason'' (JStr (take 100 reason)) tags)"

definition recordFailure :: "jsobject \<Rightarrow> string \<Rightarrow> jsobject \<Rightarrow> world \<Rightarrow> world" where
  "recordFailure tags reason options w =
     (let e = enrichedTags tags reason options;
          w1 = metric_add errorCount (JNum 1) e w;
          w2 = metric_add errorRate (JNum 1) e w1;
          w3 = metric_add_if (truthy (obj_get tags ''method'')) methodErrors (JNum 1) e w2;
          w4 = metric_add_if (truthy (obj_get options ''isTimeout'')) timeoutRate (JNum 1) e w3
      in metric_add_if (truthy (obj_get options ''isHttpError'')) httpErrorRate (JNum 1) e w4)"

definition updateStateMetrics :: "string \<Rightarrow> jsval \<Rightarrow> jsobject \<Rightarrow> world \<Rightarrow> world" where
  "updateStateMetrics method result tags w =
     metric_add_if (method = ''eth_gasPrice'' \<and> truthy result) gasPrice (js_Number result) tags
       (metric_add_if (method = ''eth_blockNumber'' \<and> truthy result) currentBlockHeight
          (js_Number result) tags w)"

section \<open>lib/rpc-client.js: jsonCall\<close>

text \<open>
  What \<open>http.post\<close> hands back. \<open>error_code\<close> is \<open>0\<close> when k6 reports no
  network error; \<open>content_type\<close> is \<open>headers['Content-Type']\<close>; \<open>json\<close> is what
  \<open>res.json()\<close> returns or throws; \<open>timingMetadata\<close> is the
  \<open>requestStartTime\<close> that the \<open>post\<close> wrapper of somnia_rpc_perf.js attaches.
\<close>

record http_response =
  error_code :: int
  status :: int
  content_type :: "string option"
  body :: "string option"
  timings_duration :: int
  json :: "js_exn + jsval"
  timingMetadata :: "int option"

datatype http_outcome = Thrown "string option" | Response http_response

text \<open>
  The run's configuration and its surroundings. \<open>transport k\<close> is the outcome of the
  \<open>k\<close>-th HTTP POST and the milliseconds it took; \<open>fresh_id k\<close> is the request
  id that \<open>Date.now()\<close> and \<open>Math.random()\<close> give to that request;
  \<open>show_threshold t\<close> is \<open>String(t * 0.95)\<close>.
\<close>

record env =
  MAX_RETRIES :: int
  RETRY_DELAY_MS :: int
  PARSED_TIMEOUT_MS :: int
  RUN_ID :: jsval
  SCENARIO_TYPE :: jsval
  REGION :: string
  transport :: "nat \<Rightarrow> int \<times> http_outcome"
  fresh_id :: "nat \<Rightarrow> jsval"
  show_threshold :: "int \<Rightarrow> string"

fun exn_message :: "js_exn \<Rightarrow> string" where
  "exn_message (TypeError m) = m"
| "exn_message (Error m) = m"

fun message_text :: "string option \<Rightarrow> string" where
  "message_text None = ''undefined''"
| "message_text (Some m) = m"

definition js_then :: "js_exn + 'a \<Rightarrow> ('a \<Rightarrow> js_exn + 'b) \<Rightarrow> js_exn + 'b" where
  "js_then r f = (case r of Inl e \<Rightarrow> Inl e | Inr x \<Rightarrow> f x)"

text \<open>
  \<open>v.k\<close> and \<open>v.hasOwnProperty(k)\<close> on a parsed JSON value. Both throw on
  \<open>null\<close>; the second also throws when the object carries an own member named
  \<open>hasOwnProperty\<close>, which JSON can only fill with a non-function.
\<close>

fun js_prop :: "jsval \<Rightarrow> string \<Rightarrow> js_exn + jsval" where
  "js_prop JUndefined k = Inl (TypeError ''Cannot read property of undefined'')"
| "js_prop JNull k = Inl (TypeError ''Cannot read property of null'')"
| "js_prop (JObj fs) k = Inr (obj_get fs k)"
| "js_prop (JArr xs) k = Inr (if k = ''length'' then JNum (int (length xs)) else JUndefined)"
| "js_prop (JStr s) k = Inr (if k = ''length'' then JNum (int (length s)) else JUndefined)"
| "js_prop v k = Inr JUndefined"

fun js_hasOwnProperty :: "jsval \<Rightarrow> string \<Rightarrow> js_exn + bool" where
  "js_hasOwnProperty JUndefined k = Inl (TypeError ''Cannot read property of undefined'')"
| "js_hasOwnProperty JNull k = Inl (TypeError ''Cannot read property of null'')"
| "js_hasOwnProperty (JObj fs) k =
     (if ''hasOwnProperty'' \<in> set (map fst fs) then Inl (TypeError ''hasOwnProperty is not a function'')
      else Inr (k \<in> set (map fst fs)))"
| "js_hasOwnProperty (JArr xs) k = Inr (k = ''length'' \<or> k \<in> set (map show_nat [0..<length xs]))"
| "js_hasOwnProperty (JStr s) k = Inr (k = ''length'' \<or> k \<in> set (map show_nat [0..<length s]))"
| "js_hasOwnProperty v k = Inr False"

text \<open>
  k6's \<open>check(val, sets, tags)\<close> calls every predicate of the set in turn and answers
  whether all held; an exception raised by a predicate leaves \<open>check\<close>. The samples
  of k6's built-in \<open>checks\<close> metric are not among the metrics of this program and are
  not recorded.
\<close>

fun check :: "(js_exn + bool) list \<Rightarrow> js_exn + bool" where
  "check [] = Inr True"
| "check (Inl e # cs) = Inl e"
| "check (Inr b # cs) = (case check cs of Inl e \<Rightarrow> Inl e | Inr r \<Rightarrow> Inr (b \<and> r))"

definition sleep :: "int \<Rightarrow> world \<Rightarrow> world" where
  "sleep ms w = w\<lparr>now := now w + max 0 ms, slept := slept w @ [ms]\<rparr>"

definition post :: "env \<Rightarrow> string \<Rightarrow> string option \<Rightarrow> jsobject \<Rightarrow> world \<Rightarrow> http_outcome \<times> world" where
  "post env url payload tags w =
     (let (elapsed, out) = transport env (length (posted w))
      in (out, w\<lparr>now := now w + elapsed, posted := posted w @ [(url, payload, tags)]\<rparr>))"

definition baseTags :: "env \<Rightarrow> string \<Rightarrow> string \<Rightarrow> int \<Rightarrow> jsobject \<Rightarrow> jsobject" where
  "baseTags env url method retryAttempt extraTags =
     obj_spread
       [(''run_id'', js_or (RUN_ID env) (JStr ''unknown'')),
        (''scenario'', js_or (SCENARIO_TYPE env) (JStr ''unknown'')),
        (''endpoint'', JStr url),
        (''method'', JStr method),
        (''transport'', JStr ''http''),
        (''retry_attempt'', JNum retryAttempt)]
       extraTags"

definition httpChecks :: "http_response \<Rightarrow> bool" where
  "httpChecks r =
     (status r = 200
      \<and> str_includes (case content_type r of None \<Rightarrow> [] | Some c \<Rightarrow> c) ''application/json''
      \<and> (case body r of None \<Rightarrow> False | Some b \<Rightarrow> 0 < length b)
      \<and> timings_duration r < 30000)"

definition structureChecks :: "jsval \<Rightarrow> jsval \<Rightarrow> js_exn + bool" where
  "structureChecks reqId v =
     check
       [js_then (js_prop v ''jsonrpc'') (\<lambda>x. Inr (strict_eq x (JStr ''2.0''))),
        js_then (js_prop v ''id'') (\<lambda>x. Inr (strict_eq x reqId)),
        js_then (js_hasOwnProperty v ''result'')
          (\<lambda>has. if has then Inr True else js_hasOwnProperty v ''error'')]"

definition resultChecks :: "(jsval \<Rightarrow> bool) \<Rightarrow> jsval \<Rightarrow> js_exn + bool" where
  "resultChecks expectFn v =
     check
       [js_then (js_hasOwnProperty v ''result'')
          (\<lambda>has. if has then js_then (js_prop v ''result'') (\<lambda>x. Inr (\<not> strict_eq x JNull))
                  else Inr False),
        js_then (js_prop v ''result'') (\<lambda>x. Inr (expectFn x))]"

definition rpcErrorTags :: "jsobject \<Rightarrow> jsval \<Rightarrow> js_exn + jsobject" where
  "rpcErrorTags tags rpcError =
     js_then (js_prop rpcError ''code'') (\<lambda>code.
     js_then (js_prop rpcError ''message'') (\<lambda>msg.
       Inr (obj_spread tags
             [(''stage'', JStr ''rpc_error''),
              (''rpc_error_code'', code),
              (''rpc_error_message'', JStr (take 100 (js_String msg)))])))"

definition rpcErrorReason :: "jsval \<Rightarrow> js_exn + string" where
  "rpcErrorReason rpcError =
     js_then (js_prop rpcError ''code'') (\<lambda>code.
     js_then (js_prop rpcError ''message'') (\<lambda>msg.
       Inr (''RPC error '' @ js_String code @ '': '' @ js_String msg)))"

text \<open>The part of \<open>jsonCall\<close> below the network-level checks: no branch of it retries.\<close>

definition jsonCall_response ::
  "string \<Rightarrow> (jsval \<Rightarrow> bool) \<Rightarrow> int \<Rightarrow> jsval \<Rightarrow> int \<Rightarrow> jsobject \<Rightarrow> http_response \<Rightarrow> world
     \<Rightarrow> (js_exn + jsval) \<times> world" where
  "jsonCall_response method expectFn retryAttempt reqId startTime tags res w =
     (if \<not> httpChecks res then
        (Inr JUndefined,
         recordFailure (obj_spread tags [(''stage'', JStr ''http''), (''status'', JNum (status res))])
           (''HTTP validation failed: status='' @ show_int (status res))
           [(''retryAttempt'', JNum retryAttempt), (''isHttpError'', JBool True)] w)
      else case json res of
        Inl e \<Rightarrow>
          (Inr JUndefined,
           recordFailure (obj_spread tags [(''stage'', JStr ''json_parse'')])
             (''JSON parse error: '' @ exn_message e) [(''retryAttempt'', JNum retryAttempt)] w)
      | Inr v \<Rightarrow>
          (case structureChecks reqId v of
             Inl e \<Rightarrow> (Inl e, w)
           | Inr False \<Rightarrow>
               (Inr JUndefined,
                recordFailure (obj_spread tags [(''stage'', JStr ''rpc_structure'')])
                  ''Invalid JSON-RPC response structure'' [(''retryAttempt'', JNum retryAttempt)] w)
           | Inr True \<Rightarrow>
               (case js_prop v ''error'' of
                  Inl e \<Rightarrow> (Inl e, w)
                | Inr rpcError \<Rightarrow>
                    if truthy rpcError then
                      (case (rpcErrorTags tags rpcError, rpcErrorReason rpcError) of
                         (Inr errorTags, Inr reason) \<Rightarrow>
                           (Inr JUndefined,
                            recordFailure errorTags reason [(''retryAttempt'', JNum retryAttempt)] w)
                       | (Inl e, _) \<Rightarrow> (Inl e, w)
                       | (_, Inl e) \<Rightarrow> (Inl e, w))
                    else
                      (case resultChecks expectFn v of
                         Inl e \<Rightarrow> (Inl e, w)
                       | Inr False \<Rightarrow>
                           (Inr JUndefined,
                            recordFailure (obj_spread tags [(''stage'', JStr ''result_validation'')])
                              ''Result validation failed'' [(''retryAttempt'', JNum retryAttempt)] w)
                       | Inr True \<Rightarrow>
                           (case js_prop v ''result'' of
                              Inl e \<Rightarrow> (Inl e, w)
                            | Inr result \<Rightarrow>
                                (Inr result,
                                 updateStateMetrics method result tags
                                   (addRTT (now w - startTime) tags (recordSuccess tags w))))))))"

text \<open>
  \<open>jsonCall(url, method, params, extraTags = {}, expectFn = _ => true, retryAttempt = 0)\<close>.
  The result is what the call returns (\<open>Inr\<close>) or throws (\<open>Inl\<close>), with the state
  it leaves. A failure path ends in \<open>return recordFailure(...)\<close>, that is, returns
  \<open>undefined\<close>.
\<close>

function jsonCall ::
  "env \<Rightarrow> string \<Rightarrow> string \<Rightarrow> jsval \<Rightarrow> jsobject \<Rightarrow> (jsval \<Rightarrow> bool) \<Rightarrow> int \<Rightarrow> world
     \<Rightarrow> (js_exn + jsval) \<times> world" where
  "jsonCall env url method params extraTags expectFn retryAttempt w =
     (case post env url
             (buildRpcRequest (fresh_id env (length (posted w))) (JStr method) params)
             (baseTags env url method retryAttempt extraTags) w of
        (Thrown msg, w1) \<Rightarrow>
          if retryAttempt < MAX_RETRIES env then
            jsonCall env url method params extraTags expectFn (retryAttempt + 1)
              (sleep (RETRY_DELAY_MS env)
                 (metric_add retryCount (JNum 1) (baseTags env url method retryAttempt extraTags) w1))
          else
            (Inr JUndefined,
             recordFailure (baseTags env url method retryAttempt extraTags)
               (''Network error: '' @ message_text msg) [(''retryAttempt'', JNum retryAttempt)] w1)
      | (Response res, w1) \<Rightarrow>
          if error_code res \<noteq> 0 then
            (if retryAttempt < MAX_RETRIES env then
               jsonCall env url method params extraTags expectFn (retryAttempt + 1)
                 (sleep (RETRY_DELAY_MS env)
                    (metric_add retryCount (JNum 1) (baseTags env url method retryAttempt extraTags) w1))
             else
               (Inr JUndefined,
                recordFailure
                  (obj_spread (baseTags env url method retryAttempt extraTags)
                     [(''stage'', JStr ''network''), (''error_code'', JNum (error_code res))])
                  (''Network error code: '' @ show_int (error_code res))
                  [(''retryAttempt'', JNum retryAttempt)] w1))
          else
            jsonCall_response method expectFn retryAttempt (fresh_id env (length (posted w))) (now w)
              (baseTags env url method retryAttempt extraTags) res w1)"
  by pat_completeness auto
termination
  by (relation "measure (\<lambda>(env, url, method, params, extraTags, expectFn, retryAttempt, w).
                 nat (MAX_RETRIES env - retryAttempt))") auto

declare jsonCall.simps [simp del]

section \<open>perf/somnia_rpc_perf.js: timeout detection and jsonCall\<close>

text \<open>
  The stand-alone script defines its own \<open>rpc\<close>, \<open>post\<close>, \<open>recordFailure\<close> and
  \<open>jsonCall\<close>; they carry the suffix \<open>_perf\<close> here where the name is already taken by
  the library module.
\<close>

definition rpc :: "jsval \<Rightarrow> jsval \<Rightarrow> jsval \<Rightarrow> string option" where
  "rpc rid method params = JSON_stringify (JObj (rpc_envelope rid method params))"

text \<open>
  \<open>actualDuration >= timeoutMs * 0.95\<close>, in exact arithmetic on milliseconds.
\<close>

definition over_threshold :: "int \<Rightarrow> int \<Rightarrow> bool" where
  "over_threshold duration timeoutMs = (95 * timeoutMs \<le> 100 * duration)"

definition timeout_vocabulary :: "string option \<Rightarrow> bool" where
  "timeout_vocabulary b =
     (case b of
        None \<Rightarrow> False
      | Some t \<Rightarrow> t \<noteq> [] \<and> (str_includes t ''timeout'' \<or> str_includes t ''timed out''
                    \<or> str_includes t ''request timeout'' \<or> str_includes t ''gateway timeout''))"

definition indicators :: "http_response \<Rightarrow> int \<Rightarrow> int \<Rightarrow> (string \<times> bool) list" where
  "indicators response duration timeoutMs =
     [(''error_code_timeout'', error_code response = 1050),
      (''status_timeout'', status response = 0 \<and> over_threshold duration timeoutMs),
      (''duration_timeout'', over_threshold duration timeoutMs),
      (''body_timeout'', timeout_vocabulary (body response)),
      (''gateway_timeout'', status response = 504),
      (''request_timeout'', status response = 408),
      (''no_response'', status response = 0 \<and> over_threshold duration timeoutMs)]"

record timeout_detection =
  isTimeout :: bool
  reasons :: "string list"
  actualDuration :: int
  threshold_of :: int

text \<open>
  \<open>detectTimeout(response, requestStartTime, timeoutMs)\<close>. The start time is the one
  in the response's timing metadata when there is one. \<open>threshold_of\<close> keeps the
  timeout whose 95% is the threshold.
\<close>

definition detectTimeout :: "http_response \<Rightarrow> int \<Rightarrow> int \<Rightarrow> world \<Rightarrow> timeout_detection" where
  "detectTimeout response requestStartTime timeoutMs w =
     (let startTime = (case timingMetadata response of Some t \<Rightarrow> t | None \<Rightarrow> requestStartTime);
          duration = now w - startTime;
          ind = indicators response duration timeoutMs
      in \<lparr>isTimeout = list_ex snd ind,
          reasons = map fst (filter snd ind),
          actualDuration = duration,
          threshold_of = timeoutMs\<rparr>)"

record failure_options =
  o_retryAttempt :: jsval
  o_isTimeout :: jsval
  o_isHttpError :: jsval
  o_response :: "http_response option"
  o_requestStartTime :: "int option"
  o_timeoutMs :: "int option"

definition no_options :: failure_options where
  "no_options =
     \<lparr>o_retryAttempt = JUndefined, o_isTimeout = JUndefined, o_isHttpError = JUndefined,
      o_response = None, o_requestStartTime = None, o_timeoutMs = None\<rparr>"

definition timeoutTags :: "env \<Rightarrow> jsobject \<Rightarrow> timeout_detection \<Rightarrow> jsobject" where
  "timeoutTags env e td =
     obj_spread e
       [(''timeout_type'', JStr (join_with '','' (reasons td))),
        (''actual_duration'', JStr (show_int (actualDuration td))),
        (''timeout_threshold'', JStr (show_threshold env (threshold_of td)))]"

text \<open>
  \<open>recordFailure\<close> of the stand-alone script: the library version plus a second run of
  the timeout detection when the options carry a response and a non-zero start time.
\<close>

definition failure_detection :: "env \<Rightarrow> failure_options \<Rightarrow> world \<Rightarrow> timeout_detection option" where
  "failure_detection env options w =
     (case (o_response options, o_requestStartTime options) of
        (Some response, Some t0) \<Rightarrow>
          if t0 \<noteq> 0 then
            (let td = detectTimeout response t0
                        (case o_timeoutMs options of
                           None \<Rightarrow> PARSED_TIMEOUT_MS env
                         | Some t \<Rightarrow> if t = 0 then PARSED_TIMEOUT_MS env else t) w
             in if isTimeout td then Some td else None)
          else None
      | _ \<Rightarrow> None)"

definition timeout_samples :: "jsobject \<Rightarrow> jsobject \<Rightarrow> timeout_detection \<Rightarrow> world \<Rightarrow> world" where
  "timeout_samples tags e td w =
     metric_add_if (truthy (obj_get tags ''method'')) timeoutByMethod (JNum 1)
       (obj_spread e [(''method'', obj_get tags ''method''),
                      (''timeout_reasons'', JStr (join_with ''|'' (reasons td)))])
       (metric_add timeoutLatency (JNum (actualDuration td)) e
          (metric_add timeoutCount (JNum 1) e w))"

definition recordFailure_perf :: "env \<Rightarrow> jsobject \<Rightarrow> string \<Rightarrow> failure_options \<Rightarrow> world \<Rightarrow> world" where
  "recordFailure_perf env tags reason options w =
     (let e0 = obj_set ''retry_attempt'' (js_or (o_retryAttempt options) (JNum 0))
                 (obj_set ''reason'' (JStr (take 100 reason)) tags);
          detected = failure_detection env options w;
          timedOut = (detected \<noteq> None \<or> truthy (js_or (o_isTimeout options) (JBool False)));
          e = (case detected of None \<Rightarrow> e0 | Some td \<Rightarrow> timeoutTags env e0 td);
          w1 = (case detected of None \<Rightarrow> w | Some td \<Rightarrow> timeout_samples tags e td w);
          w2 = metric_add errorCount (JNum 1) e w1;
          w3 = metric_add errorRate (JNum 1) e w2;
          w4 = metric_add_if (truthy (obj_get tags ''method'')) methodErrors (JNum 1) e w3;
          w5 = metric_add_if timedOut timeoutRate (JNum 1) e w4
      in metric_add_if (truthy (o_isHttpError options)) httpErrorRate (JNum 1) e w5)"

text \<open>
  \<open>post\<close> of the stand-alone script. When \<open>http.post\<close> throws, the wrapper throws
  \<open>{...error, isTimeout, duration, requestId}\<close>: the spread copies the enumerable own
  properties only, which leaves the \<open>message\<close> of an Error object behind, so the catcher
  sees \<open>isTimeout\<close> and \<open>duration\<close>. A response gets its timing metadata attached
  unless it has one.
\<close>

definition post_isTimeout :: "env \<Rightarrow> string option \<Rightarrow> int \<Rightarrow> jsval" where
  "post_isTimeout env msg duration =
     (case msg of
        None \<Rightarrow> JUndefined
      | Some m \<Rightarrow>
          if m = [] then JStr []
          else JBool (str_includes m ''timeout'' \<or> str_includes m ''timed out''
                      \<or> over_threshold duration (PARSED_TIMEOUT_MS env)))"

definition post_perf ::
  "env \<Rightarrow> string \<Rightarrow> string option \<Rightarrow> jsobject \<Rightarrow> world \<Rightarrow> ((jsval \<times> int) + http_response) \<times> world" where
  "post_perf env url payload tags w =
     (let (elapsed, out) = transport env (length (posted w));
          w1 = w\<lparr>now := now w + elapsed, posted := posted w @ [(url, payload, tags)]\<rparr>
      in case out of
           Thrown msg \<Rightarrow> (Inl (post_isTimeout env msg (now w1 - now w), now w1 - now w), w1)
         | Response res \<Rightarrow>
             (Inr (case timingMetadata res of
                     None \<Rightarrow> res\<lparr>timingMetadata := Some (now w)\<rparr>
                   | Some t \<Rightarrow> res), w1))"

definition baseTags_perf :: "env \<Rightarrow> string \<Rightarrow> string \<Rightarrow> int \<Rightarrow> jsobject \<Rightarrow> jsobject" where
  "baseTags_perf env url method retryAttempt extraTags =
     obj_spread
       [(''run_id'', RUN_ID env),
        (''scenario'', js_or (SCENARIO_TYPE env) (JStr ''S1_BlockNumber'')),
        (''region'', JStr (REGION env)),
        (''endpoint'', JStr url),
        (''method'', JStr method),
        (''transport'', JStr ''http''),
        (''retry_attempt'', JNum retryAttempt)]
       extraTags"

definition httpChecks_perf :: "env \<Rightarrow> http_response \<Rightarrow> bool" where
  "httpChecks_perf env r =
     (status r = 200
      \<and> str_includes (case content_type r of None \<Rightarrow> [] | Some c \<Rightarrow> c) ''application/json''
      \<and> (case body r of None \<Rightarrow> False | Some b \<Rightarrow> 0 < length b)
      \<and> 10 * timings_duration r < 8 * PARSED_TIMEOUT_MS env)"

definition httpFailureReason :: "http_response \<Rightarrow> string" where
  "httpFailureReason res =
     ''HTTP validation failed: status='' @ show_int (status res)
     @ '', content-type='' @ (case content_type res of None \<Rightarrow> ''undefined'' | Some c \<Rightarrow> c)
     @ '', body-length='' @ show_nat (case body res of None \<Rightarrow> 0 | Some b \<Rightarrow> length b)
     @ '', duration=undefinedms''"

definition timeoutMsg :: "env \<Rightarrow> timeout_detection \<Rightarrow> string" where
  "timeoutMsg env td =
     ''Request timeout detected - Duration: '' @ show_int (actualDuration td)
     @ ''ms, Threshold: '' @ show_threshold env (threshold_of td)
     @ ''ms, Reasons: '' @ join_with '', '' (reasons td)"

text \<open>The part of the script's \<open>jsonCall\<close> below the retried checks.\<close>

definition jsonCall_perf_response ::
  "env \<Rightarrow> string \<Rightarrow> (jsval \<Rightarrow> bool) \<Rightarrow> int \<Rightarrow> jsval \<Rightarrow> int \<Rightarrow> jsobject \<Rightarrow> http_response \<Rightarrow> world
     \<Rightarrow> (js_exn + jsval) \<times> world" where
  "jsonCall_perf_response env method expectFn retryAttempt reqId startTime tags res w =
     (let opts = no_options\<lparr>o_retryAttempt := JNum retryAttempt, o_response := Some res,
                              o_requestStartTime := Some startTime\<rparr>
      in
      if \<not> httpChecks_perf env res then
        (Inr JUndefined,
         recordFailure_perf env
           (obj_spread tags [(''stage'', JStr ''http''), (''status'', JNum (status res))])
           (httpFailureReason res)
           (opts\<lparr>o_isHttpError := JBool True,
                  o_isTimeout := JBool (status res = 408 \<or> status res = 504 \<or> status res = 0)\<rparr>) w)
      else case json res of
        Inl e \<Rightarrow>
          (Inr JUndefined,
           recordFailure_perf env (obj_spread tags [(''stage'', JStr ''json_parse'')])
             (''JSON parse error: '' @ exn_message e) opts w)
      | Inr v \<Rightarrow>
          (case structureChecks reqId v of
             Inl e \<Rightarrow> (Inl e, w)
           | Inr False \<Rightarrow>
               (Inr JUndefined,
                recordFailure_perf env (obj_spread tags [(''stage'', JStr ''rpc_structure'')])
                  ''Invalid JSON-RPC response structure'' opts w)
           | Inr True \<Rightarrow>
               (case js_prop v ''error'' of
                  Inl e \<Rightarrow> (Inl e, w)
                | Inr rpcError \<Rightarrow>
                    if truthy rpcError then
                      (case (rpcErrorTags tags rpcError, rpcErrorReason rpcError) of
                         (Inr errorTags, Inr reason) \<Rightarrow>
                           if method = ''eth_estimateGas'' then
                             (Inr (JObj [(''error'', rpcError)]),
                              addRTT (now w - startTime) errorTags (recordSuccess errorTags w))
                           else
                             (Inr JUndefined, recordFailure_perf env errorTags reason opts w)
                       | (Inl e, _) \<Rightarrow> (Inl e, w)
                       | (_, Inl e) \<Rightarrow> (Inl e, w))
                    else
                      (case resultChecks expectFn v of
                         Inl e \<Rightarrow> (Inl e, w)
                       | Inr False \<Rightarrow>
                           (Inr JUndefined,
                            recordFailure_perf env (obj_spread tags [(''stage'', JStr ''result_validation'')])
                              ''Result validation failed'' opts w)
                       | Inr True \<Rightarrow>
                           (case js_prop v ''result'' of
                              Inl e \<Rightarrow> (Inl e, w)
                            | Inr result \<Rightarrow>
                                (Inr result,
                                 updateStateMetrics method result tags
                                   (addRTT (now w - startTime) tags (recordSuccess tags w))))))))"

text \<open>
  One attempt of the script's \<open>jsonCall\<close>: either the call is over with a value, an
  exception or a recorded failure (\<open>Inr\<close>), or the attempt asks for a retry with the tags
  of its retry sample (\<open>Inl\<close>).
\<close>

definition jsonCall_perf_attempt ::
  "env \<Rightarrow> string \<Rightarrow> string \<Rightarrow> jsval \<Rightarrow> jsobject \<Rightarrow> (jsval \<Rightarrow> bool) \<Rightarrow> int \<Rightarrow> world
     \<Rightarrow> (jsobject + (js_exn + jsval)) \<times> world" where
  "jsonCall_perf_attempt env url method params extraTags expectFn retryAttempt w =
     (let reqId = fresh_id env (length (posted w));
          startTime = now w;
          tags = baseTags_perf env url method retryAttempt extraTags;
          retry = retryAttempt < MAX_RETRIES env
      in case post_perf env url (rpc reqId (JStr method) params) tags w of
        (Inl (eTimeout, eDuration), w1) \<Rightarrow>
          if retry then
            (Inl (obj_spread tags [(''error_type'', JStr ''network''),
                                   (''is_timeout'', JStr (js_String eTimeout))]), w1)
          else
            (Inr (Inr JUndefined),
             recordFailure_perf env tags
               (if truthy eTimeout
                then ''Network timeout after '' @ show_int eDuration @ ''ms: undefined''
                else ''Network error: undefined'')
               (no_options\<lparr>o_retryAttempt := JNum retryAttempt, o_isTimeout := eTimeout,
                            o_requestStartTime := Some startTime,
                            o_timeoutMs := Some (PARSED_TIMEOUT_MS env)\<rparr>) w1)
      | (Inr res, w1) \<Rightarrow>
          (let td = detectTimeout res startTime (PARSED_TIMEOUT_MS env) w1 in
           if isTimeout td then
             (if retry then
                (Inl (obj_spread tags [(''error_type'', JStr ''timeout''),
                                       (''timeout_reasons'', JStr (join_with ''|'' (reasons td))),
                                       (''actual_duration'', JNum (actualDuration td))]), w1)
              else
                (Inr (Inr JUndefined),
                 recordFailure_perf env tags (timeoutMsg env td)
                   (no_options\<lparr>o_retryAttempt := JNum retryAttempt, o_isTimeout := JBool True,
                                o_response := Some res, o_requestStartTime := Some startTime,
                                o_timeoutMs := Some (PARSED_TIMEOUT_MS env)\<rparr>) w1))
           else if error_code res \<noteq> 0 then
             (if retry then
                (Inl (obj_spread tags
                        [(''error_code'', JNum (error_code res)),
                         (''is_network_timeout'',
                          JStr (js_String (JBool (error_code res \<in> {1050, 1051, 1052}))))]), w1)
              else
                (Inr (Inr JUndefined),
                 recordFailure_perf env
                   (obj_spread tags [(''stage'', JStr ''network''), (''error_code'', JNum (error_code res))])
                   (''Network error code: '' @ show_int (error_code res))
                   (no_options\<lparr>o_retryAttempt := JNum retryAttempt,
                                o_isTimeout := JBool (error_code res \<in> {1050, 1051, 1052}),
                                o_response := Some res, o_requestStartTime := Some startTime\<rparr>) w1))
           else
             (case jsonCall_perf_response env method expectFn retryAttempt reqId startTime tags res w1 of
                (r, w2) \<Rightarrow> (Inr r, w2))))"

function jsonCall_perf ::
  "env \<Rightarrow> string \<Rightarrow> string \<Rightarrow> jsval \<Rightarrow> jsobject \<Rightarrow> (jsval \<Rightarrow> bool) \<Rightarrow> int \<Rightarrow> world
     \<Rightarrow> (js_exn + jsval) \<times> world" where
  "jsonCall_perf env url method params extraTags expectFn retryAttempt w =
     (case jsonCall_perf_attempt env url method params extraTags expectFn retryAttempt w of
        (Inr r, w1) \<Rightarrow> (r, w1)
      | (Inl retryTags, w1) \<Rightarrow>
          if retryAttempt < MAX_RETRIES env then
            jsonCall_perf env url method params extraTags expectFn (retryAttempt + 1)
              (sleep (RETRY_DELAY_MS env) (metric_add retryCount (JNum 1) retryTags w1))
          else (Inr JUndefined, w1))"
  by pat_completeness auto
termination
  by (relation "measure (\<lambda>(env, url, method, params, extraTags, expectFn, retryAttempt, w).
                 nat (MAX_RETRIES env - retryAttempt))") auto

declare jsonCall_perf.simps [simp del]

section \<open>lib/websocket-client.js: wsSub\<close>

text \<open>
  Modelled from the spec: the socket library (\<open>k6/ws\<close> is not among the sources). The
  spec's state machine \<open>Connecting \<rightarrow> Open \<rightarrow> Subscribed \<rightarrow> {Closed | Failed}\<close> gives a
  socket one terminal transition: it is closed (the \<open>close\<close> handler runs, by the peer
  or by the script's own \<open>socket.close\<close>) or it fails (the \<open>error\<close> handler runs).
  A connection is therefore a list of events, each with the milliseconds since the one
  before, handled in order up to the first terminal one; the timer set by the script
  fires at \<open>start + timeout\<close> when no terminal event came earlier, also when nothing
  arrives at all.
\<close>

datatype ws_event =
    Message int string "js_exn + jsval"
  | Close int int jsval
  | SocketError int "string option"

fun delay :: "ws_event \<Rightarrow> int" where
  "delay (Message d text parsed) = d"
| "delay (Close d code reason) = d"
| "delay (SocketError d msg) = d"

text \<open>
  \<open>script k\<close> is what the \<open>k\<close>-th connection of the run receives;
  \<open>connection_id\<close> and \<open>subscribe_id\<close> are the random connection id and request id
  drawn for it. \<open>local_reason r\<close> is the reason the \<open>close\<close> handler is given after
  the script called \<open>socket.close(code, r)\<close>, and \<open>default_close_code\<close> the code it
  is given after \<open>socket.close()\<close>.
\<close>

record sockets =
  WS_TIMEOUT :: int
  script :: "nat \<Rightarrow> ws_event list"
  connection_id :: "nat \<Rightarrow> string"
  subscribe_id :: "nat \<Rightarrow> jsval"
  local_reason :: "jsval \<Rightarrow> jsval"
  default_close_code :: int

record ws_options =
  opt_timeout :: "int option"
  opt_maxRetries :: "int option"

text \<open>\<open>options.x || d\<close> for a numeric option.\<close>

definition or_default :: "int option \<Rightarrow> int \<Rightarrow> int" where
  "or_default x d = (case x of None \<Rightarrow> d | Some v \<Rightarrow> if v = 0 then d else v)"

datatype terminal = ClosedT | FailedT

record conn =
  c_tags :: jsobject
  c_reqId :: jsval
  c_startTime :: int
  c_timeout :: int
  c_retryAttempt :: int

definition wsTags :: "env \<Rightarrow> string \<Rightarrow> string \<Rightarrow> string \<Rightarrow> int \<Rightarrow> jsobject" where
  "wsTags env rpcUrl method connectionId retryAttempt =
     [(''run_id'', js_or (RUN_ID env) (JStr ''unknown'')),
      (''scenario'', js_or (SCENARIO_TYPE env) (JStr ''unknown'')),
      (''endpoint'', JStr rpcUrl),
      (''method'', JStr method),
      (''transport'', JStr ''websocket''),
      (''connection_id'', JStr connectionId),
      (''retry_attempt'', JNum retryAttempt)]"

definition onClose :: "conn \<Rightarrow> int \<Rightarrow> jsval \<Rightarrow> world \<Rightarrow> world" where
  "onClose c code reason w =
     (let w1 = metric_add activeConnections (JNum (- 1)) (c_tags c) w;
          tags = obj_spread (c_tags c) [(''stage'', JStr ''connection_closed''), (''close_code'', JNum code)]
      in if code = 1000 then recordSuccess tags w1
         else recordFailure tags (''Abnormal closure: '' @ js_String reason)
                [(''retryAttempt'', JNum (c_retryAttempt c))] w1)"

definition socket_close :: "sockets \<Rightarrow> conn \<Rightarrow> int option \<Rightarrow> jsval \<Rightarrow> world \<Rightarrow> world" where
  "socket_close so c code reason w =
     onClose c (case code of None \<Rightarrow> default_close_code so | Some k \<Rightarrow> k) (local_reason so reason) w"

definition onTimer :: "sockets \<Rightarrow> conn \<Rightarrow> world \<Rightarrow> world" where
  "onTimer so c w = socket_close so c (Some 1000) (JStr ''Timeout reached'') w"

definition onError :: "conn \<Rightarrow> string option \<Rightarrow> world \<Rightarrow> world" where
  "onError c msg w =
     recordFailure (obj_spread (c_tags c) [(''stage'', JStr ''websocket_error'')])
       (''WebSocket error: '' @ (case msg of None \<Rightarrow> ''Unknown WebSocket error''
                                  | Some m \<Rightarrow> if m = [] then ''Unknown WebSocket error'' else m))
       [(''retryAttempt'', JNum (c_retryAttempt c))]
       (metric_add activeConnections (JNum (- 1)) (c_tags c) w)"

text \<open>
  The \<open>message\<close> handler. Its body is one \<open>try\<close> block: a message that does not
  parse, or parses to \<open>null\<close>, ends in the \<open>catch\<close>. The result says whether the
  handler closed the socket, and gives the subscription id it leaves.
\<close>

definition onMessage ::
  "sockets \<Rightarrow> conn \<Rightarrow> jsval \<Rightarrow> js_exn + jsval \<Rightarrow> world \<Rightarrow> bool \<times> jsval \<times> world" where
  "onMessage so c subscriptionId parsed w =
     (let parse_failure = (\<lambda>e.
            (False, subscriptionId,
             recordFailure (obj_spread (c_tags c) [(''stage'', JStr ''message_parse'')])
               (''Message parse error: '' @ exn_message e)
               [(''retryAttempt'', JNum (c_retryAttempt c))] w))
      in case parsed of
        Inl e \<Rightarrow> parse_failure e
      | Inr response \<Rightarrow>
          (case (js_prop response ''id'', js_prop response ''error'', js_prop response ''result'',
                 js_prop response ''method'', js_prop response ''params'') of
             (Inr rid, Inr err, Inr result, Inr m, Inr ps) \<Rightarrow>
               if strict_eq rid (c_reqId c) \<and> truthy err then
                 (True, subscriptionId,
                  socket_close so c None JUndefined
                    (recordFailure (obj_spread (c_tags c) [(''stage'', JStr ''subscription'')])
                       (''Subscription error: ''
                        @ (case js_prop err ''message'' of Inl e \<Rightarrow> [] | Inr t \<Rightarrow> js_String t))
                       [(''retryAttempt'', JNum (c_retryAttempt c))] w))
               else
                 (let confirmed = strict_eq rid (c_reqId c) \<and> truthy result;
                      sid = (if confirmed then result else subscriptionId);
                      w1 = (if confirmed then
                              recordSuccess (obj_spread (c_tags c)
                                [(''stage'', JStr ''subscription''), (''subscription_id'', result)]) w
                            else w)
                  in if strict_eq m (JStr ''eth_subscription'') \<and> truthy ps then
                       (let tags = obj_spread (c_tags c)
                              [(''stage'', JStr ''data_received''), (''subscription_id'', sid)]
                        in (True, sid,
                            socket_close so c (Some 1000) (JStr ''Data received'')
                              (recordSuccess tags (addRTT (now w - c_startTime c) tags w1))))
                     else (False, sid, w1))
           | _ \<Rightarrow> parse_failure (TypeError ''Cannot read property of null'')))"

fun run_socket ::
  "sockets \<Rightarrow> conn \<Rightarrow> ws_event list \<Rightarrow> jsval \<Rightarrow> world \<Rightarrow> terminal \<times> world" where
  "run_socket so c [] subscriptionId w =
     (ClosedT, onTimer so c (w\<lparr>now := max (now w) (c_startTime c + c_timeout c)\<rparr>))"
| "run_socket so c (ev # evs) subscriptionId w =
     (if c_startTime c + c_timeout c \<le> now w + delay ev then
        (ClosedT, onTimer so c (w\<lparr>now := max (now w) (c_startTime c + c_timeout c)\<rparr>))
      else
        (case ev of
           Message d text parsed \<Rightarrow>
             (case onMessage so c subscriptionId parsed (w\<lparr>now := now w + d\<rparr>) of
                (closed, sid, w1) \<Rightarrow> if closed then (ClosedT, w1) else run_socket so c evs sid w1)
         | Close d code reason \<Rightarrow> (ClosedT, onClose c code reason (w\<lparr>now := now w + d\<rparr>))
         | SocketError d msg \<Rightarrow> (FailedT, onError c msg (w\<lparr>now := now w + d\<rparr>))))"

text \<open>
  \<open>attemptConnection\<close>: the callback of \<open>ws.connect\<close> adds 1 to the gauge, arms the
  timer and sends the subscription request; the events follow. The retry at the end of
  the \<open>error\<close> handler is the recursive call, with the shared attempt counter raised.
\<close>

function attemptConnection ::
  "env \<Rightarrow> sockets \<Rightarrow> string \<Rightarrow> string \<Rightarrow> string \<Rightarrow> jsval \<Rightarrow> int \<Rightarrow> int \<Rightarrow> int \<Rightarrow> world \<Rightarrow> world" where
  "attemptConnection env so wsUrl rpcUrl method params timeout maxRetries retryAttempt w =
     (case run_socket so
             \<lparr>c_tags = wsTags env rpcUrl method (connection_id so (connects w)) retryAttempt,
              c_reqId = subscribe_id so (connects w), c_startTime = now w, c_timeout = timeout,
              c_retryAttempt = retryAttempt\<rparr>
             (script so (connects w)) JNull
             (metric_add activeConnections (JNum 1)
                (wsTags env rpcUrl method (connection_id so (connects w)) retryAttempt)
                (w\<lparr>connects := Suc (connects w),
                   sent := sent w @ [(wsUrl, buildRpcRequest (subscribe_id so (connects w)) (JStr method) params)]\<rparr>)) of
        (ClosedT, w1) \<Rightarrow> w1
      | (FailedT, w1) \<Rightarrow>
          if retryAttempt < maxRetries then
            attemptConnection env so wsUrl rpcUrl method params timeout maxRetries (retryAttempt + 1)
              (sleep (RETRY_DELAY_MS env)
                 (metric_add retryCount (JNum 1)
                    (wsTags env rpcUrl method (connection_id so (connects w)) retryAttempt) w1))
          else w1)"
  by pat_completeness auto
termination
  by (relation "measure (\<lambda>(env, so, wsUrl, rpcUrl, method, params, timeout, maxRetries, retryAttempt, w).
                 nat (maxRetries - retryAttempt))") auto

declare attemptConnection.simps [simp del]

definition wsSub ::
  "env \<Rightarrow> sockets \<Rightarrow> string \<Rightarrow> string \<Rightarrow> string \<Rightarrow> jsval \<Rightarrow> ws_options \<Rightarrow> world \<Rightarrow> world" where
  "wsSub env so wsUrl rpcUrl method params options w =
     attemptConnection env so wsUrl rpcUrl method params
       (or_default (opt_timeout options) (WS_TIMEOUT so))
       (or_default (opt_maxRetries options) 2) 0 w"

section \<open>perf/somnia_rpc_perf.js: wsSub\<close>

definition wsTags_perf :: "env \<Rightarrow> string \<Rightarrow> string \<Rightarrow> string \<Rightarrow> int \<Rightarrow> jsobject" where
  "wsTags_perf env rpcUrl method connectionId retryAttempt =
     [(''run_id'', RUN_ID env),
      (''scenario'', js_or (SCENARIO_TYPE env) (JStr ''S1_BlockNumber'')),
      (''region'', JStr (REGION env)),
      (''endpoint'', JStr rpcUrl),
      (''method'', JStr method),
      (''transport'', JStr ''websocket''),
      (''connection_id'', JStr connectionId),
      (''retry_attempt'', JNum retryAttempt)]"

text \<open>
  The object literals \<open>{ body: ..., status: ... }\<close> that the handlers pass to
  \<open>recordFailure\<close> in place of an HTTP response.
\<close>

definition adhoc_response :: "int \<Rightarrow> jsval \<Rightarrow> http_response" where
  "adhoc_response st b =
     \<lparr>error_code = 0, status = st, content_type = None,
      body = (case b of JStr t \<Rightarrow> Some t | _ \<Rightarrow> None),
      timings_duration = 0, json = Inl (Error ''not an HTTP response''), timingMetadata = None\<rparr>"

definition ws_failure_options :: "conn \<Rightarrow> http_response \<Rightarrow> failure_options" where
  "ws_failure_options c response =
     no_options\<lparr>o_retryAttempt := JNum (c_retryAttempt c), o_response := Some response,
                 o_requestStartTime := Some (c_startTime c)\<rparr>"

definition onClose_perf :: "env \<Rightarrow> conn \<Rightarrow> int \<Rightarrow> jsval \<Rightarrow> world \<Rightarrow> world" where
  "onClose_perf env c code reason w =
     (let w1 = metric_add activeConnections (JNum (- 1)) (c_tags c) w;
          duration = now w - c_startTime c;
          isTimeoutClose = (over_threshold duration (c_timeout c)
                            \<or> strict_eq reason (JStr ''Connection timeout''));
          tags = obj_spread (c_tags c) [(''stage'', JStr ''connection_closed''), (''close_code'', JNum code)]
      in if code = 1000 \<and> \<not> isTimeoutClose then recordSuccess tags w1
         else recordFailure_perf env tags
                (if isTimeoutClose then ''Connection timeout after '' @ show_int duration @ ''ms''
                 else ''Abnormal closure: '' @ js_String reason)
                ((ws_failure_options c (adhoc_response 0 reason))
                   \<lparr>o_isTimeout := JBool isTimeoutClose, o_timeoutMs := Some (c_timeout c)\<rparr>) w1)"

definition socket_close_perf :: "env \<Rightarrow> sockets \<Rightarrow> conn \<Rightarrow> int option \<Rightarrow> jsval \<Rightarrow> world \<Rightarrow> world" where
  "socket_close_perf env so c code reason w =
     onClose_perf env c (case code of None \<Rightarrow> default_close_code so | Some k \<Rightarrow> k)
       (local_reason so reason) w"

text \<open>
  Modelled from the spec: when the timer of the script fires. The script arms it with
  the global \<open>setTimeout(..., timeout)\<close> in the \<open>ws.connect\<close> callback; the
  runtime that provides this timer is, like \<open>k6/ws\<close>, not among the sources. By the
  spec a connection that is still open when the idle timeout fires is closed locally:
  the callback below runs once, \<open>timeout\<close> milliseconds after the connection was set
  up, unless a \<open>close\<close> or \<open>error\<close> handler ran before, as the
  \<open>socket.setTimeout\<close> timer of the library module does.
\<close>

definition onTimer_perf :: "env \<Rightarrow> sockets \<Rightarrow> conn \<Rightarrow> world \<Rightarrow> world" where
  "onTimer_perf env so c w =
     socket_close_perf env so c (Some 1000) (JStr ''Connection timeout'')
       (metric_add timeoutRate (JNum 1) (c_tags c)
          (metric_add timeoutLatency (JNum (now w - c_startTime c)) (c_tags c)
             (metric_add timeoutCount (JNum 1)
                (obj_spread (c_tags c) [(''timeout_type'', JStr ''websocket_connection'')]) w)))"

definition onError_perf :: "env \<Rightarrow> conn \<Rightarrow> string option \<Rightarrow> world \<Rightarrow> world" where
  "onError_perf env c msg w =
     (let errorMessage = (case msg of None \<Rightarrow> ''Unknown WebSocket error''
                          | Some m \<Rightarrow> if m = [] then ''Unknown WebSocket error'' else m);
          isTimeoutError = (over_threshold (now w - c_startTime c) (c_timeout c)
                            \<or> str_includes errorMessage ''timeout''
                            \<or> str_includes errorMessage ''timed out'')
      in recordFailure_perf env (obj_spread (c_tags c) [(''stage'', JStr ''websocket_error'')])
           (''WebSocket error: '' @ errorMessage)
           ((ws_failure_options c (adhoc_response 0 (JStr errorMessage)))
              \<lparr>o_isTimeout := JBool isTimeoutError, o_timeoutMs := Some (c_timeout c)\<rparr>)
           (metric_add activeConnections (JNum (- 1)) (c_tags c) w))"

definition onMessage_perf ::
  "env \<Rightarrow> sockets \<Rightarrow> conn \<Rightarrow> jsval \<Rightarrow> string \<Rightarrow> js_exn + jsval \<Rightarrow> world \<Rightarrow> bool \<times> jsval \<times> world" where
  "onMessage_perf env so c subscriptionId text parsed w =
     (let opts = ws_failure_options c (adhoc_response 200 (JStr text));
          parse_failure = (\<lambda>e.
            (False, subscriptionId,
             recordFailure_perf env (obj_spread (c_tags c) [(''stage'', JStr ''message_parse'')])
               (''Message parse error: '' @ exn_message e) opts w))
      in case parsed of
        Inl e \<Rightarrow> parse_failure e
      | Inr response \<Rightarrow>
          (case (js_prop response ''id'', js_prop response ''error'', js_prop response ''result'',
                 js_prop response ''method'', js_prop response ''params'') of
             (Inr rid, Inr err, Inr result, Inr m, Inr ps) \<Rightarrow>
               if strict_eq rid (c_reqId c) \<and> truthy err then
                 (True, subscriptionId,
                  socket_close_perf env so c None JUndefined
                    (recordFailure_perf env (obj_spread (c_tags c) [(''stage'', JStr ''subscription'')])
                       (''Subscription error: ''
                        @ (case js_prop err ''message'' of Inl e \<Rightarrow> [] | Inr t \<Rightarrow> js_String t))
                       opts w))
               else
                 (let confirmed = strict_eq rid (c_reqId c) \<and> truthy result;
                      sid = (if confirmed then result else subscriptionId);
                      w1 = (if confirmed then
                              recordSuccess (obj_spread (c_tags c)
                                [(''stage'', JStr ''subscription''), (''subscription_id'', result)]) w
                            else w)
                  in if strict_eq m (JStr ''eth_subscription'') \<and> truthy ps then
                       (let tags = obj_spread (c_tags c)
                              [(''stage'', JStr ''data_received''), (''subscription_id'', sid)]
                        in (True, sid,
                            socket_close_perf env so c (Some 1000) (JStr ''Data received'')
                              (recordSuccess tags (addRTT (now w - c_startTime c) tags w1))))
                     else (False, sid, w1))
           | _ \<Rightarrow> parse_failure (TypeError ''Cannot read property of null'')))"

fun run_socket_perf ::
  "env \<Rightarrow> sockets \<Rightarrow> conn \<Rightarrow> ws_event list \<Rightarrow> jsval \<Rightarrow> world \<Rightarrow> terminal \<times> world" where
  "run_socket_perf env so c [] subscriptionId w =
     (ClosedT, onTimer_perf env so c (w\<lparr>now := max (now w) (c_startTime c + c_timeout c)\<rparr>))"
| "run_socket_perf env so c (ev # evs) subscriptionId w =
     (if c_startTime c + c_timeout c \<le> now w + delay ev then
        (ClosedT, onTimer_perf env so c (w\<lparr>now := max (now w) (c_startTime c + c_timeout c)\<rparr>))
      else
        (case ev of
           Message d text parsed \<Rightarrow>
             (case onMessage_perf env so c subscriptionId text parsed (w\<lparr>now := now w + d\<rparr>) of
                (closed, sid, w1) \<Rightarrow>
                  if closed then (ClosedT, w1) else run_socket_perf env so c evs sid w1)
         | Close d code reason \<Rightarrow> (ClosedT, onClose_perf env c code reason (w\<lparr>now := now w + d\<rparr>))
         | SocketError d msg \<Rightarrow> (FailedT, onError_perf env c msg (w\<lparr>now := now w + d\<rparr>))))"

text \<open>
  In the script's \<open>wsSub\<close> the attempt counter is declared as
  \<open>let retryCount = 0\<close>, which hides the counter metric of the same name inside the
  function. The retry branch of the \<open>error\<close> handler raises the number and then calls
  \<open>retryCount.add\<close> on it, which throws; the exception leaves the handler and
  \<open>wsSub\<close>, so no second connection is made.
\<close>

definition wsSub_perf ::
  "env \<Rightarrow> sockets \<Rightarrow> string \<Rightarrow> string \<Rightarrow> string \<Rightarrow> jsval \<Rightarrow> ws_options \<Rightarrow> world
     \<Rightarrow> (js_exn + jsval) \<times> world" where
  "wsSub_perf env so wsUrl rpcUrl method params options w =
     (let timeout = or_default (opt_timeout options) (WS_TIMEOUT so);
          maxRetries = or_default (opt_maxRetries options) 2;
          tags = wsTags_perf env rpcUrl method (connection_id so (connects w)) 0;
          c = \<lparr>c_tags = tags, c_reqId = subscribe_id so (connects w), c_startTime = now w,
               c_timeout = timeout, c_retryAttempt = 0\<rparr>
      in case run_socket_perf env so c (script so (connects w)) JNull
                (metric_add activeConnections (JNum 1) tags
                   (w\<lparr>connects := Suc (connects w),
                      sent := sent w @ [(wsUrl, rpc (subscribe_id so (connects w)) (JStr method) params)]\<rparr>)) of
           (ClosedT, w1) \<Rightarrow> (Inr JUndefined, w1)
         | (FailedT, w1) \<Rightarrow>
             if 0 < maxRetries then (Inl (TypeError ''retryCount.add is not a function''), w1)
             else (Inr JUndefined, w1))"

section \<open>lib/wallet-manager.js: buildRawTx and fundWallets\<close>

text \<open>The default result check of \<open>jsonCall\<close>, \<open>_ => true\<close>.\<close>

definition expect_any :: "jsval \<Rightarrow> bool" where
  "expect_any v = True"

record wallet =
  pk :: string
  addr :: string
  index :: int
  nonce :: int
  fundingTx :: jsval

text \<open>
  The configuration read from rpc-config.json, and the external signer
  \<open>ethgo.signLegacyTx\<close>, which returns the raw transaction or throws.
  \<open>gasPriceMultiplier\<close> is the multiplier as a fraction with a positive denominator
  (1.2 is \<open>(6, 5)\<close>); \<open>Math.floor(price * multiplier)\<close> is computed on it exactly,
  without the rounding of a double product.
\<close>

record chain_config =
  chainId :: int
  gasPriceMultiplier :: "int \<times> int"
  gasLimit_simple :: int
  gasLimit_erc20 :: int
  gasLimit_contract :: int
  erc20TransferSig :: string
  batchSize :: int
  defaultFundingAmount :: int
  signLegacyTx :: "jsobject \<Rightarrow> string \<Rightarrow> js_exn + string"

definition floor_scaled :: "jsval \<Rightarrow> int \<times> int \<Rightarrow> jsval" where
  "floor_scaled price m =
     (case price of
        JNum n \<Rightarrow> to_double (n * fst m div snd m)
      | JInf s \<Rightarrow> (if 0 < fst m then JInf s else if fst m < 0 then JInf (\<not> s) else JNaN)
      | _ \<Rightarrow> JNaN)"

text \<open>
  \<open>n + k\<close> for a number \<open>n\<close> and an integer \<open>k\<close>: the sum of two doubles is the
  double nearest to the exact sum; \<open>NaN\<close> and the infinities stay what they are.
\<close>

definition js_plus :: "jsval \<Rightarrow> int \<Rightarrow> jsval" where
  "js_plus n k = (case n of JNum a \<Rightarrow> to_double (a + k) | JInf s \<Rightarrow> JInf s | _ \<Rightarrow> JNaN)"

definition sign_tx :: "chain_config \<Rightarrow> jsobject \<Rightarrow> string \<Rightarrow> world \<Rightarrow> (js_exn + string) \<times> world" where
  "sign_tx cfg txParams key w = (signLegacyTx cfg txParams key, w\<lparr>signed := signed w @ [txParams]\<rparr>)"

text \<open>
  \<open>buildRawTx(url, wallet, to, value, data, options = {})\<close>: the nonce is asked from the
  node on every call.
\<close>

definition buildRawTx ::
  "env \<Rightarrow> chain_config \<Rightarrow> string \<Rightarrow> wallet \<Rightarrow> string \<Rightarrow> jsval \<Rightarrow> string \<Rightarrow> jsobject \<Rightarrow> world
     \<Rightarrow> (js_exn + string) \<times> world" where
  "buildRawTx env cfg url wal to val data options w =
     (case jsonCall env url ''eth_getTransactionCount'' (JArr [JStr (addr wal), JStr ''pending''])
             [(''op'', JStr ''get_nonce''), (''wallet_addr'', JStr (addr wal))] expect_any 0 w of
        (Inl e, w1) \<Rightarrow> (Inl e, w1)
      | (Inr nonceResult, w1) \<Rightarrow>
          (case jsonCall env url ''eth_gasPrice'' (JArr [])
                  [(''op'', JStr ''get_gas_price'')] expect_any 0 w1 of
             (Inl e, w2) \<Rightarrow> (Inl e, w2)
           | (Inr priceResult, w2) \<Rightarrow>
               (let gasPriceV = js_or (obj_get options ''gasPrice'')
                                  (floor_scaled (js_Number priceResult) (gasPriceMultiplier cfg));
                    gasLimit =
                      (if truthy (obj_get options ''gasLimit'') then obj_get options ''gasLimit''
                       else if data = ''0x'' \<or> data = [] then JNum (gasLimit_simple cfg)
                       else if startsWith data (erc20TransferSig cfg) then JNum (gasLimit_erc20 cfg)
                       else JNum (gasLimit_contract cfg));
                    txParams =
                      [(''nonce'', js_Number nonceResult),
                       (''gasPrice'', gasPriceV),
                       (''gas'', gasLimit),
                       (''to'', JStr to),
                       (''value'', val),
                       (''data'', JStr (if data = [] then ''0x'' else data)),
                       (''chainId'', JNum (chainId cfg))]
                in sign_tx cfg txParams (pk wal) w2)))"

text \<open>
  The body of \<open>batch.forEach((w, batchIndex) => ...)\<close> in \<open>fundWallets\<close>, for the
  batch that starts at wallet \<open>i\<close>. The nonce \<open>baseNonce + i + batchIndex\<close> is two
  additions of doubles, from the left.
\<close>

fun fund_batch ::
  "env \<Rightarrow> chain_config \<Rightarrow> string \<Rightarrow> string \<Rightarrow> jsval \<Rightarrow> jsval \<Rightarrow> nat \<Rightarrow> nat \<Rightarrow> wallet list \<Rightarrow> world
     \<Rightarrow> (js_exn + wallet list) \<times> world" where
  "fund_batch env cfg fundUrl basePrivKey baseNonce gasPriceV i batchIndex [] w = (Inr [], w)"
| "fund_batch env cfg fundUrl basePrivKey baseNonce gasPriceV i batchIndex (x # xs) w =
     (case sign_tx cfg
             [(''nonce'', js_plus (js_plus baseNonce (int i)) (int batchIndex)),
              (''gasPrice'', gasPriceV),
              (''gas'', JNum (gasLimit_simple cfg)),
              (''to'', JStr (addr x)),
              (''value'', JNum (defaultFundingAmount cfg)),
              (''data'', JStr ''0x''),
              (''chainId'', JNum (chainId cfg))] basePrivKey w of
        (Inl e, w1) \<Rightarrow> (Inl e, w1)
      | (Inr raw, w1) \<Rightarrow>
          (case jsonCall env fundUrl ''eth_sendRawTransaction'' (JArr [JStr raw])
                  [(''op'', JStr ''fund_wallet''), (''wallet_index'', JNum (index x)),
                   (''nonce'', js_plus (js_plus baseNonce (int i)) (int batchIndex))] expect_any 0 w1 of
             (Inl e, w2) \<Rightarrow> (Inl e, w2)
           | (Inr txHash, w2) \<Rightarrow>
               (case fund_batch env cfg fundUrl basePrivKey baseNonce gasPriceV i (Suc batchIndex) xs w2 of
                  (Inl e, w3) \<Rightarrow> (Inl e, w3)
                | (Inr xs', w3) \<Rightarrow>
                    (Inr ((if truthy txHash then x\<lparr>fundingTx := txHash\<rparr> else x) # xs'), w3))))"

text \<open>
  The loop \<open>for (let i = 0; i < wallets.length; i += batchSize)\<close>, on the wallets from
  \<open>i\<close> on. With wallets left and a batch size that is not positive the loop never
  ends: that is the result \<open>None\<close>.
\<close>

function fund_loop ::
  "env \<Rightarrow> chain_config \<Rightarrow> string \<Rightarrow> string \<Rightarrow> jsval \<Rightarrow> jsval \<Rightarrow> nat \<Rightarrow> wallet list \<Rightarrow> world
     \<Rightarrow> ((js_exn + wallet list) \<times> world) option" where
  "fund_loop env cfg fundUrl basePrivKey baseNonce gasPriceV i rest w =
     (if rest = [] then Some (Inr [], w)
      else if batchSize cfg \<le> 0 then None
      else
        (case fund_batch env cfg fundUrl basePrivKey baseNonce gasPriceV i 0
                (take (nat (batchSize cfg)) rest) w of
           (Inl e, w1) \<Rightarrow> Some (Inl e, w1)
         | (Inr batch, w1) \<Rightarrow>
             (case fund_loop env cfg fundUrl basePrivKey baseNonce gasPriceV (i + nat (batchSize cfg))
                     (drop (nat (batchSize cfg)) rest)
                     (if drop (nat (batchSize cfg)) rest \<noteq> [] then sleep 100 w1 else w1) of
                None \<Rightarrow> None
              | Some (Inl e, w2) \<Rightarrow> Some (Inl e, w2)
              | Some (Inr rest', w2) \<Rightarrow> Some (Inr (batch @ rest'), w2))))"
  by pat_completeness auto
termination
  by (relation "measure (\<lambda>(env, cfg, fundUrl, basePrivKey, baseNonce, gasPriceV, i, rest, w). length rest)")
     auto

declare fund_loop.simps [simp del]

text \<open>
  \<open>fundWallets(fundUrl, wallets, basePrivKey, baseAddr, sleepFn)\<close> with k6's
  \<open>sleep\<close> for \<open>sleepFn\<close>. It returns \<open>baseNonce + wallets.length\<close>; the model adds
  the wallets as the loop leaves them.
\<close>

definition fundWallets ::
  "env \<Rightarrow> chain_config \<Rightarrow> string \<Rightarrow> wallet list \<Rightarrow> string \<Rightarrow> string \<Rightarrow> world
     \<Rightarrow> ((js_exn + jsval \<times> wallet list) \<times> world) option" where
  "fundWallets env cfg fundUrl wallets basePrivKey baseAddr w =
     (case jsonCall env fundUrl ''eth_getTransactionCount'' (JArr [JStr baseAddr, JStr ''pending''])
             [(''op'', JStr ''get_nonce'')] expect_any 0 w of
        (Inl e, w1) \<Rightarrow> Some (Inl e, w1)
      | (Inr nonceResult, w1) \<Rightarrow>
          (case jsonCall env fundUrl ''eth_gasPrice'' (JArr [])
                  [(''op'', JStr ''get_gas_price'')] expect_any 0 w1 of
             (Inl e, w2) \<Rightarrow> Some (Inl e, w2)
           | (Inr priceResult, w2) \<Rightarrow>
               (case fund_loop env cfg fundUrl basePrivKey (js_Number nonceResult)
                       (floor_scaled (js_Number priceResult) (gasPriceMultiplier cfg)) 0 wallets w2 of
                  None \<Rightarrow> None
                | Some (Inl e, w3) \<Rightarrow> Some (Inl e, w3)
                | Some (Inr wallets', w3) \<Rightarrow>
                    Some (Inr (js_plus (js_Number nonceResult) (int (length wallets)), wallets'), w3))))"

section \<open>perf/somnia_rpc_perf.js: configuration checks at load time\<close>

definition WRITE_SCENARIOS :: "string list" where
  "WRITE_SCENARIOS = [''S11_SendRawTxSmall'', ''S12_SendRawTxERC20'']"

text \<open>
  The check that runs when the script is loaded, before \<open>setup\<close> and before any worker:
  \<open>Inl\<close> is the thrown error.
\<close>

definition validate_write_config :: "string \<Rightarrow> string \<Rightarrow> string \<Rightarrow> string \<Rightarrow> js_exn + unit" where
  "validate_write_config SCENARIO BASE_PRIV BASE_ADDR ERC20_ADDR =
     (if SCENARIO \<in> set WRITE_SCENARIOS then
        (if BASE_PRIV = [] \<or> BASE_ADDR = [] then
           Inl (Error ''PRIVATE_KEY and WALLET_ADDRESS are required for write scenarios'')
         else if SCENARIO = ''S12_SendRawTxERC20'' \<and> ERC20_ADDR = [] then
           Inl (Error ''ERC20_TOKEN address is required for S12_SendRawTxERC20 scenario'')
         else Inr ())
      else Inr ())"

section \<open>Conditions on the surroundings\<close>

text \<open>An attempt fails at the transport level: \<open>http.post\<close> throws or reports an error code.\<close>

definition transport_fails :: "http_outcome \<Rightarrow> bool" where
  "transport_fails out = (case out of Thrown msg \<Rightarrow> True | Response res \<Rightarrow> error_code res \<noteq> 0)"

text \<open>
  The parsed bodies on which the structure checks throw: \<open>null\<close>, and an object with an
  own member \<open>hasOwnProperty\<close>.
\<close>

fun unreadable :: "jsval \<Rightarrow> bool" where
  "unreadable JNull = True"
| "unreadable JUndefined = True"
| "unreadable (JObj fs) = (''hasOwnProperty'' \<in> set (map fst fs))"
| "unreadable v = False"

section \<open>Example surroundings\<close>

text \<open>Concrete nodes, sockets and states on which the definitions are run.\<close>

definition always :: "'a \<Rightarrow> nat \<Rightarrow> 'a" where
  "always x k = x"

definition scripted :: "'a list \<Rightarrow> 'a \<Rightarrow> nat \<Rightarrow> 'a" where
  "scripted xs d k = (if k < length xs then xs ! k else d)"

definition start_world :: world where
  "start_world = \<lparr>now = 1000, posted = [], samples = [], slept = [], signed = [], connects = 0, sent = []\<rparr>"

definition plain_threshold :: "int \<Rightarrow> string" where
  "plain_threshold t = show_int (t * 95 div 100)"

definition example_env :: "int \<Rightarrow> (nat \<Rightarrow> int \<times> http_outcome) \<Rightarrow> env" where
  "example_env retries t =
     \<lparr>MAX_RETRIES = retries, RETRY_DELAY_MS = 1000, PARSED_TIMEOUT_MS = 15000,
      RUN_ID = JStr ''run_1'', SCENARIO_TYPE = JStr ''S17_EstimateGas'', REGION = ''unknown'',
      transport = t, fresh_id = always (JNum 1), show_threshold = plain_threshold\<rparr>"

definition json_response :: "jsval \<Rightarrow> http_response" where
  "json_response v =
     \<lparr>error_code = 0, status = 200, content_type = Some ''application/json; charset=utf-8'',
      body = JSON_stringify v, timings_duration = 5, json = Inr v, timingMetadata = None\<rparr>"

definition both_members :: jsval where
  "both_members =
     JObj [(''jsonrpc'', JStr ''2.0''), (''id'', JNum 1), (''result'', JStr ''0x5208''),
           (''error'', JObj [(''code'', JNum (- 32000)), (''message'', JStr ''execution reverted'')])]"

definition sample_stage :: "sample \<Rightarrow> string \<times> jsval" where
  "sample_stage s = (fst s, obj_get (snd (snd s)) ''stage'')"

definition revert_error :: jsval where
  "revert_error = JObj [(''code'', JNum (- 32000)), (''message'', JStr ''execution reverted'')]"

definition revert_response :: jsval where
  "revert_response = JObj [(''jsonrpc'', JStr ''2.0''), (''id'', JNum 1), (''error'', revert_error)]"

text \<open>
  Request ids as the two programs draw them: the stand-alone script sends a string of
  digits, \<open>String(Math.floor(Date.now() * 1000 + Math.random() * 1000))\<close>, the library
  module the number \<open>Date.now() + Math.random()\<close> (here with \<open>Math.random()\<close> giving
  0). \<open>answering rid v\<close> is a node that answers every request with the body \<open>v\<close> after
  5 ms, for a program that draws the id \<open>rid\<close> each time.
\<close>

definition script_id :: jsval where
  "script_id = JStr ''1730000000000123''"

definition library_id :: jsval where
  "library_id = JNum 1730000000000"

definition answering :: "jsval \<Rightarrow> jsval \<Rightarrow> env" where
  "answering rid v = (example_env 3 (always (5, Response (json_response v))))\<lparr>fresh_id := always rid\<rparr>"

definition revert_reply :: "jsval \<Rightarrow> jsval" where
  "revert_reply rid = JObj [(''jsonrpc'', JStr ''2.0''), (''id'', rid), (''error'', revert_error)]"

definition block_response :: jsval where
  "block_response = JObj [(''jsonrpc'', JStr ''2.0''), (''id'', JNum 1), (''result'', JStr ''0x10'')]"

definition slow_response :: http_response where
  "slow_response = (json_response block_response)\<lparr>timings_duration := 14900\<rparr>"

text \<open>A property read that cannot throw because the value read from is truthy.\<close>

definition js_get :: "jsval \<Rightarrow> string \<Rightarrow> jsval" where
  "js_get v k = (case js_prop v k of Inl e \<Rightarrow> JUndefined | Inr x \<Rightarrow> x)"

text \<open>
  A socket library that hands no reason to the \<open>close\<close> handler, and sockets on which
  nothing ever arrives.
\<close>

definition no_reason :: "jsval \<Rightarrow> jsval" where
  "no_reason r = JUndefined"

definition silent_sockets :: sockets where
  "silent_sockets =
     \<lparr>WS_TIMEOUT = 60000, script = always [], connection_id = always ''c0ffee00'',
      subscribe_id = always (JNum 1), local_reason = no_reason, default_close_code = 1001\<rparr>"

definition default_options :: ws_options where
  "default_options = \<lparr>opt_timeout = None, opt_maxRetries = None\<rparr>"

text \<open>
  The text message that carries the JSON text of \<open>v\<close>, \<open>d\<close> milliseconds after the
  event before it.
\<close>

definition message_of :: "int \<Rightarrow> jsval \<Rightarrow> ws_event" where
  "message_of d v = Message d (case JSON_stringify v of None \<Rightarrow> [] | Some t \<Rightarrow> t) (Inr v)"

text \<open>
  Sockets whose first connection fails after 10 ms and whose second one delivers the
  confirmation and one event.
\<close>

definition flaky_sockets :: sockets where
  "flaky_sockets =
     silent_sockets\<lparr>script :=
       scripted
         [[SocketError 10 (Some ''connection reset'')],
          [message_of 20
             (JObj [(''jsonrpc'', JStr ''2.0''), (''id'', JNum 1), (''result'', JStr ''0xsub'')]),
           message_of 30
             (JObj [(''jsonrpc'', JStr ''2.0''), (''method'', JStr ''eth_subscription''),
                    (''params'', JObj [(''subscription'', JStr ''0xsub'')])])]]
         []\<rparr>"

subsection \<open>Idle subscriptions\<close>

text \<open>
  The events that reach a socket before its timer fires, when \<open>left\<close> milliseconds
  are left on the timer and the events come with the delays they carry.
\<close>

fun arrivals :: "int \<Rightarrow> ws_event list \<Rightarrow> ws_event list" where
  "arrivals left [] = []"
| "arrivals left (ev # evs) =
     (if left \<le> delay ev then [] else ev # arrivals (left - delay ev) evs)"

text \<open>
  A message that leaves the subscription waiting: it parses to a value other than
  \<open>null\<close>, it is not an error reply to the subscription request, and it is not a
  subscription event (\<open>method\<close> \<open>eth_subscription\<close> with \<open>params\<close>). The reply
  that confirms the subscription is such a message.
\<close>

definition idle_message :: "jsval \<Rightarrow> ws_event \<Rightarrow> bool" where
  "idle_message reqId ev =
     (case ev of
        Message d raw (Inr v) \<Rightarrow>
          v \<noteq> JNull \<and> v \<noteq> JUndefined
          \<and> \<not> (strict_eq (js_get v ''id'') reqId \<and> truthy (js_get v ''error''))
          \<and> \<not> (strict_eq (js_get v ''method'') (JStr ''eth_subscription'') \<and> truthy (js_get v ''params''))
      | _ \<Rightarrow> False)"

definition confirmation :: "jsval \<Rightarrow> ws_event \<Rightarrow> bool" where
  "confirmation reqId ev =
     (case ev of
        Message d raw (Inr v) \<Rightarrow> strict_eq (js_get v ''id'') reqId \<and> truthy (js_get v ''result'')
      | _ \<Rightarrow> False)"

text \<open>
  Sockets of the stand-alone script, whose request ids are strings of digits: the
  subscription is confirmed after 20 ms and nothing follows.
\<close>

definition confirmed_sockets :: sockets where
  "confirmed_sockets =
     \<lparr>WS_TIMEOUT = 60000,
      script = always
        [message_of 20
           (JObj [(''jsonrpc'', JStr ''2.0''), (''id'', JStr ''1730000000000456''),
                  (''result'', JStr ''0xsub'')])],
      connection_id = always ''c0ffee00'',
      subscribe_id = always (JStr ''1730000000000456''),
      local_reason = no_reason, default_close_code = 1001\<rparr>"

subsection \<open>Observations on nonces\<close>

text \<open>
  The \<open>method\<close> member of the JSON-RPC envelope of a request that went out.
\<close>

definition posted_method :: "string \<times> string option \<times> jsobject \<Rightarrow> jsval" where
  "posted_method p = obj_get (snd (snd p)) ''method''"

text \<open>
  The \<open>nonce\<close> member of a transaction handed to \<open>ethgo.signLegacyTx\<close>.
\<close>

definition tx_nonce :: "jsobject \<Rightarrow> jsval" where
  "tx_nonce tx = obj_get tx ''nonce''"

text \<open>
  A node whose parsed bodies can all be read member by member: none is \<open>null\<close> or
  \<open>undefined\<close>, none shadows \<open>hasOwnProperty\<close>.
\<close>

definition readable :: "env \<Rightarrow> bool" where
  "readable env = (\<forall>k res v. snd (transport env k) = Response res \<longrightarrow> json res = Inr v \<longrightarrow> \<not> unreadable v)"

text \<open>
  The \<open>method\<close> tag of a call: \<open>{ method, ...extraTags }.method\<close>.
\<close>

definition method_tag :: "string \<Rightarrow> jsobject \<Rightarrow> jsval" where
  "method_tag m xt = obj_get (obj_spread [(''method'', JStr m)] xt) ''method''"

text \<open>
  The request with which \<open>fundWallets\<close> asks for the pending nonce of the base address,
  as the \<open>j\<close>-th attempt of that call when \<open>n\<close> requests went out before it: the
  url, the body and the request tags.
\<close>

definition nonce_request :: "env \<Rightarrow> string \<Rightarrow> string \<Rightarrow> nat \<Rightarrow> nat \<Rightarrow> string \<times> string option \<times> jsobject" where
  "nonce_request env url a n j =
     (url,
      buildRpcRequest (fresh_id env (n + j)) (JStr ''eth_getTransactionCount'')
        (JArr [JStr a, JStr ''pending'']),
      baseTags env url ''eth_getTransactionCount'' (int j) [(''op'', JStr ''get_nonce'')])"

text \<open>
  A signer that returns a raw transaction for every transaction and key.
\<close>

definition signer_total :: "chain_config \<Rightarrow> bool" where
  "signer_total cfg = (\<forall>tx key. \<exists>raw. signLegacyTx cfg tx key = Inr raw)"

text \<open>
  A node that answers every request with the quantity \<open>0x5\<close>, a signer with one
  answer, a chain configuration with batches of two, and wallets for the examples.
\<close>

definition nonce_response :: jsval where
  "nonce_response = JObj [(''jsonrpc'', JStr ''2.0''), (''id'', JNum 1), (''result'', JStr ''0x5'')]"

definition steady_node :: env where
  "steady_node = example_env 3 (always (5, Response (json_response nonce_response)))"

definition constant_signer :: "jsobject \<Rightarrow> string \<Rightarrow> js_exn + string" where
  "constant_signer tx key = Inr ''0xf86b''"

definition example_chain :: chain_config where
  "example_chain =
     \<lparr>chainId = 50312, gasPriceMultiplier = (6, 5), gasLimit_simple = 21000, gasLimit_erc20 = 65000,
      gasLimit_contract = 100000, erc20TransferSig = ''0xa9059cbb'', batchSize = 2,
      defaultFundingAmount = 1000000000000000, signLegacyTx = constant_signer\<rparr>"

definition base_wallet :: wallet where
  "base_wallet = \<lparr>pk = ''01'', addr = ''0xbase'', index = 0, nonce = 0, fundingTx = JUndefined\<rparr>"

definition three_wallets :: "wallet list" where
  "three_wallets =
     [\<lparr>pk = ''0a'', addr = ''0xa'', index = 0, nonce = 0, fundingTx = JUndefined\<rparr>,
      \<lparr>pk = ''0b'', addr = ''0xb'', index = 1, nonce = 0, fundingTx = JUndefined\<rparr>,
      \<lparr>pk = ''0c'', addr = ''0xc'', index = 2, nonce = 0, fundingTx = JUndefined\<rparr>]"

section \<open>Properties\<close>

subsection \<open>Bookkeeping lemmas\<close>

lemma obj_get_obj_set: "obj_get (obj_set k v fs) k' = (if k' = k then v else obj_get fs k')"
  by (induction fs) auto

lemma to_double_small [simp]: "\<bar>i\<bar> < 2 ^ 53 \<Longrightarrow> to_double i = JNum i"
proof -
  assume small: "\<bar>i\<bar> < 2 ^ 53"
  then have "nat \<bar>i\<bar> < 2 ^ 53"
    by (simp add: nat_less_iff)
  moreover have "(2::nat) ^ 53 < 2 ^ 1024"
    by (rule power_strict_increasing) simp_all
  ultimately show ?thesis
    by (auto simp add: to_double_def round_to_double_def Let_def)
qed

lemma samples_metric_add [simp]: "samples (metric_add m v t w) = samples w @ [(m, v, t)]"
  by (simp add: metric_add_def)

lemma posted_metric_add [simp]: "posted (metric_add m v t w) = posted w"
  by (simp add: metric_add_def)

lemma slept_metric_add [simp]: "slept (metric_add m v t w) = slept w"
  by (simp add: metric_add_def)

lemma now_metric_add [simp]: "now (metric_add m v t w) = now w"
  by (simp add: metric_add_def)

lemma signed_metric_add [simp]: "signed (metric_add m v t w) = signed w"
  by (simp add: metric_add_def)

lemma connects_metric_add [simp]: "connects (metric_add m v t w) = connects w"
  by (simp add: metric_add_def)

lemma sent_metric_add [simp]: "sent (metric_add m v t w) = sent w"
  by (simp add: metric_add_def)

lemma metric_add_if_fields [simp]:
  "samples (metric_add_if c m v t w) = samples w @ (if c then [(m, v, t)] else [])"
  "posted (metric_add_if c m v t w) = posted w"
  "slept (metric_add_if c m v t w) = slept w"
  "now (metric_add_if c m v t w) = now w"
  "signed (metric_add_if c m v t w) = signed w"
  "connects (metric_add_if c m v t w) = connects w"
  "sent (metric_add_if c m v t w) = sent w"
  by (simp_all add: metric_add_if_def)

lemma metric_total_append [simp]: "metric_total m (xs @ ys) = metric_total m xs + metric_total m ys"
  by (simp add: metric_total_def)

lemma metric_total_Nil [simp]: "metric_total m [] = 0"
  by (simp add: metric_total_def)

lemma metric_total_Cons [simp]:
  "metric_total m (s # ss) = (if fst s = m then sample_amount s else 0) + metric_total m ss"
  by (simp add: metric_total_def)

subsection \<open>recordFailure (lib/metrics.js)\<close>

text \<open>
  C10. Every call of \<open>recordFailure\<close> adds exactly one sample of value 1 to the error
  counter and exactly one to the error rate, so each total grows by 1. Both samples carry
  the enriched tags, whose \<open>reason\<close> is the first 100 characters of the given reason
  and whose \<open>retry_attempt\<close> is 0 when the options supply no retry attempt (and the
  supplied attempt when it is a non-zero number).
\<close>

theorem recordFailure_one_error_sample:
  "filter (\<lambda>s. fst s = errorCount) (emitted w (recordFailure tags reason options w))
     = [(errorCount, JNum 1, enrichedTags tags reason options)]
   \<and> filter (\<lambda>s. fst s = errorRate) (emitted w (recordFailure tags reason options w))
     = [(errorRate, JNum 1, enrichedTags tags reason options)]
   \<and> metric_total errorCount (samples (recordFailure tags reason options w))
     = metric_total errorCount (samples w) + 1
   \<and> metric_total errorRate (samples (recordFailure tags reason options w))
     = metric_total errorRate (samples w) + 1
   \<and> obj_get (enrichedTags tags reason options) ''reason'' = JStr (take 100 reason)
   \<and> length (take 100 reason) \<le> 100
   \<and> (obj_get options ''retryAttempt'' = JUndefined
        \<longrightarrow> obj_get (enrichedTags tags reason options) ''retry_attempt'' = JNum 0)
   \<and> (truthy (obj_get options ''retryAttempt'')
        \<longrightarrow> obj_get (enrichedTags tags reason options) ''retry_attempt'' = obj_get options ''retryAttempt'')"
  by (simp add: recordFailure_def Let_def emitted_def enrichedTags_def obj_get_obj_set js_or_def)

theorem recordFailure_one_error_sample_witness:
  "obj_get [] ''retryAttempt'' = JUndefined
   \<and> filter (\<lambda>s. fst s = errorCount)
        (samples (recordFailure [(''method'', JStr ''eth_call'')] (replicate 120 CHR ''x'') []
           start_world))
      = [(errorCount, JNum 1,
          [(''method'', JStr ''eth_call''), (''reason'', JStr (replicate 100 CHR ''x'')), (''retry_attempt'', JNum 0)])]
   \<and> truthy (obj_get [(''retryAttempt'', JNum 2)] ''retryAttempt'')
   \<and> obj_get (enrichedTags [] ''boom'' [(''retryAttempt'', JNum 2)]) ''retry_attempt'' = JNum 2"
  using recordFailure_one_error_sample [of start_world
          "[(''method'', JStr ''eth_call'')]" "replicate 120 CHR ''x''" "[]"]
        recordFailure_one_error_sample [of start_world
          "[]" "''boom''" "[(''retryAttempt'', JNum 2)]"]
  by (simp add: emitted_def enrichedTags_def js_or_def start_world_def recordFailure_def metric_add_def
        metric_add_if_def)

subsection \<open>buildRpcRequest (lib/rpc-client.js)\<close>

text \<open>
  C9. \<open>buildRpcRequest(id, method, params)\<close> returns the JSON serialisation of an
  object with the members \<open>jsonrpc\<close>, \<open>id\<close>, \<open>method\<close>, \<open>params\<close>, where
  \<open>jsonrpc\<close> is \<open>'2.0'\<close>, \<open>id\<close> and \<open>method\<close> are the arguments, and
  \<open>params\<close> is the given array, or the empty array when \<open>params\<close> is \<open>null\<close> or
  \<open>undefined\<close>.
\<close>

theorem buildRpcRequest_envelope:
  "\<exists>obj. buildRpcRequest rid method params = JSON_stringify (JObj obj)
     \<and> JSON_stringify (JObj obj) \<noteq> None
     \<and> map fst obj = [''jsonrpc'', ''id'', ''method'', ''params'']
     \<and> obj_get obj ''jsonrpc'' = JStr ''2.0''
     \<and> obj_get obj ''id'' = rid
     \<and> obj_get obj ''method'' = method
     \<and> (\<forall>ps. params = JArr ps \<longrightarrow> obj_get obj ''params'' = JArr ps)
     \<and> (params = JNull \<or> params = JUndefined \<longrightarrow> obj_get obj ''params'' = JArr [])"
  by (rule exI [of _ "rpc_envelope rid method params"])
     (auto simp add: buildRpcRequest_def rpc_envelope_def js_or_def)

theorem buildRpcRequest_envelope_witness:
  \<open>buildRpcRequest (JNum 7) (JStr ''eth_getBalance'') (JArr [JStr ''0xab'', JStr ''latest''])
     = Some ''{"jsonrpc":"2.0","id":7,"method":"eth_getBalance","params":["0xab","latest"]}''
   \<and> buildRpcRequest (JNum 7) (JStr ''eth_blockNumber'') JUndefined
     = Some ''{"jsonrpc":"2.0","id":7,"method":"eth_blockNumber","params":[]}''
   \<and> buildRpcRequest (JNum 7) (JStr ''eth_blockNumber'') JNull
     = Some ''{"jsonrpc":"2.0","id":7,"method":"eth_blockNumber","params":[]}''\<close>
  using buildRpcRequest_envelope [of "JNum 7" "JStr ''eth_getBalance''" "JArr [JStr ''0xab'', JStr ''latest'']"]
        buildRpcRequest_envelope [of "JNum 7" "JStr ''eth_blockNumber''" JUndefined]
        buildRpcRequest_envelope [of "JNum 7" "JStr ''eth_blockNumber''" JNull]
  by (simp add: buildRpcRequest_def rpc_envelope_def js_or_def json_quote_def json_escape_char_def
        show_int_def show_nat.simps digit_char_def)

subsection \<open>jsonCall (lib/rpc-client.js)\<close>

lemmas eval_defs = example_env_def always_def expect_any_def start_world_def json_response_def
  post_def baseTags_def jsonCall_response_def httpChecks_def structureChecks_def js_then_def
  resultChecks_def rpcErrorTags_def rpcErrorReason_def recordFailure_def enrichedTags_def
  metric_add_def metric_add_if_def js_or_def Let_def recordSuccess_def addRTT_def
  updateStateMetrics_def sleep_def sample_stage_def

lemma recordFailure_fields [simp]:
  "posted (recordFailure t r o' w) = posted w"
  "slept (recordFailure t r o' w) = slept w"
  "now (recordFailure t r o' w) = now w"
  "signed (recordFailure t r o' w) = signed w"
  "connects (recordFailure t r o' w) = connects w"
  "sent (recordFailure t r o' w) = sent w"
  by (simp_all add: recordFailure_def Let_def)

lemma recordFailure_total:
  "m \<noteq> methodErrors \<Longrightarrow> m \<noteq> timeoutRate \<Longrightarrow> m \<noteq> httpErrorRate \<Longrightarrow>
   metric_total m (samples (recordFailure t r o' w))
     = metric_total m (samples w) + (if m = errorCount \<or> m = errorRate then 1 else 0)"
  by (auto simp add: recordFailure_def Let_def)

lemma sleep_fields [simp]:
  "posted (sleep d w) = posted w"
  "slept (sleep d w) = slept w @ [d]"
  "samples (sleep d w) = samples w"
  "signed (sleep d w) = signed w"
  "connects (sleep d w) = connects w"
  "sent (sleep d w) = sent w"
  by (simp_all add: sleep_def)

lemma post_eq:
  "post env url b t w =
     (snd (transport env (length (posted w))),
      w\<lparr>now := now w + fst (transport env (length (posted w))), posted := posted w @ [(url, b, t)]\<rparr>)"
  by (simp add: post_def split: prod.splits)

lemma jsonCall_retry_step:
  assumes "transport_fails (snd (transport env (length (posted w))))" and "r < MAX_RETRIES env"
  shows "jsonCall env url method params extraTags expectFn r w =
     jsonCall env url method params extraTags expectFn (r + 1)
       (sleep (RETRY_DELAY_MS env)
          (metric_add retryCount (JNum 1) (baseTags env url method r extraTags)
             (w\<lparr>now := now w + fst (transport env (length (posted w))),
                posted := posted w @ [(url, buildRpcRequest (fresh_id env (length (posted w))) (JStr method) params,
                                       baseTags env url method r extraTags)]\<rparr>)))"
  using assms
  by (subst jsonCall.simps) (simp add: post_eq transport_fails_def split: http_outcome.splits)

lemma jsonCall_last_step:
  assumes "transport_fails (snd (transport env (length (posted w))))" and "\<not> r < MAX_RETRIES env"
  shows "\<exists>t reason. jsonCall env url method params extraTags expectFn r w =
     (Inr JUndefined,
      recordFailure t reason [(''retryAttempt'', JNum r)]
        (w\<lparr>now := now w + fst (transport env (length (posted w))),
           posted := posted w @ [(url, buildRpcRequest (fresh_id env (length (posted w))) (JStr method) params,
                                  baseTags env url method r extraTags)]\<rparr>))"
  using assms
  by (subst jsonCall.simps) (auto simp add: post_eq transport_fails_def split: http_outcome.splits)

lemma jsonCall_answer_step:
  assumes "snd (transport env (length (posted w))) = Response res" and "error_code res = 0"
  shows "jsonCall env url m ps xt f r w =
     jsonCall_response m f r (fresh_id env (length (posted w))) (now w) (baseTags env url m r xt) res
       (w\<lparr>now := now w + fst (transport env (length (posted w))),
          posted := posted w @ [(url, buildRpcRequest (fresh_id env (length (posted w))) (JStr m) ps,
                                 baseTags env url m r xt)]\<rparr>)"
  using assms by (subst jsonCall.simps) (simp add: post_eq)

lemma jsonCall_all_fail:
  assumes fails: "\<And>k. transport_fails (snd (transport env k))"
  shows "nat (MAX_RETRIES env - r) = n \<Longrightarrow> r \<le> MAX_RETRIES env \<Longrightarrow>
     fst (jsonCall env url method params extraTags expectFn r w) = Inr JUndefined
   \<and> length (posted (snd (jsonCall env url method params extraTags expectFn r w))) = length (posted w) + n + 1
   \<and> slept (snd (jsonCall env url method params extraTags expectFn r w)) = slept w @ replicate n (RETRY_DELAY_MS env)
   \<and> metric_total retryCount (samples (snd (jsonCall env url method params extraTags expectFn r w)))
       = metric_total retryCount (samples w) + int n
   \<and> metric_total errorCount (samples (snd (jsonCall env url method params extraTags expectFn r w)))
       = metric_total errorCount (samples w) + 1
   \<and> metric_total errorRate (samples (snd (jsonCall env url method params extraTags expectFn r w)))
       = metric_total errorRate (samples w) + 1
   \<and> metric_total successCount (samples (snd (jsonCall env url method params extraTags expectFn r w)))
       = metric_total successCount (samples w)"
proof (induction n arbitrary: r w)
  case 0
  then have last: "\<not> r < MAX_RETRIES env" by simp
  from jsonCall_last_step [OF fails last] obtain t reason where
    "jsonCall env url method params extraTags expectFn r w =
     (Inr JUndefined,
      recordFailure t reason [(''retryAttempt'', JNum r)]
        (w\<lparr>now := now w + fst (transport env (length (posted w))),
           posted := posted w @ [(url, buildRpcRequest (fresh_id env (length (posted w))) (JStr method) params,
                                  baseTags env url method r extraTags)]\<rparr>))"
    by blast
  then show ?case by (simp add: recordFailure_total)
next
  case (Suc n)
  then have more: "r < MAX_RETRIES env" and next_n: "nat (MAX_RETRIES env - (r + 1)) = n"
    and next_le: "r + 1 \<le> MAX_RETRIES env"
    by simp_all
  note IH = Suc.IH [OF next_n next_le]
  show ?case
    by (simp add: jsonCall_retry_step [OF fails more] IH replicate_append_same)
qed

text \<open>
  C4. When every attempt of a call fails at the transport level and the retry bound is
  not negative, \<open>jsonCall\<close> returns \<open>undefined\<close> after exactly \<open>MAX_RETRIES + 1\<close>
  HTTP POSTs; it sleeps \<open>MAX_RETRIES\<close> times, each time for the same
  \<open>RETRY_DELAY_MS\<close>, adds \<open>MAX_RETRIES\<close> to the retry counter, and adds 1 to the
  error counter and to the error rate for the whole chain (and nothing to the success
  counter).
\<close>

theorem jsonCall_retry_bound:
  assumes "0 \<le> MAX_RETRIES env" and "\<forall>k. transport_fails (snd (transport env k))"
  shows "fst (jsonCall env url method params extraTags expectFn 0 w) = Inr JUndefined
   \<and> length (posted (snd (jsonCall env url method params extraTags expectFn 0 w)))
       = length (posted w) + nat (MAX_RETRIES env) + 1
   \<and> slept (snd (jsonCall env url method params extraTags expectFn 0 w))
       = slept w @ replicate (nat (MAX_RETRIES env)) (RETRY_DELAY_MS env)
   \<and> metric_total retryCount (samples (snd (jsonCall env url method params extraTags expectFn 0 w)))
       = metric_total retryCount (samples w) + MAX_RETRIES env
   \<and> metric_total errorCount (samples (snd (jsonCall env url method params extraTags expectFn 0 w)))
       = metric_total errorCount (samples w) + 1
   \<and> metric_total errorRate (samples (snd (jsonCall env url method params extraTags expectFn 0 w)))
       = metric_total errorRate (samples w) + 1
   \<and> metric_total successCount (samples (snd (jsonCall env url method params extraTags expectFn 0 w)))
       = metric_total successCount (samples w)"
  using jsonCall_all_fail [of env 0 "nat (MAX_RETRIES env)" url "method" "params" extraTags expectFn w] assms
  by simp

theorem jsonCall_retry_bound_witness:
  "0 \<le> MAX_RETRIES (example_env 2 (always (10, Thrown (Some ''connection refused''))))
   \<and> (\<forall>k. transport_fails (snd (transport (example_env 2 (always (10, Thrown (Some ''connection refused'')))) k)))
   \<and> fst (jsonCall (example_env 2 (always (10, Thrown (Some ''connection refused''))))
            ''http://node'' ''eth_blockNumber'' (JArr []) [] expect_any 0 start_world) = Inr JUndefined
   \<and> length (posted (snd (jsonCall (example_env 2 (always (10, Thrown (Some ''connection refused''))))
            ''http://node'' ''eth_blockNumber'' (JArr []) [] expect_any 0 start_world))) = 3
   \<and> slept (snd (jsonCall (example_env 2 (always (10, Thrown (Some ''connection refused''))))
            ''http://node'' ''eth_blockNumber'' (JArr []) [] expect_any 0 start_world)) = [1000, 1000]
   \<and> map fst (samples (snd (jsonCall (example_env 2 (always (10, Thrown (Some ''connection refused''))))
            ''http://node'' ''eth_blockNumber'' (JArr []) [] expect_any 0 start_world)))
       = [retryCount, retryCount, errorCount, errorRate, methodErrors]"
  using jsonCall_retry_bound [of "example_env 2 (always (10, Thrown (Some ''connection refused'')))"
          "''http://node''" "''eth_blockNumber''" "JArr []" "[]" expect_any start_world]
  by (simp add: jsonCall.simps transport_fails_def eval_defs)

subsection \<open>Structure of the response (lib/rpc-client.js)\<close>

lemma strict_eq_JStr [simp]: "strict_eq x (JStr s) = (x = JStr s)"
  by (cases x) auto

text \<open>
  C7, as the code has it. A parsed response passes the structure checks exactly when it
  is an object whose \<open>jsonrpc\<close> member is the string \<open>'2.0'\<close>, whose \<open>id\<close> is
  strictly equal to the request id, and which has at least one of the members
  \<open>result\<close> and \<open>error\<close> (and no own member \<open>hasOwnProperty\<close>, on which the check
  throws). Having both members does not fail the check.
\<close>

theorem structureChecks_iff:
  "structureChecks reqId v = Inr True \<longleftrightarrow>
     (\<exists>fs. v = JObj fs \<and> ''hasOwnProperty'' \<notin> set (map fst fs)
        \<and> obj_get fs ''jsonrpc'' = JStr ''2.0''
        \<and> strict_eq (obj_get fs ''id'') reqId
        \<and> (''result'' \<in> set (map fst fs) \<or> ''error'' \<in> set (map fst fs)))"
  by (cases v) (auto simp add: structureChecks_def js_then_def)

theorem structureChecks_iff_witness:
  "structureChecks (JNum 1) (JObj [(''jsonrpc'', JStr ''2.0''), (''id'', JNum 1), (''result'', JStr ''0x10'')]) = Inr True
   \<and> structureChecks (JNum 1) (JObj [(''jsonrpc'', JStr ''2.0''), (''id'', JNum 1)]) = Inr False
   \<and> structureChecks (JNum 1) (JObj [(''jsonrpc'', JStr ''2.0''), (''id'', JNum 2), (''result'', JStr ''0x10'')]) = Inr False
   \<and> structureChecks (JNum 1) (JObj [(''id'', JNum 1), (''result'', JStr ''0x10'')]) = Inr False"
  using structureChecks_iff [of "JNum 1" "JObj [(''jsonrpc'', JStr ''2.0''), (''id'', JNum 1), (''result'', JStr ''0x10'')]"]
  by (simp add: structureChecks_def js_then_def)

text \<open>
  C7, as stated, fails: a response with both a \<open>result\<close> and an \<open>error\<close> member
  passes the structure checks, and \<open>jsonCall\<close> then records it at stage
  \<open>rpc_error\<close>, not \<open>rpc_structure\<close>.
\<close>

theorem both_members_counterexample:
  "js_hasOwnProperty both_members ''result'' = Inr True
   \<and> js_hasOwnProperty both_members ''error'' = Inr True
   \<and> structureChecks (JNum 1) both_members = Inr True
   \<and> map sample_stage (samples (snd (jsonCall
        (example_env 3 (always (5, Response (json_response both_members))))
        ''http://node'' ''eth_call'' (JArr []) [] expect_any 0 start_world)))
     = [(errorCount, JStr ''rpc_error''), (errorRate, JStr ''rpc_error''), (methodErrors, JStr ''rpc_error'')]"
  by (simp add: jsonCall.simps both_members_def eval_defs)

subsection \<open>What jsonCall throws (lib/rpc-client.js)\<close>

text \<open>
  C8 at a body that parses to \<open>null\<close> (HTTP 200, JSON content type, body \<open>null\<close>):
  the first structure check reads \<open>v.jsonrpc\<close> from \<open>null\<close>, the TypeError leaves
  \<open>jsonCall\<close>, and no failure has been recorded.
\<close>

theorem jsonCall_null_body_throws:
  "fst (jsonCall (example_env 3 (always (5, Response (json_response JNull))))
          ''http://node'' ''eth_call'' (JArr []) [] expect_any 0 start_world)
     = Inl (TypeError ''Cannot read property of null'')
   \<and> samples (snd (jsonCall (example_env 3 (always (5, Response (json_response JNull))))
          ''http://node'' ''eth_call'' (JArr []) [] expect_any 0 start_world)) = []
   \<and> body (json_response JNull) = Some ''null''"
  by (simp add: jsonCall.simps eval_defs)

subsection \<open>jsonCall (perf/somnia_rpc_perf.js)\<close>

lemma obj_get_obj_spread_Cons: "obj_get (obj_spread a ((k, v) # fs)) k' = obj_get (obj_spread (obj_set k v a) fs) k'"
  by simp

lemma indicators_timingMetadata [simp]:
  "indicators (res\<lparr>timingMetadata := x\<rparr>) d t = indicators res d t"
  by (simp add: indicators_def)

lemma httpChecks_perf_timingMetadata [simp]:
  "httpChecks_perf env (res\<lparr>timingMetadata := x\<rparr>) = httpChecks_perf env res"
  by (simp add: httpChecks_perf_def)

lemma timeout_samples_fields [simp]:
  "posted (timeout_samples tg e td w) = posted w"
  "slept (timeout_samples tg e td w) = slept w"
  "now (timeout_samples tg e td w) = now w"
  "signed (timeout_samples tg e td w) = signed w"
  "connects (timeout_samples tg e td w) = connects w"
  "sent (timeout_samples tg e td w) = sent w"
  by (simp_all add: timeout_samples_def)

lemma timeout_samples_total:
  "m \<noteq> timeoutCount \<Longrightarrow> m \<noteq> timeoutLatency \<Longrightarrow> m \<noteq> timeoutByMethod \<Longrightarrow>
   metric_total m (samples (timeout_samples tg e td w)) = metric_total m (samples w)"
  by (simp add: timeout_samples_def)

lemma recordFailure_perf_fields [simp]:
  "posted (recordFailure_perf env t r o' w) = posted w"
  "slept (recordFailure_perf env t r o' w) = slept w"
  "now (recordFailure_perf env t r o' w) = now w"
  "signed (recordFailure_perf env t r o' w) = signed w"
  "connects (recordFailure_perf env t r o' w) = connects w"
  "sent (recordFailure_perf env t r o' w) = sent w"
  by (simp_all add: recordFailure_perf_def Let_def split: option.splits)

lemma recordFailure_perf_total:
  "m \<noteq> methodErrors \<Longrightarrow> m \<noteq> timeoutRate \<Longrightarrow> m \<noteq> httpErrorRate \<Longrightarrow>
   m \<noteq> timeoutCount \<Longrightarrow> m \<noteq> timeoutLatency \<Longrightarrow> m \<noteq> timeoutByMethod \<Longrightarrow>
   metric_total m (samples (recordFailure_perf env t r o' w))
     = metric_total m (samples w) + (if m = errorCount \<or> m = errorRate then 1 else 0)"
  by (simp add: recordFailure_perf_def Let_def timeout_samples_total split: option.splits)

lemma recordSuccess_fields [simp]:
  "posted (recordSuccess t w) = posted w"
  "slept (recordSuccess t w) = slept w"
  "now (recordSuccess t w) = now w"
  "signed (recordSuccess t w) = signed w"
  "connects (recordSuccess t w) = connects w"
  "sent (recordSuccess t w) = sent w"
  by (simp_all add: recordSuccess_def Let_def)

lemma recordSuccess_total:
  "m \<noteq> methodSuccess \<Longrightarrow>
   metric_total m (samples (recordSuccess t w)) = metric_total m (samples w) + (if m = successCount then 1 else 0)"
  by (auto simp add: recordSuccess_def Let_def)

lemma addRTT_fields [simp]:
  "posted (addRTT d t w) = posted w"
  "slept (addRTT d t w) = slept w"
  "now (addRTT d t w) = now w"
  "signed (addRTT d t w) = signed w"
  "connects (addRTT d t w) = connects w"
  "sent (addRTT d t w) = sent w"
  by (simp_all add: addRTT_def Let_def)

lemma addRTT_total:
  "m \<noteq> rtt \<Longrightarrow> m \<noteq> methodLatency \<Longrightarrow> m \<noteq> wsLatency \<Longrightarrow> m \<noteq> rpcLatency \<Longrightarrow>
   metric_total m (samples (addRTT d t w)) = metric_total m (samples w)"
  by (auto simp add: addRTT_def Let_def)

lemma post_perf_eq:
  "transport env (length (posted w)) = (elapsed, Response res) \<Longrightarrow> timingMetadata res = None \<Longrightarrow>
   post_perf env url b t w =
     (Inr (res\<lparr>timingMetadata := Some (now w)\<rparr>),
      w\<lparr>now := now w + elapsed, posted := posted w @ [(url, b, t)]\<rparr>)"
  by (simp add: post_perf_def)

lemma detectTimeout_after_post:
  "isTimeout (detectTimeout (res\<lparr>timingMetadata := Some t0\<rparr>) s timeoutMs w)
     = list_ex snd (indicators res (now w - t0) timeoutMs)"
  by (simp add: detectTimeout_def Let_def)

lemma js_prop_truthy: "truthy e \<Longrightarrow> js_prop e k = Inr (js_get e k)"
  by (cases e) (auto simp add: js_get_def)

lemma rpcErrorTags_truthy:
  "truthy e \<Longrightarrow> rpcErrorTags tg e =
     Inr (obj_spread tg [(''stage'', JStr ''rpc_error''), (''rpc_error_code'', js_get e ''code''),
                          (''rpc_error_message'', JStr (take 100 (js_String (js_get e ''message''))))])"
  by (simp add: rpcErrorTags_def js_then_def js_prop_truthy)

lemma rpcErrorReason_truthy:
  "truthy e \<Longrightarrow> rpcErrorReason e =
     Inr (''RPC error '' @ js_String (js_get e ''code'') @ '': '' @ js_String (js_get e ''message''))"
  by (simp add: rpcErrorReason_def js_then_def js_prop_truthy)

lemma failure_detection_in_time:
  "\<not> list_ex snd (indicators res (now w1 - t0) (PARSED_TIMEOUT_MS env)) \<Longrightarrow>
   failure_detection env
     (no_options\<lparr>o_retryAttempt := a, o_response := Some (res\<lparr>timingMetadata := Some t0\<rparr>),
                  o_requestStartTime := Some s0\<rparr>) w1 = None"
  by (simp add: failure_detection_def no_options_def detectTimeout_after_post Let_def)

lemma stage_of_rpc_error_failure:
  assumes intime: "\<not> list_ex snd (indicators res (now w1 - t0) (PARSED_TIMEOUT_MS env))"
    and same: "samples w1 = samples w"
  shows "map sample_stage (filter (\<lambda>s. fst s = errorCount)
           (emitted w (recordFailure_perf env
              (obj_set ''rpc_error_message'' m
                 (obj_set ''rpc_error_code'' c (obj_set ''stage'' (JStr ''rpc_error'') tg)))
              reason
              (no_options\<lparr>o_retryAttempt := JNum r, o_response := Some (res\<lparr>timingMetadata := Some t0\<rparr>),
                           o_requestStartTime := Some s0\<rparr>) w1)))
         = [(errorCount, JStr ''rpc_error'')]"
  by (simp add: recordFailure_perf_def Let_def emitted_def same failure_detection_in_time [OF intime]
        sample_stage_def obj_get_obj_set)

lemma jsonCall_perf_error_branch:
  assumes tr: "transport env (length (posted w)) = (elapsed, Response res)"
    and fresh: "timingMetadata res = None"
    and intime: "\<not> list_ex snd (indicators res elapsed (PARSED_TIMEOUT_MS env))"
    and noerr: "error_code res = 0"
    and http: "httpChecks_perf env res"
    and js: "json res = Inr (JObj fs)"
    and struct: "structureChecks (fresh_id env (length (posted w))) (JObj fs) = Inr True"
    and err: "truthy (obj_get fs ''error'')"
  shows "(method = ''eth_estimateGas'' \<longrightarrow>
            fst (jsonCall_perf env url method params extraTags expectFn r w)
              = Inr (JObj [(''error'', obj_get fs ''error'')])
          \<and> metric_total successCount (samples (snd (jsonCall_perf env url method params extraTags expectFn r w)))
              = metric_total successCount (samples w) + 1
          \<and> metric_total errorCount (samples (snd (jsonCall_perf env url method params extraTags expectFn r w)))
              = metric_total errorCount (samples w)
          \<and> metric_total errorRate (samples (snd (jsonCall_perf env url method params extraTags expectFn r w)))
              = metric_total errorRate (samples w))
       \<and> (method \<noteq> ''eth_estimateGas'' \<longrightarrow>
            fst (jsonCall_perf env url method params extraTags expectFn r w) = Inr JUndefined
          \<and> metric_total errorCount (samples (snd (jsonCall_perf env url method params extraTags expectFn r w)))
              = metric_total errorCount (samples w) + 1
          \<and> metric_total errorRate (samples (snd (jsonCall_perf env url method params extraTags expectFn r w)))
              = metric_total errorRate (samples w) + 1
          \<and> metric_total successCount (samples (snd (jsonCall_perf env url method params extraTags expectFn r w)))
              = metric_total successCount (samples w)
          \<and> metric_total retryCount (samples (snd (jsonCall_perf env url method params extraTags expectFn r w)))
              = metric_total retryCount (samples w)
          \<and> length (posted (snd (jsonCall_perf env url method params extraTags expectFn r w)))
              = length (posted w) + 1
          \<and> slept (snd (jsonCall_perf env url method params extraTags expectFn r w)) = slept w
          \<and> map sample_stage (filter (\<lambda>s. fst s = errorCount)
                (emitted w (snd (jsonCall_perf env url method params extraTags expectFn r w))))
              = [(errorCount, JStr ''rpc_error'')])"
proof -
  have attempt: "jsonCall_perf_attempt env url method params extraTags expectFn r w =
    (case jsonCall_perf_response env method expectFn r (fresh_id env (length (posted w))) (now w)
            (baseTags_perf env url method r extraTags) (res\<lparr>timingMetadata := Some (now w)\<rparr>)
            (w\<lparr>now := now w + elapsed,
               posted := posted w @ [(url, rpc (fresh_id env (length (posted w))) (JStr method) params,
                                       baseTags_perf env url method r extraTags)]\<rparr>) of
       (r', w2) \<Rightarrow> (Inr r', w2))"
    using intime noerr
    by (simp add: jsonCall_perf_attempt_def Let_def post_perf_eq [OF tr fresh] detectTimeout_after_post)
  have call: "jsonCall_perf env url method params extraTags expectFn r w =
    jsonCall_perf_response env method expectFn r (fresh_id env (length (posted w))) (now w)
            (baseTags_perf env url method r extraTags) (res\<lparr>timingMetadata := Some (now w)\<rparr>)
            (w\<lparr>now := now w + elapsed,
               posted := posted w @ [(url, rpc (fresh_id env (length (posted w))) (JStr method) params,
                                       baseTags_perf env url method r extraTags)]\<rparr>)"
    by (subst jsonCall_perf.simps) (simp add: attempt split: prod.splits)
  show ?thesis
    unfolding call
    by (simp add: jsonCall_perf_response_def Let_def http js struct err rpcErrorTags_truthy rpcErrorReason_truthy
          recordFailure_perf_total recordSuccess_total addRTT_total stage_of_rpc_error_failure intime)
qed

lemma recordFailure_perf_timeoutRate:
  "truthy (o_isTimeout o') \<Longrightarrow>
   metric_total timeoutRate (samples (recordFailure_perf env t r o' w))
     = metric_total timeoutRate (samples w) + 1"
  by (simp add: recordFailure_perf_def Let_def js_or_def timeout_samples_total split: option.splits)

lemma list_ex_indicators:
  "list_ex snd (indicators response d timeoutMs) \<longleftrightarrow>
     error_code response = 1050 \<or> status response = 504 \<or> status response = 408
     \<or> over_threshold d timeoutMs \<or> timeout_vocabulary (body response)"
  by (auto simp add: indicators_def)

lemma detectTimeout_any_signal:
  "isTimeout (detectTimeout response t0 timeoutMs w) \<longleftrightarrow>
     error_code response = 1050 \<or> status response = 504 \<or> status response = 408
     \<or> over_threshold (now w - (case timingMetadata response of Some t \<Rightarrow> t | None \<Rightarrow> t0)) timeoutMs
     \<or> timeout_vocabulary (body response)"
  by (simp add: detectTimeout_def Let_def list_ex_indicators)

text \<open>
  C2, for \<open>jsonCall\<close> of somnia_rpc_perf.js. Take an attempt on which \<open>http.post\<close>
  returns a response, with or without a body. If any one of the signals is present
  (k6 error code 1050, status 504 or 408, elapsed time at least 95% of the configured
  timeout, timeout vocabulary in the body), the attempt is treated as a timeout: while
  retries remain, it is retried after one retry sample tagged \<open>error_type = timeout\<close>;
  on the last attempt the call returns \<open>undefined\<close> and adds 1 to the error
  counter, the error rate and the timeout rate, and nothing to the success counter.
\<close>

theorem jsonCall_perf_timeout_signals:
  assumes tr: "transport env (length (posted w)) = (elapsed, Response res)"
    and fresh: "timingMetadata res = None"
    and signal: "error_code res = 1050 \<or> status res = 504 \<or> status res = 408
                 \<or> over_threshold elapsed (PARSED_TIMEOUT_MS env) \<or> timeout_vocabulary (body res)"
  shows "(r < MAX_RETRIES env \<longrightarrow>
           (\<exists>retryTags. obj_get retryTags ''error_type'' = JStr ''timeout''
              \<and> jsonCall_perf env url method params extraTags expectFn r w =
                  jsonCall_perf env url method params extraTags expectFn (r + 1)
                    (sleep (RETRY_DELAY_MS env)
                       (metric_add retryCount (JNum 1) retryTags
                          (w\<lparr>now := now w + elapsed,
                             posted := posted w @ [(url, rpc (fresh_id env (length (posted w))) (JStr method) params,
                                                    baseTags_perf env url method r extraTags)]\<rparr>)))))
       \<and> (\<not> r < MAX_RETRIES env \<longrightarrow>
            fst (jsonCall_perf env url method params extraTags expectFn r w) = Inr JUndefined
          \<and> metric_total errorCount (samples (snd (jsonCall_perf env url method params extraTags expectFn r w)))
              = metric_total errorCount (samples w) + 1
          \<and> metric_total errorRate (samples (snd (jsonCall_perf env url method params extraTags expectFn r w)))
              = metric_total errorRate (samples w) + 1
          \<and> metric_total timeoutRate (samples (snd (jsonCall_perf env url method params extraTags expectFn r w)))
              = metric_total timeoutRate (samples w) + 1
          \<and> metric_total successCount (samples (snd (jsonCall_perf env url method params extraTags expectFn r w)))
              = metric_total successCount (samples w)
          \<and> length (posted (snd (jsonCall_perf env url method params extraTags expectFn r w)))
              = length (posted w) + 1)"
proof -
  have det: "isTimeout (detectTimeout (res\<lparr>timingMetadata := Some (now w)\<rparr>) (now w) (PARSED_TIMEOUT_MS env)
               (w\<lparr>now := now w + elapsed,
                  posted := posted w @ [(url, rpc (fresh_id env (length (posted w))) (JStr method) params,
                                         baseTags_perf env url method r extraTags)]\<rparr>))"
    using signal by (simp add: detectTimeout_after_post list_ex_indicators)
  show ?thesis
  proof (cases "r < MAX_RETRIES env")
    case True
    have attempt: "\<exists>retryTags. obj_get retryTags ''error_type'' = JStr ''timeout'' \<and>
       jsonCall_perf_attempt env url method params extraTags expectFn r w =
         (Inl retryTags,
          w\<lparr>now := now w + elapsed,
            posted := posted w @ [(url, rpc (fresh_id env (length (posted w))) (JStr method) params,
                                   baseTags_perf env url method r extraTags)]\<rparr>)"
      using det True
      by (simp add: jsonCall_perf_attempt_def Let_def post_perf_eq [OF tr fresh] obj_get_obj_set)
    then obtain retryTags where rt: "obj_get retryTags ''error_type'' = JStr ''timeout''"
      and at: "jsonCall_perf_attempt env url method params extraTags expectFn r w =
         (Inl retryTags,
          w\<lparr>now := now w + elapsed,
            posted := posted w @ [(url, rpc (fresh_id env (length (posted w))) (JStr method) params,
                                   baseTags_perf env url method r extraTags)]\<rparr>)"
      by blast
    have "jsonCall_perf env url method params extraTags expectFn r w =
            jsonCall_perf env url method params extraTags expectFn (r + 1)
              (sleep (RETRY_DELAY_MS env)
                 (metric_add retryCount (JNum 1) retryTags
                    (w\<lparr>now := now w + elapsed,
                       posted := posted w @ [(url, rpc (fresh_id env (length (posted w))) (JStr method) params,
                                              baseTags_perf env url method r extraTags)]\<rparr>)))"
      using True by (subst jsonCall_perf.simps) (simp add: at)
    with rt True show ?thesis by blast
  next
    case False
    have at: "jsonCall_perf_attempt env url method params extraTags expectFn r w =
         (Inr (Inr JUndefined),
          recordFailure_perf env (baseTags_perf env url method r extraTags)
            (timeoutMsg env (detectTimeout (res\<lparr>timingMetadata := Some (now w)\<rparr>) (now w) (PARSED_TIMEOUT_MS env)
               (w\<lparr>now := now w + elapsed,
                  posted := posted w @ [(url, rpc (fresh_id env (length (posted w))) (JStr method) params,
                                         baseTags_perf env url method r extraTags)]\<rparr>)))
            (no_options\<lparr>o_retryAttempt := JNum r, o_isTimeout := JBool True,
                         o_response := Some (res\<lparr>timingMetadata := Some (now w)\<rparr>),
                         o_requestStartTime := Some (now w),
                         o_timeoutMs := Some (PARSED_TIMEOUT_MS env)\<rparr>)
            (w\<lparr>now := now w + elapsed,
               posted := posted w @ [(url, rpc (fresh_id env (length (posted w))) (JStr method) params,
                                      baseTags_perf env url method r extraTags)]\<rparr>))"
      using det False
      by (simp add: jsonCall_perf_attempt_def Let_def post_perf_eq [OF tr fresh])
    have call: "jsonCall_perf env url method params extraTags expectFn r w =
         (Inr JUndefined,
          recordFailure_perf env (baseTags_perf env url method r extraTags)
            (timeoutMsg env (detectTimeout (res\<lparr>timingMetadata := Some (now w)\<rparr>) (now w) (PARSED_TIMEOUT_MS env)
               (w\<lparr>now := now w + elapsed,
                  posted := posted w @ [(url, rpc (fresh_id env (length (posted w))) (JStr method) params,
                                         baseTags_perf env url method r extraTags)]\<rparr>)))
            (no_options\<lparr>o_retryAttempt := JNum r, o_isTimeout := JBool True,
                         o_response := Some (res\<lparr>timingMetadata := Some (now w)\<rparr>),
                         o_requestStartTime := Some (now w),
                         o_timeoutMs := Some (PARSED_TIMEOUT_MS env)\<rparr>)
            (w\<lparr>now := now w + elapsed,
               posted := posted w @ [(url, rpc (fresh_id env (length (posted w))) (JStr method) params,
                                      baseTags_perf env url method r extraTags)]\<rparr>))"
      by (subst jsonCall_perf.simps) (simp add: at)
    show ?thesis
      using False by (simp add: call recordFailure_perf_total recordFailure_perf_timeoutRate)
  qed
qed

theorem jsonCall_perf_timeout_signals_witness:
  "transport (example_env 0 (always (14900, Response slow_response))) (length (posted start_world))
     = (14900, Response slow_response)
   \<and> timingMetadata slow_response = None
   \<and> over_threshold 14900 (PARSED_TIMEOUT_MS (example_env 0 (always (14900, Response slow_response))))
   \<and> body slow_response \<noteq> None
   \<and> \<not> 0 < MAX_RETRIES (example_env 0 (always (14900, Response slow_response)))
   \<and> fst (jsonCall_perf (example_env 0 (always (14900, Response slow_response)))
            ''http://node'' ''eth_blockNumber'' (JArr []) [] expect_any 0 start_world) = Inr JUndefined
   \<and> metric_total timeoutRate (samples (snd (jsonCall_perf (example_env 0 (always (14900, Response slow_response)))
            ''http://node'' ''eth_blockNumber'' (JArr []) [] expect_any 0 start_world))) = 1
   \<and> metric_total errorCount (samples (snd (jsonCall_perf (example_env 0 (always (14900, Response slow_response)))
            ''http://node'' ''eth_blockNumber'' (JArr []) [] expect_any 0 start_world))) = 1
   \<and> metric_total successCount (samples (snd (jsonCall_perf (example_env 0 (always (14900, Response slow_response)))
            ''http://node'' ''eth_blockNumber'' (JArr []) [] expect_any 0 start_world))) = 0"
  using jsonCall_perf_timeout_signals [of "example_env 0 (always (14900, Response slow_response))" start_world
          14900 slow_response 0 "''http://node''" "''eth_blockNumber''" "JArr []" "[]" expect_any]
  by (simp add: example_env_def always_def start_world_def slow_response_def json_response_def
        over_threshold_def block_response_def)

text \<open>
  C2, as stated, fails for \<open>jsonCall\<close> of lib/rpc-client.js, which has no timeout
  classification: a well-formed answer that arrives after 14900 ms of a 15000 ms
  timeout is returned as a success, and no error or timeout sample is added.
\<close>

theorem lib_slow_response_counterexample:
  "over_threshold 14900 (PARSED_TIMEOUT_MS (example_env 3 (always (14900, Response slow_response))))
   \<and> fst (jsonCall (example_env 3 (always (14900, Response slow_response)))
            ''http://node'' ''eth_blockNumber'' (JArr []) [] expect_any 0 start_world) = Inr (JStr ''0x10'')
   \<and> map fst (samples (snd (jsonCall (example_env 3 (always (14900, Response slow_response)))
            ''http://node'' ''eth_blockNumber'' (JArr []) [] expect_any 0 start_world)))
     = [successCount, methodSuccess, rtt, methodLatency, rpcLatency, currentBlockHeight]"
  by (simp add: jsonCall.simps slow_response_def block_response_def over_threshold_def eval_defs
        string_to_number_def digit_value_def)

text \<open>
  C3, as stated, fails for \<open>jsonCall\<close> of lib/rpc-client.js, which has no exemption:
  an \<open>eth_estimateGas\<close> call answered with the error \<open>execution reverted\<close> returns
  \<open>undefined\<close> and is recorded as a failure at stage \<open>rpc_error\<close>.
\<close>

theorem lib_estimateGas_counterexample:
  "fst (jsonCall (example_env 3 (always (5, Response (json_response revert_response))))
          ''http://node'' ''eth_estimateGas'' (JArr []) [] expect_any 0 start_world) = Inr JUndefined
   \<and> map sample_stage (samples (snd (jsonCall (example_env 3 (always (5, Response (json_response revert_response))))
          ''http://node'' ''eth_estimateGas'' (JArr []) [] expect_any 0 start_world)))
     = [(errorCount, JStr ''rpc_error''), (errorRate, JStr ''rpc_error''), (methodErrors, JStr ''rpc_error'')]"
  by (simp add: jsonCall.simps revert_response_def revert_error_def eval_defs)

lemma stage_of_lib_rpc_error_failure:
  assumes same: "samples w1 = samples w"
  shows "map sample_stage (filter (\<lambda>s. fst s = errorCount)
           (emitted w (recordFailure
              (obj_set ''rpc_error_message'' m
                 (obj_set ''rpc_error_code'' c (obj_set ''stage'' (JStr ''rpc_error'') tg)))
              reason o' w1)))
         = [(errorCount, JStr ''rpc_error'')]"
  by (simp add: recordFailure_def Let_def emitted_def same sample_stage_def obj_get_obj_set enrichedTags_def)

lemma jsonCall_error_branch:
  assumes tr: "transport env (length (posted w)) = (elapsed, Response res)"
    and noerr: "error_code res = 0"
    and http: "httpChecks res"
    and js: "json res = Inr (JObj fs)"
    and struct: "structureChecks (fresh_id env (length (posted w))) (JObj fs) = Inr True"
    and err: "truthy (obj_get fs ''error'')"
  shows "fst (jsonCall env url method params extraTags expectFn r w) = Inr JUndefined
   \<and> metric_total errorCount (samples (snd (jsonCall env url method params extraTags expectFn r w)))
       = metric_total errorCount (samples w) + 1
   \<and> metric_total errorRate (samples (snd (jsonCall env url method params extraTags expectFn r w)))
       = metric_total errorRate (samples w) + 1
   \<and> metric_total successCount (samples (snd (jsonCall env url method params extraTags expectFn r w)))
       = metric_total successCount (samples w)
   \<and> metric_total retryCount (samples (snd (jsonCall env url method params extraTags expectFn r w)))
       = metric_total retryCount (samples w)
   \<and> length (posted (snd (jsonCall env url method params extraTags expectFn r w)))
       = length (posted w) + 1
   \<and> slept (snd (jsonCall env url method params extraTags expectFn r w)) = slept w
   \<and> map sample_stage (filter (\<lambda>s. fst s = errorCount)
         (emitted w (snd (jsonCall env url method params extraTags expectFn r w))))
       = [(errorCount, JStr ''rpc_error'')]"
proof -
  have out: "snd (transport env (length (posted w))) = Response res"
    and took: "fst (transport env (length (posted w))) = elapsed"
    by (simp_all add: tr)
  note call = jsonCall_answer_step [OF out noerr, of url "method" "params" extraTags expectFn r]
  show ?thesis
    unfolding call
    by (simp add: jsonCall_response_def http js struct err rpcErrorTags_truthy rpcErrorReason_truthy
          recordFailure_total stage_of_lib_rpc_error_failure)
qed

text \<open>
  C3, as the code has it. Take an attempt whose response has no network error code,
  passes the structure checks and carries a truthy \<open>error\<close> member.

  In somnia_rpc_perf.js, when the response, as \<open>http.post\<close> hands it over without
  timing metadata, also shows no timeout signal (it arrived before 95% of the
  configured timeout and its body, the error message included, contains none of the
  timeout words) and passes the HTTP checks: for
  \<open>eth_estimateGas\<close> the call returns \<open>{ error: rpcError }\<close>, adds 1 to the success
  counter and nothing to the error counter or error rate; for every other method the
  call returns \<open>undefined\<close>, adds 1 to the error counter and to the error rate with the
  stage tag \<open>rpc_error\<close>, and is over after this one POST: no retry sample, no sleep.
  A response with a timeout signal does not reach this branch: the timeout detection
  runs first.

  In lib/rpc-client.js, when the response passes the HTTP checks, every method,
  \<open>eth_estimateGas\<close> included, ends like the other methods of the script: one failure
  at stage \<open>rpc_error\<close>, an \<open>undefined\<close> result and no retry.
\<close>

theorem jsonCall_protocol_error:
  assumes tr: "transport env (length (posted w)) = (elapsed, Response res)"
    and noerr: "error_code res = 0"
    and js: "json res = Inr (JObj fs)"
    and struct: "structureChecks (fresh_id env (length (posted w))) (JObj fs) = Inr True"
    and err: "truthy (obj_get fs ''error'')"
  shows "(timingMetadata res = None \<and> \<not> over_threshold elapsed (PARSED_TIMEOUT_MS env)
          \<and> \<not> timeout_vocabulary (body res) \<and> httpChecks_perf env res \<longrightarrow>
           (m = ''eth_estimateGas'' \<longrightarrow>
              fst (jsonCall_perf env url m ps extraTags expectFn r w)
                = Inr (JObj [(''error'', obj_get fs ''error'')])
            \<and> metric_total successCount (samples (snd (jsonCall_perf env url m ps extraTags expectFn r w)))
                = metric_total successCount (samples w) + 1
            \<and> metric_total errorCount (samples (snd (jsonCall_perf env url m ps extraTags expectFn r w)))
                = metric_total errorCount (samples w)
            \<and> metric_total errorRate (samples (snd (jsonCall_perf env url m ps extraTags expectFn r w)))
                = metric_total errorRate (samples w))
         \<and> (m \<noteq> ''eth_estimateGas'' \<longrightarrow>
              fst (jsonCall_perf env url m ps extraTags expectFn r w) = Inr JUndefined
            \<and> metric_total errorCount (samples (snd (jsonCall_perf env url m ps extraTags expectFn r w)))
                = metric_total errorCount (samples w) + 1
            \<and> metric_total errorRate (samples (snd (jsonCall_perf env url m ps extraTags expectFn r w)))
                = metric_total errorRate (samples w) + 1
            \<and> metric_total successCount (samples (snd (jsonCall_perf env url m ps extraTags expectFn r w)))
                = metric_total successCount (samples w)
            \<and> metric_total retryCount (samples (snd (jsonCall_perf env url m ps extraTags expectFn r w)))
                = metric_total retryCount (samples w)
            \<and> length (posted (snd (jsonCall_perf env url m ps extraTags expectFn r w)))
                = length (posted w) + 1
            \<and> slept (snd (jsonCall_perf env url m ps extraTags expectFn r w)) = slept w
            \<and> map sample_stage (filter (\<lambda>s. fst s = errorCount)
                  (emitted w (snd (jsonCall_perf env url m ps extraTags expectFn r w))))
                = [(errorCount, JStr ''rpc_error'')]))
       \<and> (httpChecks res \<longrightarrow>
            fst (jsonCall env url m ps extraTags expectFn r w) = Inr JUndefined
          \<and> metric_total errorCount (samples (snd (jsonCall env url m ps extraTags expectFn r w)))
              = metric_total errorCount (samples w) + 1
          \<and> metric_total errorRate (samples (snd (jsonCall env url m ps extraTags expectFn r w)))
              = metric_total errorRate (samples w) + 1
          \<and> metric_total successCount (samples (snd (jsonCall env url m ps extraTags expectFn r w)))
              = metric_total successCount (samples w)
          \<and> metric_total retryCount (samples (snd (jsonCall env url m ps extraTags expectFn r w)))
              = metric_total retryCount (samples w)
          \<and> length (posted (snd (jsonCall env url m ps extraTags expectFn r w)))
              = length (posted w) + 1
          \<and> slept (snd (jsonCall env url m ps extraTags expectFn r w)) = slept w
          \<and> map sample_stage (filter (\<lambda>s. fst s = errorCount)
                (emitted w (snd (jsonCall env url m ps extraTags expectFn r w))))
              = [(errorCount, JStr ''rpc_error'')])"
proof (intro conjI impI)
  assume a: "timingMetadata res = None \<and> \<not> over_threshold elapsed (PARSED_TIMEOUT_MS env)
               \<and> \<not> timeout_vocabulary (body res) \<and> httpChecks_perf env res"
  then have fresh: "timingMetadata res = None" and http: "httpChecks_perf env res"
    by simp_all
  from http have "status res = 200"
    by (simp add: httpChecks_perf_def)
  with a noerr have intime: "\<not> list_ex snd (indicators res elapsed (PARSED_TIMEOUT_MS env))"
    by (simp add: list_ex_indicators)
  note perf = jsonCall_perf_error_branch [OF tr fresh intime noerr http js struct err,
      of m url ps extraTags expectFn r]
  {
    assume "m = ''eth_estimateGas''"
    with perf
    show "fst (jsonCall_perf env url m ps extraTags expectFn r w)
            = Inr (JObj [(''error'', obj_get fs ''error'')])"
      and "metric_total successCount (samples (snd (jsonCall_perf env url m ps extraTags expectFn r w)))
            = metric_total successCount (samples w) + 1"
      and "metric_total errorCount (samples (snd (jsonCall_perf env url m ps extraTags expectFn r w)))
            = metric_total errorCount (samples w)"
      and "metric_total errorRate (samples (snd (jsonCall_perf env url m ps extraTags expectFn r w)))
            = metric_total errorRate (samples w)"
      by blast+
  }
  {
    assume "m \<noteq> ''eth_estimateGas''"
    with perf
    show "fst (jsonCall_perf env url m ps extraTags expectFn r w) = Inr JUndefined"
      and "metric_total errorCount (samples (snd (jsonCall_perf env url m ps extraTags expectFn r w)))
            = metric_total errorCount (samples w) + 1"
      and "metric_total errorRate (samples (snd (jsonCall_perf env url m ps extraTags expectFn r w)))
            = metric_total errorRate (samples w) + 1"
      and "metric_total successCount (samples (snd (jsonCall_perf env url m ps extraTags expectFn r w)))
            = metric_total successCount (samples w)"
      and "metric_total retryCount (samples (snd (jsonCall_perf env url m ps extraTags expectFn r w)))
            = metric_total retryCount (samples w)"
      and "length (posted (snd (jsonCall_perf env url m ps extraTags expectFn r w)))
            = length (posted w) + 1"
      and "slept (snd (jsonCall_perf env url m ps extraTags expectFn r w)) = slept w"
      and "map sample_stage (filter (\<lambda>s. fst s = errorCount)
                  (emitted w (snd (jsonCall_perf env url m ps extraTags expectFn r w))))
                = [(errorCount, JStr ''rpc_error'')]"
      by blast+
  }
next
  assume http: "httpChecks res"
  note lib = jsonCall_error_branch [OF tr noerr http js struct err,
      of url m ps extraTags expectFn r]
  from lib show "fst (jsonCall env url m ps extraTags expectFn r w) = Inr JUndefined"
    by blast
  from lib show "metric_total errorCount (samples (snd (jsonCall env url m ps extraTags expectFn r w)))
              = metric_total errorCount (samples w) + 1"
    by blast
  from lib show "metric_total errorRate (samples (snd (jsonCall env url m ps extraTags expectFn r w)))
              = metric_total errorRate (samples w) + 1"
    by blast
  from lib show "metric_total successCount (samples (snd (jsonCall env url m ps extraTags expectFn r w)))
              = metric_total successCount (samples w)"
    by blast
  from lib show "metric_total retryCount (samples (snd (jsonCall env url m ps extraTags expectFn r w)))
              = metric_total retryCount (samples w)"
    by blast
  from lib show "length (posted (snd (jsonCall env url m ps extraTags expectFn r w)))
              = length (posted w) + 1"
    by blast
  from lib show "slept (snd (jsonCall env url m ps extraTags expectFn r w)) = slept w"
    by blast
  from lib show "map sample_stage (filter (\<lambda>s. fst s = errorCount)
                (emitted w (snd (jsonCall env url m ps extraTags expectFn r w))))
              = [(errorCount, JStr ''rpc_error'')]"
    by blast
qed

theorem jsonCall_protocol_error_witness:
  "transport (answering script_id (revert_reply script_id)) (length (posted start_world))
     = (5, Response (json_response (revert_reply script_id)))
   \<and> error_code (json_response (revert_reply script_id)) = 0
   \<and> structureChecks (fresh_id (answering script_id (revert_reply script_id)) (length (posted start_world)))
        (revert_reply script_id) = Inr True
   \<and> truthy revert_error
   \<and> \<not> over_threshold 5 (PARSED_TIMEOUT_MS (answering script_id (revert_reply script_id)))
   \<and> \<not> timeout_vocabulary (body (json_response (revert_reply script_id)))
   \<and> httpChecks_perf (answering script_id (revert_reply script_id)) (json_response (revert_reply script_id))
   \<and> fst (jsonCall_perf (answering script_id (revert_reply script_id))
            ''http://node'' ''eth_estimateGas'' (JArr []) [] expect_any 0 start_world)
       = Inr (JObj [(''error'', revert_error)])
   \<and> metric_total successCount (samples (snd (jsonCall_perf (answering script_id (revert_reply script_id))
            ''http://node'' ''eth_estimateGas'' (JArr []) [] expect_any 0 start_world))) = 1
   \<and> metric_total errorCount (samples (snd (jsonCall_perf (answering script_id (revert_reply script_id))
            ''http://node'' ''eth_estimateGas'' (JArr []) [] expect_any 0 start_world))) = 0
   \<and> fst (jsonCall_perf (answering script_id (revert_reply script_id))
            ''http://node'' ''eth_call'' (JArr []) [] expect_any 0 start_world) = Inr JUndefined
   \<and> metric_total errorCount (samples (snd (jsonCall_perf (answering script_id (revert_reply script_id))
            ''http://node'' ''eth_call'' (JArr []) [] expect_any 0 start_world))) = 1
   \<and> length (posted (snd (jsonCall_perf (answering script_id (revert_reply script_id))
            ''http://node'' ''eth_call'' (JArr []) [] expect_any 0 start_world))) = 1
   \<and> map sample_stage (filter (\<lambda>s. fst s = errorCount)
         (emitted start_world (snd (jsonCall_perf (answering script_id (revert_reply script_id))
            ''http://node'' ''eth_call'' (JArr []) [] expect_any 0 start_world))))
       = [(errorCount, JStr ''rpc_error'')]
   \<and> transport (answering library_id (revert_reply library_id)) (length (posted start_world))
        = (5, Response (json_response (revert_reply library_id)))
   \<and> structureChecks (fresh_id (answering library_id (revert_reply library_id)) (length (posted start_world)))
        (revert_reply library_id) = Inr True
   \<and> httpChecks (json_response (revert_reply library_id))
   \<and> fst (jsonCall (answering library_id (revert_reply library_id))
            ''http://node'' ''eth_estimateGas'' (JArr []) [] expect_any 0 start_world) = Inr JUndefined
   \<and> metric_total errorCount (samples (snd (jsonCall (answering library_id (revert_reply library_id))
            ''http://node'' ''eth_estimateGas'' (JArr []) [] expect_any 0 start_world))) = 1
   \<and> metric_total successCount (samples (snd (jsonCall (answering library_id (revert_reply library_id))
            ''http://node'' ''eth_estimateGas'' (JArr []) [] expect_any 0 start_world))) = 0
   \<and> map sample_stage (filter (\<lambda>s. fst s = errorCount)
         (emitted start_world (snd (jsonCall (answering library_id (revert_reply library_id))
            ''http://node'' ''eth_estimateGas'' (JArr []) [] expect_any 0 start_world))))
       = [(errorCount, JStr ''rpc_error'')]"
proof -
  let ?S = "answering script_id (revert_reply script_id)"
  let ?L = "answering library_id (revert_reply library_id)"
  let ?fs = "\<lambda>rid. [(''jsonrpc'', JStr ''2.0''), (''id'', rid), (''error'', revert_error)]"
  have start: "posted start_world = []" "samples start_world = []" "slept start_world = []"
    by (simp_all add: start_world_def)
  have tr: "transport (answering rid (revert_reply rid)) (length (posted start_world))
              = (5, Response (json_response (revert_reply rid)))" for rid
    by (simp add: answering_def example_env_def always_def)
  have noerr: "error_code (json_response v) = 0" and fresh: "timingMetadata (json_response v) = None" for v
    by (simp_all add: json_response_def)
  have js: "json (json_response (revert_reply rid)) = Inr (JObj (?fs rid))" for rid
    by (simp add: json_response_def revert_reply_def)
  have struct_s: "structureChecks (fresh_id ?S (length (posted start_world))) (JObj (?fs script_id)) = Inr True"
    by (simp add: answering_def always_def script_id_def structureChecks_def js_then_def)
  have struct_l: "structureChecks (fresh_id ?L (length (posted start_world))) (JObj (?fs library_id)) = Inr True"
    by (simp add: answering_def always_def library_id_def structureChecks_def js_then_def)
  have err: "truthy revert_error" "truthy (obj_get (?fs rid) ''error'')" for rid
    by (simp_all add: revert_error_def)
  have intime: "\<not> over_threshold 5 (PARSED_TIMEOUT_MS ?S)"
    by (simp add: answering_def example_env_def over_threshold_def)
  have quiet: "\<not> timeout_vocabulary (body (json_response (revert_reply script_id)))"
    by (simp add: json_response_def revert_reply_def revert_error_def script_id_def
          timeout_vocabulary_def json_quote_def json_escape_char_def show_int_def show_nat.simps
          digit_char_def)
  have http_s: "httpChecks_perf ?S (json_response (revert_reply script_id))"
    by (simp add: httpChecks_perf_def answering_def example_env_def json_response_def revert_reply_def
          revert_error_def script_id_def json_quote_def json_escape_char_def show_int_def
          show_nat.simps digit_char_def)
  have http_l: "httpChecks (json_response (revert_reply library_id))"
    by (simp add: httpChecks_def json_response_def revert_reply_def revert_error_def library_id_def
          json_quote_def json_escape_char_def show_int_def show_nat.simps digit_char_def)
  have reply: "revert_reply rid = JObj (?fs rid)" for rid
    by (simp add: revert_reply_def)
  have struct_s': "structureChecks (fresh_id ?S (length (posted start_world))) (revert_reply script_id) = Inr True"
    and struct_l': "structureChecks (fresh_id ?L (length (posted start_world))) (revert_reply library_id) = Inr True"
    using struct_s struct_l by (simp_all only: reply)
  note estimate = jsonCall_protocol_error [OF tr noerr js struct_s err(2),
      where m = "''eth_estimateGas''" and url = "''http://node''" and ps = "JArr []"
        and extraTags = "[]" and expectFn = expect_any and r = 0]
  note other = jsonCall_protocol_error [OF tr noerr js struct_s err(2),
      where m = "''eth_call''" and url = "''http://node''" and ps = "JArr []"
        and extraTags = "[]" and expectFn = expect_any and r = 0]
  note library = jsonCall_protocol_error [OF tr noerr js struct_l err(2),
      where m = "''eth_estimateGas''" and url = "''http://node''" and ps = "JArr []"
        and extraTags = "[]" and expectFn = expect_any and r = 0]
  from estimate other library show ?thesis
    by (simp add: start tr [unfolded start list.size(3)] noerr fresh
          struct_s' [unfolded start list.size(3)] struct_l' [unfolded start list.size(3)]
          err(1) intime quiet http_s http_l)
qed

subsection \<open>wsSub: the idle timeout (lib/websocket-client.js and perf/somnia_rpc_perf.js)\<close>

lemmas eval_ws_defs = wsSub_def or_default_def silent_sockets_def default_options_def no_reason_def
  wsTags_def onTimer_def socket_close_def onClose_def onError_def onMessage_def

text \<open>
  C6, as stated, fails for \<open>wsSub\<close> of lib/websocket-client.js: when nothing arrives,
  the timer closes the socket with code 1000 after the timeout, and the \<open>close\<close>
  handler records a success at stage \<open>connection_closed\<close>; no failure is recorded.
\<close>

theorem lib_idle_timeout_counterexample:
  "script silent_sockets 0 = []
   \<and> map sample_stage (samples (wsSub (example_env 3 (always (5, Thrown None))) silent_sockets
        ''ws://node'' ''http://node'' ''eth_subscribe'' (JArr [JStr ''newHeads'']) default_options start_world))
     = [(activeConnections, JUndefined), (activeConnections, JUndefined),
        (successCount, JStr ''connection_closed''), (methodSuccess, JStr ''connection_closed'')]
   \<and> now (wsSub (example_env 3 (always (5, Thrown None))) silent_sockets
        ''ws://node'' ''http://node'' ''eth_subscribe'' (JArr [JStr ''newHeads'']) default_options start_world)
     = 61000"
  by (simp add: attemptConnection.simps eval_ws_defs eval_defs)

lemma over_threshold_self: "0 \<le> t \<Longrightarrow> over_threshold t t"
  by (simp add: over_threshold_def)

lemma js_prop_defined: "v \<noteq> JNull \<Longrightarrow> v \<noteq> JUndefined \<Longrightarrow> js_prop v k = Inr (js_get v k)"
  by (cases v) (auto simp add: js_get_def)

lemma onMessage_perf_idle:
  assumes idle: "idle_message (c_reqId c) (Message d raw parsed)"
  shows "\<exists>sid' tags. onMessage_perf env so c sid raw parsed w =
           (False, sid',
            if confirmation (c_reqId c) (Message d raw parsed) then recordSuccess tags w else w)"
proof -
  from idle obtain v where p: "parsed = Inr v" and n1: "v \<noteq> JNull" and n2: "v \<noteq> JUndefined"
    and ne: "\<not> (strict_eq (js_get v ''id'') (c_reqId c) \<and> truthy (js_get v ''error''))"
    and nd: "\<not> (strict_eq (js_get v ''method'') (JStr ''eth_subscription'') \<and> truthy (js_get v ''params''))"
    by (auto simp add: idle_message_def split: sum.splits)
  note props = js_prop_defined [OF n1 n2]
  show ?thesis
  proof (cases "strict_eq (js_get v ''id'') (c_reqId c) \<and> truthy (js_get v ''result'')")
    case True
    with ne nd have "onMessage_perf env so c sid raw parsed w =
        (False, js_get v ''result'',
         recordSuccess (obj_spread (c_tags c)
           [(''stage'', JStr ''subscription''), (''subscription_id'', js_get v ''result'')]) w)"
      by (auto simp add: onMessage_perf_def Let_def p props)
    with True show ?thesis by (simp add: confirmation_def p) blast
  next
    case False
    with ne nd have "onMessage_perf env so c sid raw parsed w = (False, sid, w)"
      by (auto simp add: onMessage_perf_def Let_def p props)
    with False show ?thesis by (auto simp add: confirmation_def p)
  qed
qed

lemma onTimer_perf_totals:
  assumes nonneg: "0 \<le> c_timeout c" and due: "now w = c_startTime c + c_timeout c"
  shows "now (onTimer_perf env so c w) = now w
   \<and> metric_total errorCount (samples (onTimer_perf env so c w)) = metric_total errorCount (samples w) + 1
   \<and> metric_total errorRate (samples (onTimer_perf env so c w)) = metric_total errorRate (samples w) + 1
   \<and> metric_total timeoutRate (samples (onTimer_perf env so c w)) = metric_total timeoutRate (samples w) + 2
   \<and> metric_total successCount (samples (onTimer_perf env so c w)) = metric_total successCount (samples w)"
  using nonneg
  by (simp add: onTimer_perf_def socket_close_perf_def onClose_perf_def Let_def due over_threshold_self
        recordFailure_perf_total recordFailure_perf_timeoutRate)

lemma run_socket_perf_idle:
  assumes nonneg: "0 \<le> c_timeout c"
  shows "list_all (idle_message (c_reqId c)) (arrivals (c_startTime c + c_timeout c - now w) evs) \<Longrightarrow>
     now w \<le> c_startTime c + c_timeout c \<Longrightarrow>
     fst (run_socket_perf env so c evs sid w) = ClosedT
     \<and> now (snd (run_socket_perf env so c evs sid w)) = c_startTime c + c_timeout c
     \<and> metric_total errorCount (samples (snd (run_socket_perf env so c evs sid w)))
         = metric_total errorCount (samples w) + 1
     \<and> metric_total errorRate (samples (snd (run_socket_perf env so c evs sid w)))
         = metric_total errorRate (samples w) + 1
     \<and> metric_total timeoutRate (samples (snd (run_socket_perf env so c evs sid w)))
         = metric_total timeoutRate (samples w) + 2
     \<and> metric_total successCount (samples (snd (run_socket_perf env so c evs sid w)))
         = metric_total successCount (samples w)
           + int (length (filter (confirmation (c_reqId c))
                            (arrivals (c_startTime c + c_timeout c - now w) evs)))"
proof (induction evs arbitrary: sid w)
  case Nil
  let ?w = "w\<lparr>now := max (now w) (c_startTime c + c_timeout c)\<rparr>"
  have due: "now ?w = c_startTime c + c_timeout c"
    using Nil.prems by (simp add: max_def)
  from onTimer_perf_totals [OF nonneg due, of env so] due
  show ?case by simp
next
  case (Cons ev evs)
  let ?end = "c_startTime c + c_timeout c"
  show ?case
  proof (cases "?end \<le> now w + delay ev")
    case True
    let ?w = "w\<lparr>now := max (now w) ?end\<rparr>"
    have due: "now ?w = ?end"
      using Cons.prems by (simp add: max_def)
    have none: "arrivals (?end - now w) (ev # evs) = []"
      using True by simp
    from onTimer_perf_totals [OF nonneg due, of env so] due True
    show ?thesis by (simp add: none)
  next
    case False
    then have arr: "arrivals (?end - now w) (ev # evs) = ev # arrivals (?end - now w - delay ev) evs"
      by simp
    from Cons.prems(1) have idle: "idle_message (c_reqId c) ev"
      and rest: "list_all (idle_message (c_reqId c)) (arrivals (?end - now w - delay ev) evs)"
      unfolding arr by simp_all
    from idle obtain d raw parsed where ev: "ev = Message d raw parsed"
      by (cases ev) (simp_all add: idle_message_def)
    let ?w1 = "w\<lparr>now := now w + d\<rparr>"
    from onMessage_perf_idle [of c d raw parsed env so sid ?w1] idle ev
    obtain sid' tags where m: "onMessage_perf env so c sid raw parsed ?w1 =
        (False, sid', if confirmation (c_reqId c) ev then recordSuccess tags ?w1 else ?w1)"
      by auto
    let ?w2 = "if confirmation (c_reqId c) ev then recordSuccess tags ?w1 else ?w1"
    have now2: "now ?w2 = now w + d" by simp
    have dl: "delay ev = d" by (simp add: ev)
    have run: "run_socket_perf env so c (ev # evs) sid w = run_socket_perf env so c evs sid' ?w2"
      using False by (simp add: ev m)
    have rest2: "list_all (idle_message (c_reqId c)) (arrivals (?end - now ?w2) evs)"
      using rest by (simp only: now2 dl diff_diff_eq)
    have before: "now ?w2 \<le> ?end"
      using False by (simp add: ev)
    have same: "arrivals (?end - now ?w2) evs = arrivals (?end - now w - delay ev) evs"
      by (simp only: now2 dl diff_diff_eq)
    from Cons.IH [OF rest2 before, of sid']
    show ?thesis
      unfolding run arr same
      by (auto simp add: recordSuccess_total)
  qed
qed

text \<open>
  C6, for \<open>wsSub\<close> of somnia_rpc_perf.js. Take a subscription with a positive timeout
  on which every message that arrives before the timer fires leaves the subscription
  waiting (among them the reply that confirms it), and on which no \<open>close\<close> or
  \<open>error\<close> comes before the timer. Then the timer closes the socket locally at
  \<open>start + timeout\<close> and the close is recorded as one failure, flagged as a timeout:
  the error counter and the error rate each grow by 1 and the timeout rate receives two
  samples, one from the timer callback and one from \<open>recordFailure\<close>. The close adds no
  success: the success counter grows by the number of confirmations received and by
  nothing else.
\<close>

theorem wsSub_perf_idle_timeout:
  assumes pos: "0 < or_default (opt_timeout options) (WS_TIMEOUT so)"
    and idle: "list_all (idle_message (subscribe_id so (connects w)))
                 (arrivals (or_default (opt_timeout options) (WS_TIMEOUT so)) (script so (connects w)))"
  shows "fst (wsSub_perf env so wsUrl rpcUrl m ps options w) = Inr JUndefined
   \<and> now (snd (wsSub_perf env so wsUrl rpcUrl m ps options w))
       = now w + or_default (opt_timeout options) (WS_TIMEOUT so)
   \<and> metric_total errorCount (samples (snd (wsSub_perf env so wsUrl rpcUrl m ps options w)))
       = metric_total errorCount (samples w) + 1
   \<and> metric_total errorRate (samples (snd (wsSub_perf env so wsUrl rpcUrl m ps options w)))
       = metric_total errorRate (samples w) + 1
   \<and> metric_total timeoutRate (samples (snd (wsSub_perf env so wsUrl rpcUrl m ps options w)))
       = metric_total timeoutRate (samples w) + 2
   \<and> metric_total successCount (samples (snd (wsSub_perf env so wsUrl rpcUrl m ps options w)))
       = metric_total successCount (samples w)
         + int (length (filter (confirmation (subscribe_id so (connects w)))
             (arrivals (or_default (opt_timeout options) (WS_TIMEOUT so)) (script so (connects w)))))"
proof -
  let ?t = "or_default (opt_timeout options) (WS_TIMEOUT so)"
  let ?tags = "wsTags_perf env rpcUrl m (connection_id so (connects w)) 0"
  let ?c = "\<lparr>c_tags = ?tags, c_reqId = subscribe_id so (connects w), c_startTime = now w,
             c_timeout = ?t, c_retryAttempt = 0\<rparr>"
  let ?w0 = "metric_add activeConnections (JNum 1) ?tags
               (w\<lparr>connects := Suc (connects w),
                  sent := sent w @ [(wsUrl, rpc (subscribe_id so (connects w)) (JStr m) ps)]\<rparr>)"
  let ?run = "run_socket_perf env so ?c (script so (connects w)) JNull ?w0"
  have nonneg: "0 \<le> c_timeout ?c" using pos by simp
  have idle0: "list_all (idle_message (c_reqId ?c))
                 (arrivals (c_startTime ?c + c_timeout ?c - now ?w0) (script so (connects w)))"
    using idle by simp
  have before: "now ?w0 \<le> c_startTime ?c + c_timeout ?c" using pos by simp
  note r = run_socket_perf_idle [OF nonneg idle0 before, of env so JNull]
  have call: "wsSub_perf env so wsUrl rpcUrl m ps options w = (Inr JUndefined, snd ?run)"
    using r by (cases ?run) (simp add: wsSub_perf_def Let_def)
  show ?thesis
    unfolding call using r by simp
qed

theorem wsSub_perf_idle_timeout_witness:
  "0 < or_default (opt_timeout default_options) (WS_TIMEOUT confirmed_sockets)
   \<and> list_all (idle_message (subscribe_id confirmed_sockets (connects start_world)))
        (arrivals (or_default (opt_timeout default_options) (WS_TIMEOUT confirmed_sockets))
           (script confirmed_sockets (connects start_world)))
   \<and> length (filter (confirmation (subscribe_id confirmed_sockets (connects start_world)))
        (arrivals (or_default (opt_timeout default_options) (WS_TIMEOUT confirmed_sockets))
           (script confirmed_sockets (connects start_world)))) = 1
   \<and> fst (wsSub_perf (example_env 3 (always (5, Thrown None))) confirmed_sockets
            ''ws://node'' ''http://node'' ''eth_subscribe'' (JArr [JStr ''newHeads'']) default_options start_world)
       = Inr JUndefined
   \<and> now (snd (wsSub_perf (example_env 3 (always (5, Thrown None))) confirmed_sockets
            ''ws://node'' ''http://node'' ''eth_subscribe'' (JArr [JStr ''newHeads'']) default_options start_world))
       = 61000
   \<and> metric_total errorCount (samples (snd (wsSub_perf (example_env 3 (always (5, Thrown None))) confirmed_sockets
            ''ws://node'' ''http://node'' ''eth_subscribe'' (JArr [JStr ''newHeads'']) default_options start_world)))
       = 1
   \<and> metric_total timeoutRate (samples (snd (wsSub_perf (example_env 3 (always (5, Thrown None))) confirmed_sockets
            ''ws://node'' ''http://node'' ''eth_subscribe'' (JArr [JStr ''newHeads'']) default_options start_world)))
       = 2
   \<and> metric_total successCount (samples (snd (wsSub_perf (example_env 3 (always (5, Thrown None))) confirmed_sockets
            ''ws://node'' ''http://node'' ''eth_subscribe'' (JArr [JStr ''newHeads'']) default_options start_world)))
       = 1"
  using wsSub_perf_idle_timeout [where options = default_options and so = confirmed_sockets
          and w = start_world and env = "example_env 3 (always (5, Thrown None))"
          and wsUrl = "''ws://node''" and rpcUrl = "''http://node''" and m = "''eth_subscribe''"
          and ps = "JArr [JStr ''newHeads'']"]
  by (simp add: or_default_def default_options_def confirmed_sockets_def always_def start_world_def
        message_of_def idle_message_def confirmation_def js_get_def)

subsection \<open>wsSub: the connection gauge\<close>

lemma gauge_value_Nil [simp]: "gauge_value m [] = None"
  by (simp add: gauge_value_def)

lemma gauge_value_Cons [simp]:
  "gauge_value m (s # ss) =
     (case gauge_value m ss of
        None \<Rightarrow> if fst s = m then Some (fst (snd s)) else None
      | Some v \<Rightarrow> Some v)"
  by (simp add: gauge_value_def split: list.splits)

lemma gauge_value_append [simp]:
  "gauge_value m (xs @ ys) = (case gauge_value m ys of None \<Rightarrow> gauge_value m xs | Some v \<Rightarrow> Some v)"
  by (induction xs) (auto split: option.splits)

lemma recordFailure_keeps_gauge:
  "gauge_value activeConnections (samples (recordFailure t r o' w)) = gauge_value activeConnections (samples w)"
  by (simp add: recordFailure_def Let_def)

lemma recordSuccess_keeps_gauge:
  "gauge_value activeConnections (samples (recordSuccess t w)) = gauge_value activeConnections (samples w)"
  by (simp add: recordSuccess_def Let_def)

lemma addRTT_keeps_gauge:
  "gauge_value activeConnections (samples (addRTT d t w)) = gauge_value activeConnections (samples w)"
  by (simp add: addRTT_def Let_def)

lemma recordFailure_perf_keeps_gauge:
  "gauge_value activeConnections (samples (recordFailure_perf env t r o' w))
     = gauge_value activeConnections (samples w)"
  by (simp add: recordFailure_perf_def Let_def timeout_samples_def split: option.splits)

lemmas keeps_gauge = recordFailure_keeps_gauge recordSuccess_keeps_gauge addRTT_keeps_gauge
  recordFailure_perf_keeps_gauge

lemma onClose_reads:
  "gauge_value activeConnections (samples (onClose c code reason w)) = Some (JNum (- 1))"
  by (simp add: onClose_def Let_def keeps_gauge)

lemma onError_reads:
  "gauge_value activeConnections (samples (onError c msg w)) = Some (JNum (- 1))"
  by (simp add: onError_def keeps_gauge)

lemma onMessage_reads:
  assumes "onMessage so c sid parsed w = (closed, sid', w')"
  shows "gauge_value activeConnections (samples w')
           = (if closed then Some (JNum (- 1)) else gauge_value activeConnections (samples w))"
  using assms
  by (auto simp add: onMessage_def Let_def socket_close_def onClose_reads keeps_gauge
        split: sum.splits if_splits)

lemma run_socket_reads:
  "gauge_value activeConnections (samples (snd (run_socket so c evs sid w))) = Some (JNum (- 1))"
proof (induction evs arbitrary: sid w)
  case Nil
  show ?case by (simp add: onTimer_def socket_close_def onClose_reads)
next
  case (Cons ev evs)
  show ?case
  proof (cases "c_startTime c + c_timeout c \<le> now w + delay ev")
    case True
    then show ?thesis by (simp add: onTimer_def socket_close_def onClose_reads)
  next
    case False
    show ?thesis
    proof (cases ev)
      case (Message d raw parsed)
      obtain closed sid' w' where m: "onMessage so c sid parsed (w\<lparr>now := now w + d\<rparr>) = (closed, sid', w')"
        by (cases "onMessage so c sid parsed (w\<lparr>now := now w + d\<rparr>)") auto
      from onMessage_reads [OF m] Cons.IH [of sid' w'] False Message m
      show ?thesis by (cases closed) simp_all
    next
      case (Close d code reason)
      with False show ?thesis by (simp add: onClose_reads)
    next
      case (SocketError d msg)
      with False show ?thesis by (simp add: onError_reads)
    qed
  qed
qed

lemma attemptConnection_reads:
  "nat (maxRetries - r) = n \<Longrightarrow>
   gauge_value activeConnections (samples (attemptConnection env so wsUrl rpcUrl m ps timeout maxRetries r w))
     = Some (JNum (- 1))"
proof (induction n arbitrary: r w)
  case 0
  let ?tags = "wsTags env rpcUrl m (connection_id so (connects w)) r"
  let ?c = "\<lparr>c_tags = ?tags, c_reqId = subscribe_id so (connects w), c_startTime = now w,
             c_timeout = timeout, c_retryAttempt = r\<rparr>"
  let ?w0 = "metric_add activeConnections (JNum 1) ?tags
               (w\<lparr>connects := Suc (connects w),
                  sent := sent w @ [(wsUrl, buildRpcRequest (subscribe_id so (connects w)) (JStr m) ps)]\<rparr>)"
  let ?run = "run_socket so ?c (script so (connects w)) JNull ?w0"
  from 0 have last: "\<not> r < maxRetries" by simp
  have at: "attemptConnection env so wsUrl rpcUrl m ps timeout maxRetries r w = snd ?run"
    using last by (subst attemptConnection.simps) (cases ?run, auto split: terminal.splits)
  show ?case
    unfolding at by (rule run_socket_reads)
next
  case (Suc n)
  let ?tags = "wsTags env rpcUrl m (connection_id so (connects w)) r"
  let ?c = "\<lparr>c_tags = ?tags, c_reqId = subscribe_id so (connects w), c_startTime = now w,
             c_timeout = timeout, c_retryAttempt = r\<rparr>"
  let ?w0 = "metric_add activeConnections (JNum 1) ?tags
               (w\<lparr>connects := Suc (connects w),
                  sent := sent w @ [(wsUrl, buildRpcRequest (subscribe_id so (connects w)) (JStr m) ps)]\<rparr>)"
  let ?run = "run_socket so ?c (script so (connects w)) JNull ?w0"
  let ?w2 = "sleep (RETRY_DELAY_MS env) (metric_add retryCount (JNum 1) ?tags (snd ?run))"
  from Suc.prems have more: "r < maxRetries" and next_n: "nat (maxRetries - (r + 1)) = n"
    by simp_all
  show ?case
  proof (cases "fst ?run")
    case ClosedT
    then have at: "attemptConnection env so wsUrl rpcUrl m ps timeout maxRetries r w = snd ?run"
      by (subst attemptConnection.simps) (cases ?run, auto split: terminal.splits)
    show ?thesis unfolding at by (rule run_socket_reads)
  next
    case FailedT
    then have at: "attemptConnection env so wsUrl rpcUrl m ps timeout maxRetries r w =
        attemptConnection env so wsUrl rpcUrl m ps timeout maxRetries (r + 1) ?w2"
      using more by (subst attemptConnection.simps) (cases ?run, auto split: terminal.splits)
    show ?thesis unfolding at by (rule Suc.IH [OF next_n])
  qed
qed

lemma onClose_perf_reads:
  "gauge_value activeConnections (samples (onClose_perf env c code reason w)) = Some (JNum (- 1))"
  by (simp add: onClose_perf_def Let_def keeps_gauge)

lemma onError_perf_reads:
  "gauge_value activeConnections (samples (onError_perf env c msg w)) = Some (JNum (- 1))"
  by (simp add: onError_perf_def Let_def keeps_gauge)

lemma onMessage_perf_reads:
  assumes "onMessage_perf env so c sid raw parsed w = (closed, sid', w')"
  shows "gauge_value activeConnections (samples w')
           = (if closed then Some (JNum (- 1)) else gauge_value activeConnections (samples w))"
  using assms
  by (auto simp add: onMessage_perf_def Let_def socket_close_perf_def onClose_perf_reads keeps_gauge
        split: sum.splits if_splits)

lemma run_socket_perf_reads:
  "gauge_value activeConnections (samples (snd (run_socket_perf env so c evs sid w))) = Some (JNum (- 1))"
proof (induction evs arbitrary: sid w)
  case Nil
  show ?case by (simp add: onTimer_perf_def socket_close_perf_def onClose_perf_reads)
next
  case (Cons ev evs)
  show ?case
  proof (cases "c_startTime c + c_timeout c \<le> now w + delay ev")
    case True
    then show ?thesis by (simp add: onTimer_perf_def socket_close_perf_def onClose_perf_reads)
  next
    case False
    show ?thesis
    proof (cases ev)
      case (Message d raw parsed)
      obtain closed sid' w' where m:
        "onMessage_perf env so c sid raw parsed (w\<lparr>now := now w + d\<rparr>) = (closed, sid', w')"
        by (cases "onMessage_perf env so c sid raw parsed (w\<lparr>now := now w + d\<rparr>)") auto
      from onMessage_perf_reads [OF m] Cons.IH [of sid' w'] False Message m
      show ?thesis by (cases closed) simp_all
    next
      case (Close d code reason)
      with False show ?thesis by (simp add: onClose_perf_reads)
    next
      case (SocketError d msg)
      with False show ?thesis by (simp add: onError_perf_reads)
    qed
  qed
qed

lemma wsSub_perf_reads:
  "gauge_value activeConnections (samples (snd (wsSub_perf env so wsUrl rpcUrl m ps options w)))
     = Some (JNum (- 1))"
proof -
  let ?tags = "wsTags_perf env rpcUrl m (connection_id so (connects w)) 0"
  let ?c = "\<lparr>c_tags = ?tags, c_reqId = subscribe_id so (connects w), c_startTime = now w,
             c_timeout = or_default (opt_timeout options) (WS_TIMEOUT so), c_retryAttempt = 0\<rparr>"
  let ?w0 = "metric_add activeConnections (JNum 1) ?tags
               (w\<lparr>connects := Suc (connects w),
                  sent := sent w @ [(wsUrl, rpc (subscribe_id so (connects w)) (JStr m) ps)]\<rparr>)"
  let ?run = "run_socket_perf env so ?c (script so (connects w)) JNull ?w0"
  have at: "snd (wsSub_perf env so wsUrl rpcUrl m ps options w) = snd ?run"
    by (cases ?run) (auto simp add: wsSub_perf_def Let_def split: terminal.splits)
  show ?thesis
    unfolding at by (rule run_socket_perf_reads)
qed

text \<open>
  C5. The callback of \<open>ws.connect\<close> calls \<open>activeConnections.add(1)\<close> and the
  \<open>close\<close> and \<open>error\<close> handlers call \<open>activeConnections.add(-1)\<close>, on a metric
  that is a Gauge: each call replaces what the gauge shows. Whatever the gauge showed
  before the call, and whichever way the socket ends (a close by the peer, a close by
  the script after data or after the timeout, a transport error, with or without
  retries), the last value added is \<open>-1\<close>, so the gauge shows \<open>-1\<close> when \<open>wsSub\<close>
  is over and not the value it had before. This holds for the library module and for
  the stand-alone script.
\<close>

theorem activeConnections_shows_last_add:
  "gauge_value activeConnections (samples (wsSub env so wsUrl rpcUrl m ps options w)) = Some (JNum (- 1))
   \<and> gauge_value activeConnections (samples (snd (wsSub_perf env so wsUrl rpcUrl m ps options w)))
       = Some (JNum (- 1))"
  using attemptConnection_reads [of "or_default (opt_maxRetries options) 2" 0
          "nat (or_default (opt_maxRetries options) 2)" env so wsUrl rpcUrl m ps
          "or_default (opt_timeout options) (WS_TIMEOUT so)" w]
        wsSub_perf_reads [of env so wsUrl rpcUrl m ps options w]
  by (simp add: wsSub_def)

theorem activeConnections_shows_last_add_witness:
  "gauge_value activeConnections
     (samples (start_world\<lparr>samples := [(activeConnections, JNum 0, [])]\<rparr>)) = Some (JNum 0)
   \<and> map (\<lambda>s. fst (snd s)) (filter (\<lambda>s. fst s = activeConnections)
       (samples (wsSub (example_env 3 (always (5, Thrown None))) flaky_sockets
          ''ws://node'' ''http://node'' ''eth_subscribe'' (JArr [JStr ''newHeads'']) default_options
          (start_world\<lparr>samples := [(activeConnections, JNum 0, [])]\<rparr>))))
     = [JNum 0, JNum 1, JNum (- 1), JNum 1, JNum (- 1)]
   \<and> gauge_value activeConnections
       (samples (wsSub (example_env 3 (always (5, Thrown None))) flaky_sockets
          ''ws://node'' ''http://node'' ''eth_subscribe'' (JArr [JStr ''newHeads'']) default_options
          (start_world\<lparr>samples := [(activeConnections, JNum 0, [])]\<rparr>)))
     = Some (JNum (- 1))"
  using activeConnections_shows_last_add [of "example_env 3 (always (5, Thrown None))" flaky_sockets
          "''ws://node''" "''http://node''" "''eth_subscribe''" "JArr [JStr ''newHeads'']" default_options
          "start_world\<lparr>samples := [(activeConnections, JNum 0, [])]\<rparr>"]
  by (simp add: attemptConnection.simps eval_ws_defs eval_defs flaky_sockets_def scripted_def
        message_of_def)

subsection \<open>Nonces of the wallet manager (lib/wallet-manager.js)\<close>

lemma updateStateMetrics_fields [simp]:
  "posted (updateStateMetrics m r t w) = posted w"
  "slept (updateStateMetrics m r t w) = slept w"
  "now (updateStateMetrics m r t w) = now w"
  "signed (updateStateMetrics m r t w) = signed w"
  "connects (updateStateMetrics m r t w) = connects w"
  "sent (updateStateMetrics m r t w) = sent w"
  by (simp_all add: updateStateMetrics_def)

lemma jsonCall_response_fields:
  "posted (snd (jsonCall_response m f r rid t0 tg res w)) = posted w
   \<and> signed (snd (jsonCall_response m f r rid t0 tg res w)) = signed w"
  by (simp add: jsonCall_response_def split: sum.splits bool.splits prod.splits)

lemma js_prop_readable: "\<not> unreadable v \<Longrightarrow> \<exists>x. js_prop v k = Inr x"
  by (cases v) auto

lemma js_hasOwnProperty_readable: "\<not> unreadable v \<Longrightarrow> \<exists>b. js_hasOwnProperty v k = Inr b"
  by (cases v) auto

lemma structureChecks_readable: "\<not> unreadable v \<Longrightarrow> \<exists>b. structureChecks rid v = Inr b"
  using js_prop_readable [of v "''jsonrpc''"] js_prop_readable [of v "''id''"]
        js_hasOwnProperty_readable [of v "''result''"] js_hasOwnProperty_readable [of v "''error''"]
  by (auto simp add: structureChecks_def js_then_def)

lemma resultChecks_readable: "\<not> unreadable v \<Longrightarrow> \<exists>b. resultChecks f v = Inr b"
  using js_prop_readable [of v "''result''"] js_hasOwnProperty_readable [of v "''result''"]
  by (auto simp add: resultChecks_def js_then_def)

lemma jsonCall_response_returns:
  assumes "\<And>v. json res = Inr v \<Longrightarrow> \<not> unreadable v"
  shows "\<exists>x. fst (jsonCall_response m f r rid t0 tg res w) = Inr x"
proof (cases "json res")
  case (Inl e)
  then show ?thesis by (simp add: jsonCall_response_def)
next
  case (Inr v)
  with assms have rd: "\<not> unreadable v" by simp
  obtain b where sc: "structureChecks rid v = Inr b" using structureChecks_readable [OF rd] by blast
  obtain b2 where rc: "resultChecks f v = Inr b2" using resultChecks_readable [OF rd] by blast
  obtain e where pe: "js_prop v ''error'' = Inr e" using js_prop_readable [OF rd] by blast
  obtain x where pr: "js_prop v ''result'' = Inr x" using js_prop_readable [OF rd] by blast
  show ?thesis
    by (simp add: jsonCall_response_def Inr sc rc pe pr rpcErrorTags_truthy rpcErrorReason_truthy
          split: bool.splits)
qed

lemma obj_spread_cong:
  "obj_get a k = obj_get b k \<Longrightarrow> obj_get (obj_spread a fs) k = obj_get (obj_spread b fs) k"
  by (induction fs arbitrary: a b) (auto simp add: obj_get_obj_set)

lemma obj_get_obj_spread_notin:
  "k \<notin> set (map fst fs) \<Longrightarrow> obj_get (obj_spread a fs) k = obj_get a k"
  by (induction fs arbitrary: a) (auto simp add: obj_get_obj_set)

lemma baseTags_method: "obj_get (baseTags env url m r xt) ''method'' = method_tag m xt"
  unfolding baseTags_def method_tag_def by (rule obj_spread_cong) simp

lemma method_tag_plain: "''method'' \<notin> set (map fst xt) \<Longrightarrow> method_tag m xt = JStr m"
  by (simp add: method_tag_def obj_get_obj_spread_notin)

lemma jsonCall_single_post:
  assumes once: "\<not> (transport_fails (snd (transport env (length (posted w)))) \<and> r < MAX_RETRIES env)"
  shows "posted (snd (jsonCall env url m ps xt f r w)) =
     posted w @ [(url, buildRpcRequest (fresh_id env (length (posted w))) (JStr m) ps, baseTags env url m r xt)]"
proof (cases "transport_fails (snd (transport env (length (posted w))))")
  case True
  with once have last: "\<not> r < MAX_RETRIES env" by simp
  from jsonCall_last_step [OF True last, of url m ps xt f] obtain t reason where
    "jsonCall env url m ps xt f r w =
       (Inr JUndefined,
        recordFailure t reason [(''retryAttempt'', JNum r)]
          (w\<lparr>now := now w + fst (transport env (length (posted w))),
             posted := posted w @ [(url, buildRpcRequest (fresh_id env (length (posted w))) (JStr m) ps,
                                    baseTags env url m r xt)]\<rparr>))"
    by blast
  then show ?thesis by simp
next
  case False
  then obtain res where out: "snd (transport env (length (posted w))) = Response res"
    and noerr: "error_code res = 0"
    by (auto simp add: transport_fails_def split: http_outcome.splits)
  show ?thesis
    by (simp add: jsonCall_answer_step [OF out noerr] jsonCall_response_fields)
qed

lemma map_upt_Suc_shift: "map g [0..<Suc n] = g 0 # map (\<lambda>k. g (Suc k)) [0..<n]"
  by (simp add: map_upt_Suc del: upt_Suc)

lemma map_upt_split: "map g [0..<a + b] = map g [0..<a] @ map (\<lambda>k. g (a + k)) [0..<b]"
proof -
  have "[0..<a + b] = [0..<a] @ map (\<lambda>k. a + k) [0..<b]"
    by (induction b) simp_all
  then show ?thesis by (simp add: comp_def)
qed

text \<open>
  The requests of one \<open>jsonCall\<close>: the same url, method and parameters on every
  attempt, with a fresh id and the attempt number in the tags.
\<close>

lemma jsonCall_posts:
  "nat (MAX_RETRIES env - r) = n \<Longrightarrow>
   \<exists>k. 0 < k \<and> posted (snd (jsonCall env url m ps xt f r w)) =
     posted w @ map (\<lambda>j. (url, buildRpcRequest (fresh_id env (length (posted w) + j)) (JStr m) ps,
                          baseTags env url m (r + int j) xt)) [0..<k]"
proof (induction n arbitrary: r w)
  case 0
  then have once: "\<not> (transport_fails (snd (transport env (length (posted w)))) \<and> r < MAX_RETRIES env)"
    by simp
  have "posted (snd (jsonCall env url m ps xt f r w)) =
     posted w @ map (\<lambda>j. (url, buildRpcRequest (fresh_id env (length (posted w) + j)) (JStr m) ps,
                          baseTags env url m (r + int j) xt)) [0..<1]"
    by (simp add: jsonCall_single_post [OF once])
  then show ?case by (intro exI [of _ 1]) simp
next
  case (Suc n)
  then have more: "r < MAX_RETRIES env" and next_n: "nat (MAX_RETRIES env - (r + 1)) = n"
    by simp_all
  show ?case
  proof (cases "transport_fails (snd (transport env (length (posted w))))")
    case False
    then have once: "\<not> (transport_fails (snd (transport env (length (posted w)))) \<and> r < MAX_RETRIES env)"
      by simp
    have "posted (snd (jsonCall env url m ps xt f r w)) =
       posted w @ map (\<lambda>j. (url, buildRpcRequest (fresh_id env (length (posted w) + j)) (JStr m) ps,
                            baseTags env url m (r + int j) xt)) [0..<1]"
      by (simp add: jsonCall_single_post [OF once])
    then show ?thesis by (intro exI [of _ 1]) simp
  next
    case True
    let ?p = "(url, buildRpcRequest (fresh_id env (length (posted w))) (JStr m) ps, baseTags env url m r xt)"
    let ?w1 = "w\<lparr>now := now w + fst (transport env (length (posted w))), posted := posted w @ [?p]\<rparr>"
    let ?w2 = "sleep (RETRY_DELAY_MS env) (metric_add retryCount (JNum 1) (baseTags env url m r xt) ?w1)"
    let ?g = "\<lambda>j. (url, buildRpcRequest (fresh_id env (length (posted w) + j)) (JStr m) ps,
                    baseTags env url m (r + int j) xt)"
    note eq = jsonCall_retry_step [OF True more, of url m ps xt f]
    from Suc.IH [OF next_n, of ?w2] obtain k where
      k: "posted (snd (jsonCall env url m ps xt f (r + 1) ?w2)) =
            posted ?w2 @ map (\<lambda>j. (url, buildRpcRequest (fresh_id env (length (posted ?w2) + j)) (JStr m) ps,
                                    baseTags env url m (r + 1 + int j) xt)) [0..<k]"
      by blast
    have shift: "map (\<lambda>j. (url, buildRpcRequest (fresh_id env (length (posted ?w2) + j)) (JStr m) ps,
                           baseTags env url m (r + 1 + int j) xt)) [0..<k]
                 = map (\<lambda>j. ?g (Suc j)) [0..<k]"
      by (simp add: ac_simps)
    have "posted (snd (jsonCall env url m ps xt f r w)) = posted w @ map ?g [0..<Suc k]"
      unfolding eq k shift by (simp add: map_upt_Suc_shift del: upt_Suc)
    then show ?thesis by (intro exI [of _ "Suc k"]) simp
  qed
qed

lemma jsonCall_invariants:
  assumes rd: "readable env"
  shows "nat (MAX_RETRIES env - r) = n \<Longrightarrow>
     (\<exists>x. fst (jsonCall env url m ps xt f r w) = Inr x)
     \<and> signed (snd (jsonCall env url m ps xt f r w)) = signed w
     \<and> (\<exists>new. posted (snd (jsonCall env url m ps xt f r w)) = posted w @ new
           \<and> (\<forall>p\<in>set new. posted_method p = method_tag m xt))"
proof (induction n arbitrary: r w)
  case 0
  then have last: "\<not> r < MAX_RETRIES env" by simp
  let ?p = "(url, buildRpcRequest (fresh_id env (length (posted w))) (JStr m) ps, baseTags env url m r xt)"
  let ?w1 = "w\<lparr>now := now w + fst (transport env (length (posted w))), posted := posted w @ [?p]\<rparr>"
  have pm: "\<forall>p\<in>set [?p]. posted_method p = method_tag m xt"
    by (simp add: posted_method_def baseTags_method)
  show ?case
  proof (cases "transport_fails (snd (transport env (length (posted w))))")
    case True
    from jsonCall_last_step [OF True last, of url m ps xt f] obtain t reason where
      eq: "jsonCall env url m ps xt f r w = (Inr JUndefined, recordFailure t reason [(''retryAttempt'', JNum r)] ?w1)"
      by blast
    have "posted (snd (jsonCall env url m ps xt f r w)) = posted w @ [?p]"
      by (simp add: eq)
    with pm show ?thesis by (simp add: eq)
  next
    case False
    then obtain res where Response: "snd (transport env (length (posted w))) = Response res"
      and noerr: "error_code res = 0"
      by (auto simp add: transport_fails_def split: http_outcome.splits)
    have ok: "\<And>v. json res = Inr v \<Longrightarrow> \<not> unreadable v"
      using rd Response by (auto simp add: readable_def)
    note eq = jsonCall_answer_step [OF Response noerr, of url m ps xt f r]
    have "posted (snd (jsonCall env url m ps xt f r w)) = posted w @ [?p]"
      by (simp add: eq jsonCall_response_fields)
    with pm jsonCall_response_returns [OF ok] show ?thesis
      by (simp add: eq jsonCall_response_fields)
  qed
next
  case (Suc n)
  then have more: "r < MAX_RETRIES env" and next_n: "nat (MAX_RETRIES env - (r + 1)) = n"
    by simp_all
  note IH = Suc.IH [OF next_n]
  let ?p = "(url, buildRpcRequest (fresh_id env (length (posted w))) (JStr m) ps, baseTags env url m r xt)"
  let ?w1 = "w\<lparr>now := now w + fst (transport env (length (posted w))), posted := posted w @ [?p]\<rparr>"
  have pm: "posted_method ?p = method_tag m xt"
    by (simp add: posted_method_def baseTags_method)
  show ?case
  proof (cases "transport_fails (snd (transport env (length (posted w))))")
    case True
    let ?w2 = "sleep (RETRY_DELAY_MS env) (metric_add retryCount (JNum 1) (baseTags env url m r xt) ?w1)"
    note eq = jsonCall_retry_step [OF True more, of url m ps xt f]
    from IH [of ?w2] obtain new where
      p: "posted (snd (jsonCall env url m ps xt f (r + 1) ?w2)) = posted ?w2 @ new"
      and q: "\<forall>p\<in>set new. posted_method p = method_tag m xt"
      and s: "signed (snd (jsonCall env url m ps xt f (r + 1) ?w2)) = signed ?w2"
      and x: "\<exists>x. fst (jsonCall env url m ps xt f (r + 1) ?w2) = Inr x"
      by blast
    have p': "posted (snd (jsonCall env url m ps xt f r w)) = posted w @ (?p # new)"
      unfolding eq using p by simp
    have q': "\<forall>p\<in>set (?p # new). posted_method p = method_tag m xt"
      using q pm by simp
    have s': "signed (snd (jsonCall env url m ps xt f r w)) = signed w"
      unfolding eq using s by simp
    have x': "\<exists>x. fst (jsonCall env url m ps xt f r w) = Inr x"
      unfolding eq using x by simp
    from p' q' s' x' show ?thesis by blast
  next
    case False
    then obtain res where Response: "snd (transport env (length (posted w))) = Response res"
      and noerr: "error_code res = 0"
      by (auto simp add: transport_fails_def split: http_outcome.splits)
    have ok: "\<And>v. json res = Inr v \<Longrightarrow> \<not> unreadable v"
      using rd Response by (auto simp add: readable_def)
    note eq = jsonCall_answer_step [OF Response noerr, of url m ps xt f r]
    have p': "posted (snd (jsonCall env url m ps xt f r w)) = posted w @ [?p]"
      by (simp add: eq jsonCall_response_fields)
    have q': "\<forall>p\<in>set [?p]. posted_method p = method_tag m xt"
      using pm by simp
    have s': "signed (snd (jsonCall env url m ps xt f r w)) = signed w"
      by (simp add: eq jsonCall_response_fields)
    have x': "\<exists>x. fst (jsonCall env url m ps xt f r w) = Inr x"
      using jsonCall_response_returns [OF ok] by (simp add: eq)
    from p' q' s' x' show ?thesis by blast
  qed
qed

lemma case_result_Inr:
  "fst c = Inr h \<Longrightarrow>
   (case c of (Inl e, w2) \<Rightarrow> A e w2 | (Inr t, w2) \<Rightarrow> B t w2) = B h (snd c)"
  by (cases c) auto

lemma fund_batch_nonces:
  assumes rd: "readable env" and sg: "signer_total cfg"
  shows "\<exists>ws' w' txs new.
     fund_batch env cfg url key base gp i bi xs w = (Inr ws', w')
     \<and> signed w' = signed w @ txs
     \<and> map tx_nonce txs = map (\<lambda>k. js_plus (js_plus base (int i)) (int bi + int k)) [0..<length xs]
     \<and> posted w' = posted w @ new
     \<and> (\<forall>p\<in>set new. posted_method p = JStr ''eth_sendRawTransaction'')"
proof (induction xs arbitrary: bi w)
  case Nil
  show ?case by simp
next
  case (Cons x xs)
  let ?tx = "[(''nonce'', js_plus (js_plus base (int i)) (int bi)),
              (''gasPrice'', gp),
              (''gas'', JNum (gasLimit_simple cfg)),
              (''to'', JStr (addr x)),
              (''value'', JNum (defaultFundingAmount cfg)),
              (''data'', JStr ''0x''),
              (''chainId'', JNum (chainId cfg))]"
  let ?xt = "[(''op'', JStr ''fund_wallet''), (''wallet_index'', JNum (index x)),
              (''nonce'', js_plus (js_plus base (int i)) (int bi))]"
  let ?w1 = "w\<lparr>signed := signed w @ [?tx]\<rparr>"
  from sg obtain raw where raw: "signLegacyTx cfg ?tx key = Inr raw"
    unfolding signer_total_def by blast
  let ?call = "jsonCall env url ''eth_sendRawTransaction'' (JArr [JStr raw]) ?xt expect_any 0 ?w1"
  from jsonCall_invariants [OF rd refl, where r = 0 and url = url and m = "''eth_sendRawTransaction''"
         and ps = "JArr [JStr raw]" and xt = ?xt and f = expect_any and w = ?w1]
  obtain txHash new1 where
    r1: "fst ?call = Inr txHash" and s1: "signed (snd ?call) = signed ?w1"
    and p1: "posted (snd ?call) = posted ?w1 @ new1"
    and m1: "\<forall>p\<in>set new1. posted_method p = method_tag ''eth_sendRawTransaction'' ?xt"
    by blast
  have m1': "\<forall>p\<in>set new1. posted_method p = JStr ''eth_sendRawTransaction''"
    using m1 by (simp add: method_tag_plain)
  from Cons.IH [of "Suc bi" "snd ?call"] obtain ws' w' txs new where
    rec: "fund_batch env cfg url key base gp i (Suc bi) xs (snd ?call) = (Inr ws', w')"
    and s2: "signed w' = signed (snd ?call) @ txs"
    and n2: "map tx_nonce txs = map (\<lambda>k. js_plus (js_plus base (int i)) (int (Suc bi) + int k)) [0..<length xs]"
    and p2: "posted w' = posted (snd ?call) @ new"
    and m2: "\<forall>p\<in>set new. posted_method p = JStr ''eth_sendRawTransaction''"
    by blast
  have res: "fund_batch env cfg url key base gp i bi (x # xs) w
               = (Inr ((if truthy txHash then x\<lparr>fundingTx := txHash\<rparr> else x) # ws'), w')"
    by (simp add: sign_tx_def raw case_result_Inr [OF r1] rec)
  have sig: "signed w' = signed w @ (?tx # txs)"
    using s1 s2 by simp
  have non: "map tx_nonce (?tx # txs)
               = map (\<lambda>k. js_plus (js_plus base (int i)) (int bi + int k)) [0..<length (x # xs)]"
    using n2 by (simp add: map_upt_Suc_shift tx_nonce_def ac_simps del: upt_Suc)
  have pos: "posted w' = posted w @ (new1 @ new)"
    using p1 p2 by simp
  have met: "\<forall>p\<in>set (new1 @ new). posted_method p = JStr ''eth_sendRawTransaction''"
    using m1' m2 by auto
  from res sig non pos met show ?case by blast
qed

text \<open>
  Below \<open>2^53\<close> the two additions of \<open>baseNonce + i + batchIndex\<close> are exact.
\<close>

lemma nonce_exact:
  "0 \<le> b \<Longrightarrow> b + int i + int k < 2 ^ 53 \<Longrightarrow>
   js_plus (js_plus (JNum b) (int i)) (int k) = JNum (b + int i + int k)"
  by (simp add: js_plus_def)

text \<open>
  From \<open>2^53\<close> on they are not: with the base nonce \<open>2^53\<close> the second transaction
  of the first batch gets the nonce of the first one, and the third one skips a number.
\<close>

lemma bit_length_above_2_53:
  "bit_length 9007199254740993 = 54" "bit_length 9007199254740994 = 54"
  by (simp_all add: bit_length.simps)

lemma nonce_rounded_at_2_53:
  "js_plus (js_plus (JNum (2 ^ 53)) (int 0)) (int 0) = JNum (2 ^ 53)"
  "js_plus (js_plus (JNum (2 ^ 53)) (int 0)) (int 1) = JNum (2 ^ 53)"
  "js_plus (js_plus (JNum (2 ^ 53)) (int 0)) (int 2) = JNum (2 ^ 53 + 2)"
  by (simp_all add: js_plus_def to_double_def round_to_double_def Let_def bit_length_above_2_53
        bit_length.simps)

lemma fund_loop_nonces:
  assumes rd: "readable env" and sg: "signer_total cfg" and bs: "0 < batchSize cfg"
    and nonneg: "0 \<le> b"
  shows "b + int i + int (length rest) < 2 ^ 53 \<Longrightarrow>
     \<exists>ws' w' txs new.
       fund_loop env cfg url key (JNum b) gp i rest w = Some (Inr ws', w')
       \<and> signed w' = signed w @ txs
       \<and> map tx_nonce txs = map (\<lambda>k. JNum (b + int i + int k)) [0..<length rest]
       \<and> posted w' = posted w @ new
       \<and> (\<forall>p\<in>set new. posted_method p = JStr ''eth_sendRawTransaction'')"
proof (induction rest arbitrary: i w rule: length_induct)
  case (1 rest)
  note bound = "1.prems"
  show ?case
  proof (cases "rest = []")
    case True
    then show ?thesis by (subst fund_loop.simps) simp
  next
    case False
    let ?b = "nat (batchSize cfg)"
    let ?w2 = "\<lambda>w1. if drop ?b rest \<noteq> [] then sleep 100 w1 else w1"
    have bpos: "0 < ?b" using bs by simp
    have nbs: "\<not> batchSize cfg \<le> 0" using bs by simp
    from fund_batch_nonces [OF rd sg, of url key "JNum b" gp i 0 "take ?b rest" w]
    obtain batch w1 txs1 new1 where
      fb: "fund_batch env cfg url key (JNum b) gp i 0 (take ?b rest) w = (Inr batch, w1)"
      and s1: "signed w1 = signed w @ txs1"
      and n1: "map tx_nonce txs1
                 = map (\<lambda>k. js_plus (js_plus (JNum b) (int i)) (int 0 + int k)) [0..<length (take ?b rest)]"
      and p1: "posted w1 = posted w @ new1"
      and m1: "\<forall>p\<in>set new1. posted_method p = JStr ''eth_sendRawTransaction''"
      by blast
    have n1': "map tx_nonce txs1 = map (\<lambda>k. JNum (b + int i + int k)) [0..<length (take ?b rest)]"
      unfolding n1
    proof (rule map_cong [OF refl])
      fix k assume "k \<in> set [0..<length (take ?b rest)]"
      then have "k < length rest" by simp
      with bound have "b + int i + int k < 2 ^ 53" by simp
      from nonce_exact [OF nonneg this]
      show "js_plus (js_plus (JNum b) (int i)) (int 0 + int k) = JNum (b + int i + int k)"
        by simp
    qed
    have "\<exists>rest' w3 txs2 new2.
       fund_loop env cfg url key (JNum b) gp (i + ?b) (drop ?b rest) (?w2 w1) = Some (Inr rest', w3)
       \<and> signed w3 = signed w1 @ txs2
       \<and> map tx_nonce txs2 = map (\<lambda>k. JNum (b + int (i + ?b) + int k)) [0..<length (drop ?b rest)]
       \<and> posted w3 = posted w1 @ new2
       \<and> (\<forall>p\<in>set new2. posted_method p = JStr ''eth_sendRawTransaction'')"
    proof (cases "drop ?b rest = []")
      case True
      then have "fund_loop env cfg url key (JNum b) gp (i + ?b) (drop ?b rest) (?w2 w1) = Some (Inr [], w1)"
        by (subst fund_loop.simps) simp
      with True show ?thesis by simp
    next
      case more: False
      then have longer: "?b < length rest" by simp
      then have shorter: "length (drop ?b rest) < length rest"
        using bpos by simp
      have bound2: "b + int (i + ?b) + int (length (drop ?b rest)) < 2 ^ 53"
        using bound longer by simp
      from "1.IH" [rule_format, OF shorter bound2, of "?w2 w1"]
      obtain rest' w3 txs2 new2 where
        fl: "fund_loop env cfg url key (JNum b) gp (i + ?b) (drop ?b rest) (?w2 w1) = Some (Inr rest', w3)"
        and s2: "signed w3 = signed (?w2 w1) @ txs2"
        and n2: "map tx_nonce txs2 = map (\<lambda>k. JNum (b + int (i + ?b) + int k)) [0..<length (drop ?b rest)]"
        and p2: "posted w3 = posted (?w2 w1) @ new2"
        and m2: "\<forall>p\<in>set new2. posted_method p = JStr ''eth_sendRawTransaction''"
        by blast
      from fl s2 n2 p2 m2 show ?thesis by simp
    qed
    then obtain rest' w3 txs2 new2 where
      fl: "fund_loop env cfg url key (JNum b) gp (i + ?b) (drop ?b rest) (?w2 w1) = Some (Inr rest', w3)"
      and s2: "signed w3 = signed w1 @ txs2"
      and n2: "map tx_nonce txs2 = map (\<lambda>k. JNum (b + int (i + ?b) + int k)) [0..<length (drop ?b rest)]"
      and p2: "posted w3 = posted w1 @ new2"
      and m2: "\<forall>p\<in>set new2. posted_method p = JStr ''eth_sendRawTransaction''"
      by blast
    have res: "fund_loop env cfg url key (JNum b) gp i rest w = Some (Inr (batch @ rest'), w3)"
      by (subst fund_loop.simps)
         (simp only: False nbs if_False fb fl prod.case sum.case option.case)
    have sig: "signed w3 = signed w @ (txs1 @ txs2)"
      using s1 s2 by simp
    have pos: "posted w3 = posted w @ (new1 @ new2)"
      using p1 p2 by simp
    have met: "\<forall>p\<in>set (new1 @ new2). posted_method p = JStr ''eth_sendRawTransaction''"
      using m1 m2 by auto
    have non: "map tx_nonce (txs1 @ txs2) = map (\<lambda>k. JNum (b + int i + int k)) [0..<length rest]"
    proof (cases "?b \<le> length rest")
      case True
      then have len: "length rest = ?b + (length rest - ?b)" by simp
      have "map (\<lambda>k. JNum (b + int i + int k)) [0..<?b + (length rest - ?b)]
              = map (\<lambda>k. JNum (b + int i + int k)) [0..<?b]
                @ map (\<lambda>k. JNum (b + int i + int (?b + k))) [0..<length rest - ?b]"
        by (rule map_upt_split)
      then show ?thesis
        using n1' n2 True len by (simp add: min_def ac_simps)
    next
      case False
      then show ?thesis using n1' n2 by (simp add: min_def)
    qed
    from res sig non pos met show ?thesis by blast
  qed
qed

text \<open>
  C1, as the code has it for \<open>fundWallets\<close>. Take a node whose bodies can be read, a
  signer that always signs and a positive batch size, and let the request for the
  pending nonce of the base address with which the call starts yield a number \<open>b\<close>
  that is not negative, with \<open>b + wallets.length\<close> below \<open>2^53\<close>, where the additions
  of the code are exact. Then the call returns \<open>b + wallets.length\<close>; the transactions
  it signs for the base address carry the nonces \<open>b, b + 1, ..., b + wallets.length - 1\<close>
  in this order; and its requests are, first, \<open>eth_getTransactionCount\<close> for
  \<open>[baseAddr, 'pending']\<close> at the funding url (once, or again after a transport failure
  while retries remain) and then requests none of which asks for a nonce.
\<close>

theorem fundWallets_contiguous_nonces:
  assumes rd: "readable env" and sg: "signer_total cfg" and bs: "0 < batchSize cfg"
    and first: "fst (jsonCall env fundUrl ''eth_getTransactionCount'' (JArr [JStr baseAddr, JStr ''pending''])
                       [(''op'', JStr ''get_nonce'')] expect_any 0 w) = Inr v"
    and num: "js_Number v = JNum b"
    and nonneg: "0 \<le> b"
    and safe: "b + int (length wallets) < 2 ^ 53"
  shows "case fundWallets env cfg fundUrl wallets basePrivKey baseAddr w of
           Some (Inr (ret, wallets'), w') \<Rightarrow>
             ret = JNum (b + int (length wallets))
             \<and> map tx_nonce (drop (length (signed w)) (signed w'))
                 = map (\<lambda>k. JNum (b + int k)) [0..<length wallets]
             \<and> (\<exists>k later. 0 < k
                   \<and> posted w' = posted w @ map (nonce_request env fundUrl baseAddr (length (posted w))) [0..<k]
                                  @ later
                   \<and> (\<forall>p\<in>set later. posted_method p \<noteq> JStr ''eth_getTransactionCount''))
         | _ \<Rightarrow> False"
proof -
  let ?c1 = "jsonCall env fundUrl ''eth_getTransactionCount'' (JArr [JStr baseAddr, JStr ''pending''])
               [(''op'', JStr ''get_nonce'')] expect_any 0 w"
  let ?c2 = "jsonCall env fundUrl ''eth_gasPrice'' (JArr []) [(''op'', JStr ''get_gas_price'')] expect_any 0 (snd ?c1)"
  from jsonCall_invariants [OF rd refl, where r = 0 and url = fundUrl and m = "''eth_getTransactionCount''"
         and ps = "JArr [JStr baseAddr, JStr ''pending'']" and xt = "[(''op'', JStr ''get_nonce'')]"
         and f = expect_any and w = w]
  have s1: "signed (snd ?c1) = signed w" by blast
  from jsonCall_posts [OF refl, where r = 0 and url = fundUrl and m = "''eth_getTransactionCount''"
         and ps = "JArr [JStr baseAddr, JStr ''pending'']" and xt = "[(''op'', JStr ''get_nonce'')]"
         and f = expect_any and w = w and env = env]
  obtain k where kpos: "0 < k"
    and p1: "posted (snd ?c1) = posted w @ map (nonce_request env fundUrl baseAddr (length (posted w))) [0..<k]"
    by (auto simp add: nonce_request_def)
  from jsonCall_invariants [OF rd refl, where r = 0 and url = fundUrl and m = "''eth_gasPrice''"
         and ps = "JArr []" and xt = "[(''op'', JStr ''get_gas_price'')]"
         and f = expect_any and w = "snd ?c1"]
  obtain price newg where
    r2: "fst ?c2 = Inr price" and s2: "signed (snd ?c2) = signed (snd ?c1)"
    and p2: "posted (snd ?c2) = posted (snd ?c1) @ newg"
    and m2: "\<forall>p\<in>set newg. posted_method p = method_tag ''eth_gasPrice'' [(''op'', JStr ''get_gas_price'')]"
    by blast
  have m2': "\<forall>p\<in>set newg. posted_method p = JStr ''eth_gasPrice''"
    using m2 by (simp add: method_tag_plain)
  have safe0: "b + int 0 + int (length wallets) < 2 ^ 53"
    using safe by simp
  from fund_loop_nonces [OF rd sg bs nonneg safe0, of fundUrl basePrivKey
         "floor_scaled (js_Number price) (gasPriceMultiplier cfg)" "snd ?c2"]
  obtain ws' w' txs new where
    fl: "fund_loop env cfg fundUrl basePrivKey (JNum b)
           (floor_scaled (js_Number price) (gasPriceMultiplier cfg)) 0 wallets (snd ?c2) = Some (Inr ws', w')"
    and s3: "signed w' = signed (snd ?c2) @ txs"
    and n3: "map tx_nonce txs = map (\<lambda>k. JNum (b + int 0 + int k)) [0..<length wallets]"
    and p3: "posted w' = posted (snd ?c2) @ new"
    and m3: "\<forall>p\<in>set new. posted_method p = JStr ''eth_sendRawTransaction''"
    by blast
  have total: "js_plus (JNum b) (int (length wallets)) = JNum (b + int (length wallets))"
    using nonneg safe by (simp add: js_plus_def)
  have res: "fundWallets env cfg fundUrl wallets basePrivKey baseAddr w
               = Some (Inr (JNum (b + int (length wallets)), ws'), w')"
    by (simp add: fundWallets_def case_result_Inr [OF first] case_result_Inr [OF r2] num fl total)
  have sig: "drop (length (signed w)) (signed w') = txs"
    using s1 s2 s3 by simp
  have pos: "posted w' = posted w @ map (nonce_request env fundUrl baseAddr (length (posted w))) [0..<k]
               @ (newg @ new)"
    using p1 p2 p3 by simp
  have none: "\<forall>p\<in>set (newg @ new). posted_method p \<noteq> JStr ''eth_getTransactionCount''"
    using m2' m3 by auto
  have reqs: "\<exists>k later. 0 < k
         \<and> posted w' = posted w @ map (nonce_request env fundUrl baseAddr (length (posted w))) [0..<k] @ later
         \<and> (\<forall>p\<in>set later. posted_method p \<noteq> JStr ''eth_getTransactionCount'')"
    using kpos pos none by blast
  show ?thesis
    using n3 reqs by (simp add: res sig)
qed

lemmas eval_wallet_defs = steady_node_def nonce_response_def example_chain_def constant_signer_def
  base_wallet_def buildRawTx_def sign_tx_def floor_scaled_def string_to_number_def digit_value_def
  tx_nonce_def posted_method_def js_plus_def

text \<open>
  \<open>buildRawTx\<close> keeps no counter: it asks the node for the pending nonce on every
  call. Two calls for the same wallet against a node that answers \<open>0x5\<close> both times
  sign two transactions with the nonce 5, and send \<open>eth_getTransactionCount\<close> twice.
\<close>

theorem buildRawTx_repeats_nonce_counterexample:
  "map tx_nonce (signed (snd (buildRawTx steady_node example_chain ''http://node'' base_wallet ''0xerc20''
        (JNum 0) ''0xa9059cbb'' []
        (snd (buildRawTx steady_node example_chain ''http://node'' base_wallet ''0xerc20''
           (JNum 0) ''0xa9059cbb'' [] start_world)))))
     = [JNum 5, JNum 5]
   \<and> map posted_method (posted (snd (buildRawTx steady_node example_chain ''http://node'' base_wallet ''0xerc20''
        (JNum 0) ''0xa9059cbb'' []
        (snd (buildRawTx steady_node example_chain ''http://node'' base_wallet ''0xerc20''
           (JNum 0) ''0xa9059cbb'' [] start_world)))))
     = [JStr ''eth_getTransactionCount'', JStr ''eth_gasPrice'',
        JStr ''eth_getTransactionCount'', JStr ''eth_gasPrice'']"
  by (simp add: jsonCall.simps eval_wallet_defs eval_defs)

theorem fundWallets_contiguous_nonces_witness:
  "readable steady_node \<and> signer_total example_chain \<and> 0 < batchSize example_chain
   \<and> fst (jsonCall steady_node ''http://node'' ''eth_getTransactionCount''
              (JArr [JStr ''0xbase'', JStr ''pending'']) [(''op'', JStr ''get_nonce'')] expect_any 0 start_world)
        = Inr (JStr ''0x5'')
   \<and> js_Number (JStr ''0x5'') = JNum 5
   \<and> (5::int) + int (length three_wallets) < 2 ^ 53
   \<and> (case fundWallets steady_node example_chain ''http://node'' three_wallets ''01'' ''0xbase'' start_world of
         Some (Inr (ret, wallets'), w') \<Rightarrow>
           ret = JNum 8
           \<and> map tx_nonce (signed w') = [JNum 5, JNum 6, JNum 7]
           \<and> map posted_method (posted w')
               = [JStr ''eth_getTransactionCount'', JStr ''eth_gasPrice'', JStr ''eth_sendRawTransaction'',
                  JStr ''eth_sendRawTransaction'', JStr ''eth_sendRawTransaction'']
           \<and> hd (posted w') = nonce_request steady_node ''http://node'' ''0xbase'' 0 0
           \<and> slept w' = [100]
       | _ \<Rightarrow> False)"
  using fundWallets_contiguous_nonces [where env = steady_node and cfg = example_chain
          and fundUrl = "''http://node''" and baseAddr = "''0xbase''" and w = start_world
          and v = "JStr ''0x5''" and b = 5 and wallets = three_wallets and basePrivKey = "''01''"]
  by (simp add: fundWallets_def fund_loop.simps jsonCall.simps readable_def signer_total_def
        three_wallets_def nonce_request_def eval_wallet_defs eval_defs)

end
